theory Spec2Isabelle
  imports Complex_Main
begin

section \<open>Arrays\<close>

text \<open>
  A NumPy array is a shape and a buffer in row-major order. The codec only ever reads an
  array of shape \<open>(N, 3)\<close>, row by row; \<open>rows_of\<close> cuts the buffer into rows of three
  and \<open>flat_of\<close> writes rows back. A double-precision float is a \<open>real\<close>. The functions
  of the first sections compute in exact arithmetic; the section on floating-point
  arithmetic gives each of them again with the rounding of every operation. In both, a
  division by zero (which NumPy answers with \<open>inf\<close> or \<open>nan\<close>, values \<open>real\<close> does not
  have) is an outcome of its own, \<open>NonFinite\<close>.
\<close>

datatype 'a ndarray = NDArray (shape: "nat list") (flat: "'a list")

type_synonym vec3 = "real \<times> real \<times> real"

datatype axis = X | Y | Z

fun sel :: "axis \<Rightarrow> 'a \<times> 'a \<times> 'a \<Rightarrow> 'a" where
  "sel X (x, y, z) = x"
| "sel Y (x, y, z) = y"
| "sel Z (x, y, z) = z"

fun vmap :: "('a \<Rightarrow> 'b) \<Rightarrow> 'a \<times> 'a \<times> 'a \<Rightarrow> 'b \<times> 'b \<times> 'b" where
  "vmap f (x, y, z) = (f x, f y, f z)"

fun vzip :: "('a \<Rightarrow> 'b \<Rightarrow> 'c) \<Rightarrow> 'a \<times> 'a \<times> 'a \<Rightarrow> 'b \<times> 'b \<times> 'b \<Rightarrow> 'c \<times> 'c \<times> 'c" where
  "vzip f (a, b, c) (x, y, z) = (f a x, f b y, f c z)"

fun rows_of :: "'a list \<Rightarrow> ('a \<times> 'a \<times> 'a) list" where
  "rows_of (x # y # z # rest) = (x, y, z) # rows_of rest"
| "rows_of _ = []"

fun flat_of :: "('a \<times> 'a \<times> 'a) list \<Rightarrow> 'a list" where
  "flat_of [] = []"
| "flat_of ((x, y, z) # vs) = x # y # z # flat_of vs"

definition of_rows :: "('a \<times> 'a \<times> 'a) list \<Rightarrow> 'a ndarray" where
  "of_rows vs = NDArray [length vs, 3] (flat_of vs)"

definition column :: "axis \<Rightarrow> ('a \<times> 'a \<times> 'a) list \<Rightarrow> 'a list" where
  "column a vs = map (sel a) vs"

text \<open>The test \<open>a.ndim != 2 or a.shape[1] != 3\<close>; \<open>or\<close> does not read \<open>shape[1]\<close>
  when the first test holds.\<close>

definition invalid_shape :: "'a ndarray \<Rightarrow> bool" where
  "invalid_shape a = (if length (shape a) \<noteq> 2 then True else shape a ! 1 \<noteq> 3)"

text \<open>Well-formed arrays: the buffer holds as many entries as the shape says.\<close>

definition wf_array :: "'a ndarray \<Rightarrow> bool" where
  "wf_array a = (length (flat a) = prod_list (shape a))"

section \<open>Errors\<close>

text \<open>
  Every \<open>raise\<close> of the source raises \<open>ValueError\<close>; the message tells them apart.
  \<open>Zero_size_reduction\<close> is the \<open>ValueError\<close> NumPy raises when \<open>min\<close> or \<open>max\<close>
  reduces an array without entries. \<open>KeyError\<close> is a missing key of a parameter
  dictionary, \<open>SystemExit\<close> is \<open>sys.exit\<close>.
\<close>

datatype msg =
    Invalid_vertices_shape "nat list"
  | Invalid_normalized_shape "nat list"
  | Invalid_quantized_shape "nat list"
  | Invalid_method_in_params string
  | Unknown_method string
  | Shape_mismatch "nat list" "nat list"
  | Zero_size_reduction

datatype error = ValueError msg | KeyError string | SystemExit int | NonFinite

fun is_ShapeError :: "error \<Rightarrow> bool" where
  "is_ShapeError (ValueError (Invalid_vertices_shape s)) = True"
| "is_ShapeError (ValueError (Invalid_normalized_shape s)) = True"
| "is_ShapeError (ValueError (Invalid_quantized_shape s)) = True"
| "is_ShapeError (ValueError (Shape_mismatch s t)) = True"
| "is_ShapeError (ValueError Zero_size_reduction) = True"
| "is_ShapeError _ = False"

fun is_MethodMismatchError :: "error \<Rightarrow> bool" where
  "is_MethodMismatchError (ValueError (Invalid_method_in_params m)) = True"
| "is_MethodMismatchError _ = False"

definition and_then :: "error + 'a \<Rightarrow> ('a \<Rightarrow> error + 'b) \<Rightarrow> error + 'b" where
  "and_then r f = (case r of Inl e \<Rightarrow> Inl e | Inr x \<Rightarrow> f x)"

text \<open>\<open>np.min\<close> and \<open>np.max\<close> of a sequence: they raise on an empty one.\<close>

definition amin :: "'a::linorder list \<Rightarrow> error + 'a" where
  "amin xs = (if xs = [] then Inl (ValueError Zero_size_reduction) else Inr (Min (set xs)))"

definition amax :: "'a::linorder list \<Rightarrow> error + 'a" where
  "amax xs = (if xs = [] then Inl (ValueError Zero_size_reduction) else Inr (Max (set xs)))"

text \<open>\<open>np.mean\<close>: the sum over the count. On an empty sequence NumPy gives \<open>nan\<close> and
  a warning, not an exception; each caller below raises in the reduction that follows
  before it uses that value.\<close>

definition mean :: "real list \<Rightarrow> real" where
  "mean xs = sum_list xs / real (length xs)"

text \<open>Reductions along axis 0 of an \<open>(N, 3)\<close> array.\<close>

definition amin_axis0 :: "vec3 list \<Rightarrow> error + vec3" where
  "amin_axis0 vs =
     (if vs = [] then Inl (ValueError Zero_size_reduction)
      else Inr (Min (set (column X vs)), Min (set (column Y vs)), Min (set (column Z vs))))"

definition amax_axis0 :: "vec3 list \<Rightarrow> error + vec3" where
  "amax_axis0 vs =
     (if vs = [] then Inl (ValueError Zero_size_reduction)
      else Inr (Max (set (column X vs)), Max (set (column Y vs)), Max (set (column Z vs))))"

definition mean_axis0 :: "vec3 list \<Rightarrow> vec3" where
  "mean_axis0 vs = (mean (column X vs), mean (column Y vs), mean (column Z vs))"

text \<open>\<open>np.linalg.norm(\<dots>, axis=1)\<close>: the Euclidean norm of each row.\<close>

fun norm3 :: "vec3 \<Rightarrow> real" where
  "norm3 (x, y, z) = sqrt (x\<^sup>2 + y\<^sup>2 + z\<^sup>2)"

text \<open>Element-wise division of every row by a broadcast divisor. A zero divisor gives
  \<open>inf\<close> or \<open>nan\<close> in every row.\<close>

definition divide_rows :: "vec3 list \<Rightarrow> vec3 \<Rightarrow> error + vec3 list" where
  "divide_rows vs d =
     (if vs \<noteq> [] \<and> (sel X d = 0 \<or> sel Y d = 0 \<or> sel Z d = 0) then Inl NonFinite
      else Inr (map (\<lambda>v. vzip (/) v d) vs))"

definition divide_scalar :: "vec3 list \<Rightarrow> real \<Rightarrow> error + vec3 list" where
  "divide_scalar vs s =
     (if vs \<noteq> [] \<and> s = 0 then Inl NonFinite else Inr (map (vmap (\<lambda>x. x / s)) vs))"

section \<open>Normalization (normalization.py)\<close>

text \<open>The parameter dictionary: the key \<open>method\<close> (the field \<open>pmethod\<close>), and the keys each method stores.\<close>

record params =
  pmethod :: string
  v_min :: "vec3 option"
  v_max :: "vec3 option"
  center :: "vec3 option"
  scale :: "real option"

text \<open>\<open>range_per_axis[range_per_axis == 0] = 1.0\<close>\<close>

definition range_per_axis :: "vec3 \<Rightarrow> vec3 \<Rightarrow> vec3" where
  "range_per_axis lo hi = vmap (\<lambda>r. if r = 0 then 1 else r) (vzip (-) hi lo)"

definition norm_minmax :: "real ndarray \<Rightarrow> error + real ndarray \<times> params" where
  "norm_minmax vertices =
     (if invalid_shape vertices
      then Inl (ValueError (Invalid_vertices_shape (shape vertices)))
      else
        let vs = rows_of (flat vertices) in
        and_then (amin_axis0 vs) (\<lambda>lo.
        and_then (amax_axis0 vs) (\<lambda>hi.
        and_then (divide_rows (map (\<lambda>v. vzip (-) v lo) vs) (range_per_axis lo hi))
          (\<lambda>normalized.
             Inr (NDArray (shape vertices) (flat_of normalized),
                  \<lparr>pmethod = ''minmax'', v_min = Some lo, v_max = Some hi,
                   center = None, scale = None\<rparr>)))))"

definition denorm_minmax :: "real ndarray \<Rightarrow> params \<Rightarrow> error + real ndarray" where
  "denorm_minmax normalized p =
     (if pmethod p \<noteq> ''minmax''
      then Inl (ValueError (Invalid_method_in_params (pmethod p)))
      else if invalid_shape normalized
      then Inl (ValueError (Invalid_normalized_shape (shape normalized)))
      else
        case v_min p of
          None \<Rightarrow> Inl (KeyError ''v_min'')
        | Some lo \<Rightarrow>
            (case v_max p of
               None \<Rightarrow> Inl (KeyError ''v_max'')
             | Some hi \<Rightarrow>
                 Inr (NDArray (shape normalized)
                        (flat_of (map (\<lambda>v. vzip (+) (vzip (*) v (vzip (-) hi lo)) lo)
                                      (rows_of (flat normalized)))))))"

definition norm_sphere :: "real ndarray \<Rightarrow> error + real ndarray \<times> params" where
  "norm_sphere vertices =
     (if invalid_shape vertices
      then Inl (ValueError (Invalid_vertices_shape (shape vertices)))
      else
        let vs = rows_of (flat vertices);
            c = mean_axis0 vs;
            shifted = map (\<lambda>v. vzip (-) v c) vs;
            distances = map norm3 shifted
        in
        and_then (amax distances) (\<lambda>m.
          let s = (if m = 0 then 1 else m) in
          and_then (divide_scalar shifted s) (\<lambda>normalized.
            Inr (NDArray (shape vertices) (flat_of normalized),
                 \<lparr>pmethod = ''sphere'', v_min = None, v_max = None,
                  center = Some c, scale = Some s\<rparr>))))"

definition denorm_sphere :: "real ndarray \<Rightarrow> params \<Rightarrow> error + real ndarray" where
  "denorm_sphere normalized p =
     (if pmethod p \<noteq> ''sphere''
      then Inl (ValueError (Invalid_method_in_params (pmethod p)))
      else if invalid_shape normalized
      then Inl (ValueError (Invalid_normalized_shape (shape normalized)))
      else
        case center p of
          None \<Rightarrow> Inl (KeyError ''center'')
        | Some c \<Rightarrow>
            (case scale p of
               None \<Rightarrow> Inl (KeyError ''scale'')
             | Some s \<Rightarrow>
                 Inr (NDArray (shape normalized)
                        (flat_of (map (\<lambda>v. vzip (+) (vmap (\<lambda>x. x * s) v) c)
                                      (rows_of (flat normalized)))))))"

section \<open>Quantization (step4_quantize.py)\<close>

text \<open>
  \<open>np.floor\<close> keeps a float; \<open>.astype(np.int32)\<close> converts it. The conversion of a
  float outside the range of \<open>int32\<close> is not defined by NumPy (it is the C cast of the
  platform), so the model takes what it yields there as a parameter \<open>ovf\<close>. On x86-64 the
  conversion instruction answers every out-of-range operand with \<open>-2\<^sup>3\<^sup>1\<close>.
\<close>

definition np_floor :: "real \<Rightarrow> real" where
  "np_floor x = of_int \<lfloor>x\<rfloor>"

definition int32_range :: "int \<Rightarrow> bool" where
  "int32_range k = (- 2147483648 \<le> k \<and> k \<le> 2147483647)"

definition astype_int32 :: "(real \<Rightarrow> int) \<Rightarrow> real \<Rightarrow> int" where
  "astype_int32 ovf y = (if int32_range \<lfloor>y\<rfloor> then \<lfloor>y\<rfloor> else ovf y)"

definition x86_indefinite :: "real \<Rightarrow> int" where
  "x86_indefinite y = - 2147483648"

text \<open>\<open>np.clip(q, lo, hi)\<close> is \<open>minimum(maximum(q, lo), hi)\<close>.\<close>

definition clip :: "int \<Rightarrow> int \<Rightarrow> int \<Rightarrow> int" where
  "clip q lo hi = min (max q lo) hi"

definition BINS :: int where
  "BINS = 1024"

definition quantize :: "(real \<Rightarrow> int) \<Rightarrow> real ndarray \<Rightarrow> int \<Rightarrow> string \<Rightarrow> error + int ndarray" where
  "quantize ovf normalized bins meth =
     (if invalid_shape normalized
      then Inl (ValueError (Invalid_normalized_shape (shape normalized)))
      else
        and_then
          (if meth = ''minmax'' then Inr (rows_of (flat normalized))
           else if meth = ''sphere''
           then Inr (map (vmap (\<lambda>x. (x + 1) / 2)) (rows_of (flat normalized)))
           else Inl (ValueError (Unknown_method meth)))
          (\<lambda>normalized01.
             Inr (NDArray (shape normalized)
                    (flat_of
                       (map (vmap (\<lambda>x. clip (astype_int32 ovf (np_floor (x * of_int (bins - 1))))
                                          0 (bins - 1)))
                            normalized01)))))"

text \<open>The division comes before the test of the method, and does not raise: an unknown
  method raises whatever the division gave.\<close>

definition dequantize :: "int ndarray \<Rightarrow> int \<Rightarrow> string \<Rightarrow> error + real ndarray" where
  "dequantize q bins meth =
     (if invalid_shape q
      then Inl (ValueError (Invalid_quantized_shape (shape q)))
      else
        let dequantized01 = divide_scalar (map (vmap of_int) (rows_of (flat q))) (of_int (bins - 1))
        in
        if meth = ''minmax''
        then and_then dequantized01 (\<lambda>d. Inr (NDArray (shape q) (flat_of d)))
        else if meth = ''sphere''
        then and_then dequantized01
               (\<lambda>d. Inr (NDArray (shape q) (flat_of (map (vmap (\<lambda>x. x * 2 - 1)) d))))
        else Inl (ValueError (Unknown_method meth)))"

text \<open>
  \<open>process_mesh_file\<close> without its file input and output: the vertices are what
  \<open>load_mesh\<close> returned, and of its statistics the entry per method is returned (the
  file name and the vertex count are left out). The branch that prints
  \<open>Quantized values out of range\<close> and calls \<open>sys.exit(1)\<close> is \<open>SystemExit 1\<close>.
\<close>

record method_stats =
  q_min :: int
  q_max :: int
  stat_params :: params

definition process_method ::
  "(real \<Rightarrow> int) \<Rightarrow> real ndarray \<Rightarrow> string \<times> (real ndarray \<Rightarrow> error + real ndarray \<times> params)
     \<Rightarrow> error + string \<times> method_stats" where
  "process_method ovf vertices m =
     (case m of (method_name, norm_func) \<Rightarrow>
        and_then (norm_func vertices) (\<lambda>(normalized, p).
        and_then (quantize ovf normalized BINS method_name) (\<lambda>q.
        and_then (amin (flat q)) (\<lambda>qmin.
        and_then (amax (flat q)) (\<lambda>qmax.
          if qmin < 0 \<or> qmax \<ge> BINS then Inl (SystemExit 1)
          else
            and_then (dequantize q BINS method_name) (\<lambda>dequantized.
              Inr (method_name, \<lparr>q_min = qmin, q_max = qmax, stat_params = p\<rparr>)))))))"

fun process_methods ::
  "(real \<Rightarrow> int) \<Rightarrow> real ndarray \<Rightarrow> (string \<times> (real ndarray \<Rightarrow> error + real ndarray \<times> params)) list
     \<Rightarrow> error + (string \<times> method_stats) list" where
  "process_methods ovf vertices [] = Inr []"
| "process_methods ovf vertices (m # ms) =
     and_then (process_method ovf vertices m) (\<lambda>st.
     and_then (process_methods ovf vertices ms) (\<lambda>sts. Inr (st # sts)))"

definition process_mesh_file :: "(real \<Rightarrow> int) \<Rightarrow> real ndarray \<Rightarrow> error + (string \<times> method_stats) list" where
  "process_mesh_file ovf vertices =
     process_methods ovf vertices [(''minmax'', norm_minmax), (''sphere'', norm_sphere)]"

section \<open>Reconstruction (step5_reconstruct.py)\<close>

definition denormalize :: "real ndarray \<Rightarrow> params \<Rightarrow> error + real ndarray" where
  "denormalize normalized p =
     (if pmethod p = ''minmax'' then denorm_minmax normalized p
      else if pmethod p = ''sphere'' then denorm_sphere normalized p
      else Inl (ValueError (Unknown_method (pmethod p))))"

section \<open>Error metrics (step6_metrics.py)\<close>

record metrics =
  mse_total :: real
  mae_total :: real
  mse_per_axis :: vec3
  mae_per_axis :: vec3
  max_error :: real
  min_error :: real
  std_error :: real
  per_vertex_error :: "real list"
  per_vertex_abs_error :: "vec3 list"

text \<open>\<open>np.std\<close>: the square root of the mean squared deviation from the mean.\<close>

definition np_std :: "real list \<Rightarrow> real" where
  "np_std xs = sqrt (mean (map (\<lambda>x. \<bar>x - mean xs\<bar>\<^sup>2) xs))"

text \<open>
  \<open>compute_errors\<close> tests only that the two shapes are equal. Its callers pass arrays of
  shape \<open>(N, 3)\<close>, and the model reads the buffers as such: the whole-array means run
  over the buffer, the reductions along an axis over its rows of three.
\<close>

definition compute_errors :: "real ndarray \<Rightarrow> real ndarray \<Rightarrow> error + metrics" where
  "compute_errors original reconstructed =
     (if shape original \<noteq> shape reconstructed
      then Inl (ValueError (Shape_mismatch (shape original) (shape reconstructed)))
      else
        let diff = map2 (-) (flat original) (flat reconstructed);
            mse = mean (map (\<lambda>d. d\<^sup>2) diff);
            mae = mean (map abs diff);
            sq_rows = rows_of (map (\<lambda>d. d\<^sup>2) diff);
            abs_rows = rows_of (map abs diff);
            pve = map norm3 (rows_of diff)
        in
        and_then (amax pve) (\<lambda>mx.
        and_then (amin pve) (\<lambda>mn.
          Inr \<lparr>mse_total = mse, mae_total = mae,
               mse_per_axis = mean_axis0 sq_rows,
               mae_per_axis = mean_axis0 abs_rows,
               max_error = mx, min_error = mn, std_error = np_std pve,
               per_vertex_error = pve,
               per_vertex_abs_error = abs_rows\<rparr>)))"

section \<open>Floating-point arithmetic\<close>

text \<open>
  NumPy computes in IEEE-754 binary64: the result of an operation is the exact result
  rounded to the nearest number with 53 significant bits, ties to the even one.
  \<open>round_f64\<close> is this rounding, \<open>binade x\<close> the exponent \<open>e\<close> with
  \<open>2\<^sup>e \<le> \<bar>x\<bar> < 2\<^sup>e\<^sup>+\<^sup>1\<close>. The exponent is not bounded: a result too large for a double
  (which NumPy answers with \<open>inf\<close>) and the subnormal numbers are not modelled.
\<close>

definition round_even :: "real \<Rightarrow> int" where
  "round_even x =
     (let f = \<lfloor>x\<rfloor> in
      if x - of_int f < 1 / 2 then f
      else if 1 / 2 < x - of_int f then f + 1
      else if even f then f else f + 1)"

definition binade :: "real \<Rightarrow> int" where
  "binade x = \<lfloor>log 2 \<bar>x\<bar>\<rfloor>"

definition round_f64 :: "real \<Rightarrow> real" where
  "round_f64 x =
     (if x = 0 then 0
      else of_int (round_even (x / 2 powi (binade x - 52))) * 2 powi (binade x - 52))"

text \<open>
  What the facts below need of a rounding: a relative error of at most \<open>2\<^sup>-\<^sup>5\<^sup>3\<close>, and
  that the integers up to \<open>2\<^sup>5\<^sup>3\<close> are not rounded. \<open>round_f64\<close> has both.
\<close>

definition rel_rounding :: "(real \<Rightarrow> real) \<Rightarrow> bool" where
  "rel_rounding rnd = (\<forall>x. \<bar>rnd x - x\<bar> \<le> \<bar>x\<bar> / 2 ^ 53)"

definition exact_on_int53 :: "(real \<Rightarrow> real) \<Rightarrow> bool" where
  "exact_on_int53 rnd = (\<forall>k. \<bar>k\<bar> \<le> 9007199254740992 \<longrightarrow> rnd (of_int k) = of_int k)"

text \<open>
  The functions of the source once more, with the rounding \<open>rnd\<close> applied to the result
  of every floating-point operation, in the order in which the source performs them.
  \<open>np.mean\<close> along axis 0 adds the rows one after the other and divides the sum by the
  count; \<open>np.linalg.norm\<close> is the square root of the sum of the squares. Minimum, maximum
  and \<open>np.floor\<close> do not round. With the rounding \<open>\<lambda>x. x\<close> these are the functions of
  the sections above.
\<close>

definition fsum :: "(real \<Rightarrow> real) \<Rightarrow> real list \<Rightarrow> real" where
  "fsum rnd xs = (case xs of [] \<Rightarrow> 0 | x # ys \<Rightarrow> foldl (\<lambda>s y. rnd (s + y)) x ys)"

definition mean_fp :: "(real \<Rightarrow> real) \<Rightarrow> real list \<Rightarrow> real" where
  "mean_fp rnd xs = rnd (fsum rnd xs / rnd (of_nat (length xs)))"

definition mean_axis0_fp :: "(real \<Rightarrow> real) \<Rightarrow> vec3 list \<Rightarrow> vec3" where
  "mean_axis0_fp rnd vs =
     (mean_fp rnd (column X vs), mean_fp rnd (column Y vs), mean_fp rnd (column Z vs))"

fun norm3_fp :: "(real \<Rightarrow> real) \<Rightarrow> vec3 \<Rightarrow> real" where
  "norm3_fp rnd (x, y, z) = rnd (sqrt (rnd (rnd (rnd (x * x) + rnd (y * y)) + rnd (z * z))))"

definition divide_rows_fp :: "(real \<Rightarrow> real) \<Rightarrow> vec3 list \<Rightarrow> vec3 \<Rightarrow> error + vec3 list" where
  "divide_rows_fp rnd vs d =
     (if vs \<noteq> [] \<and> (sel X d = 0 \<or> sel Y d = 0 \<or> sel Z d = 0) then Inl NonFinite
      else Inr (map (\<lambda>v. vzip (\<lambda>x y. rnd (x / y)) v d) vs))"

definition divide_scalar_fp :: "(real \<Rightarrow> real) \<Rightarrow> vec3 list \<Rightarrow> real \<Rightarrow> error + vec3 list" where
  "divide_scalar_fp rnd vs s =
     (if vs \<noteq> [] \<and> s = 0 then Inl NonFinite else Inr (map (vmap (\<lambda>x. rnd (x / s))) vs))"

definition range_per_axis_fp :: "(real \<Rightarrow> real) \<Rightarrow> vec3 \<Rightarrow> vec3 \<Rightarrow> vec3" where
  "range_per_axis_fp rnd lo hi =
     vmap (\<lambda>r. if r = 0 then 1 else r) (vzip (\<lambda>a b. rnd (a - b)) hi lo)"

definition norm_minmax_fp :: "(real \<Rightarrow> real) \<Rightarrow> real ndarray \<Rightarrow> error + real ndarray \<times> params" where
  "norm_minmax_fp rnd vertices =
     (if invalid_shape vertices
      then Inl (ValueError (Invalid_vertices_shape (shape vertices)))
      else
        let vs = rows_of (flat vertices) in
        and_then (amin_axis0 vs) (\<lambda>lo.
        and_then (amax_axis0 vs) (\<lambda>hi.
        and_then (divide_rows_fp rnd (map (\<lambda>v. vzip (\<lambda>x y. rnd (x - y)) v lo) vs)
                    (range_per_axis_fp rnd lo hi))
          (\<lambda>normalized.
             Inr (NDArray (shape vertices) (flat_of normalized),
                  \<lparr>pmethod = ''minmax'', v_min = Some lo, v_max = Some hi,
                   center = None, scale = None\<rparr>)))))"

definition denorm_minmax_fp :: "(real \<Rightarrow> real) \<Rightarrow> real ndarray \<Rightarrow> params \<Rightarrow> error + real ndarray" where
  "denorm_minmax_fp rnd normalized p =
     (if pmethod p \<noteq> ''minmax''
      then Inl (ValueError (Invalid_method_in_params (pmethod p)))
      else if invalid_shape normalized
      then Inl (ValueError (Invalid_normalized_shape (shape normalized)))
      else
        case v_min p of
          None \<Rightarrow> Inl (KeyError ''v_min'')
        | Some lo \<Rightarrow>
            (case v_max p of
               None \<Rightarrow> Inl (KeyError ''v_max'')
             | Some hi \<Rightarrow>
                 Inr (NDArray (shape normalized)
                        (flat_of (map (\<lambda>v. vzip (\<lambda>x y. rnd (x + y))
                                               (vzip (\<lambda>x y. rnd (x * y)) v
                                                  (vzip (\<lambda>a b. rnd (a - b)) hi lo))
                                               lo)
                                      (rows_of (flat normalized)))))))"

definition norm_sphere_fp :: "(real \<Rightarrow> real) \<Rightarrow> real ndarray \<Rightarrow> error + real ndarray \<times> params" where
  "norm_sphere_fp rnd vertices =
     (if invalid_shape vertices
      then Inl (ValueError (Invalid_vertices_shape (shape vertices)))
      else
        let vs = rows_of (flat vertices);
            c = mean_axis0_fp rnd vs;
            shifted = map (\<lambda>v. vzip (\<lambda>x y. rnd (x - y)) v c) vs;
            distances = map (norm3_fp rnd) shifted
        in
        and_then (amax distances) (\<lambda>m.
          let s = (if m = 0 then 1 else m) in
          and_then (divide_scalar_fp rnd shifted s) (\<lambda>normalized.
            Inr (NDArray (shape vertices) (flat_of normalized),
                 \<lparr>pmethod = ''sphere'', v_min = None, v_max = None,
                  center = Some c, scale = Some s\<rparr>))))"

definition denorm_sphere_fp :: "(real \<Rightarrow> real) \<Rightarrow> real ndarray \<Rightarrow> params \<Rightarrow> error + real ndarray" where
  "denorm_sphere_fp rnd normalized p =
     (if pmethod p \<noteq> ''sphere''
      then Inl (ValueError (Invalid_method_in_params (pmethod p)))
      else if invalid_shape normalized
      then Inl (ValueError (Invalid_normalized_shape (shape normalized)))
      else
        case center p of
          None \<Rightarrow> Inl (KeyError ''center'')
        | Some c \<Rightarrow>
            (case scale p of
               None \<Rightarrow> Inl (KeyError ''scale'')
             | Some s \<Rightarrow>
                 Inr (NDArray (shape normalized)
                        (flat_of (map (\<lambda>v. vzip (\<lambda>x y. rnd (x + y)) (vmap (\<lambda>x. rnd (x * s)) v) c)
                                      (rows_of (flat normalized)))))))"

definition quantize_fp ::
  "(real \<Rightarrow> real) \<Rightarrow> (real \<Rightarrow> int) \<Rightarrow> real ndarray \<Rightarrow> int \<Rightarrow> string \<Rightarrow> error + int ndarray" where
  "quantize_fp rnd ovf normalized bins meth =
     (if invalid_shape normalized
      then Inl (ValueError (Invalid_normalized_shape (shape normalized)))
      else
        and_then
          (if meth = ''minmax'' then Inr (rows_of (flat normalized))
           else if meth = ''sphere''
           then Inr (map (vmap (\<lambda>x. rnd (rnd (x + 1) / 2))) (rows_of (flat normalized)))
           else Inl (ValueError (Unknown_method meth)))
          (\<lambda>normalized01.
             Inr (NDArray (shape normalized)
                    (flat_of
                       (map (vmap (\<lambda>x. clip (astype_int32 ovf
                                                  (np_floor (rnd (x * rnd (of_int (bins - 1))))))
                                          0 (bins - 1)))
                            normalized01)))))"

definition dequantize_fp :: "(real \<Rightarrow> real) \<Rightarrow> int ndarray \<Rightarrow> int \<Rightarrow> string \<Rightarrow> error + real ndarray" where
  "dequantize_fp rnd q bins meth =
     (if invalid_shape q
      then Inl (ValueError (Invalid_quantized_shape (shape q)))
      else
        let dequantized01 =
              divide_scalar_fp rnd (map (vmap (\<lambda>k. rnd (of_int k))) (rows_of (flat q)))
                (rnd (of_int (bins - 1)))
        in
        if meth = ''minmax''
        then and_then dequantized01 (\<lambda>d. Inr (NDArray (shape q) (flat_of d)))
        else if meth = ''sphere''
        then and_then dequantized01
               (\<lambda>d. Inr (NDArray (shape q) (flat_of (map (vmap (\<lambda>x. rnd (rnd (x * 2) - 1))) d))))
        else Inl (ValueError (Unknown_method meth)))"

definition process_method_fp ::
  "(real \<Rightarrow> real) \<Rightarrow> (real \<Rightarrow> int) \<Rightarrow> real ndarray
     \<Rightarrow> string \<times> (real ndarray \<Rightarrow> error + real ndarray \<times> params)
     \<Rightarrow> error + string \<times> method_stats" where
  "process_method_fp rnd ovf vertices m =
     (case m of (method_name, norm_func) \<Rightarrow>
        and_then (norm_func vertices) (\<lambda>(normalized, p).
        and_then (quantize_fp rnd ovf normalized BINS method_name) (\<lambda>q.
        and_then (amin (flat q)) (\<lambda>qmin.
        and_then (amax (flat q)) (\<lambda>qmax.
          if qmin < 0 \<or> qmax \<ge> BINS then Inl (SystemExit 1)
          else
            and_then (dequantize_fp rnd q BINS method_name) (\<lambda>dequantized.
              Inr (method_name, \<lparr>q_min = qmin, q_max = qmax, stat_params = p\<rparr>)))))))"

fun process_methods_fp ::
  "(real \<Rightarrow> real) \<Rightarrow> (real \<Rightarrow> int) \<Rightarrow> real ndarray
     \<Rightarrow> (string \<times> (real ndarray \<Rightarrow> error + real ndarray \<times> params)) list
     \<Rightarrow> error + (string \<times> method_stats) list" where
  "process_methods_fp rnd ovf vertices [] = Inr []"
| "process_methods_fp rnd ovf vertices (m # ms) =
     and_then (process_method_fp rnd ovf vertices m) (\<lambda>st.
     and_then (process_methods_fp rnd ovf vertices ms) (\<lambda>sts. Inr (st # sts)))"

definition process_mesh_file_fp ::
  "(real \<Rightarrow> real) \<Rightarrow> (real \<Rightarrow> int) \<Rightarrow> real ndarray \<Rightarrow> error + (string \<times> method_stats) list" where
  "process_mesh_file_fp rnd ovf vertices =
     process_methods_fp rnd ovf vertices
       [(''minmax'', norm_minmax_fp rnd), (''sphere'', norm_sphere_fp rnd)]"

definition denormalize_fp :: "(real \<Rightarrow> real) \<Rightarrow> real ndarray \<Rightarrow> params \<Rightarrow> error + real ndarray" where
  "denormalize_fp rnd normalized p =
     (if pmethod p = ''minmax'' then denorm_minmax_fp rnd normalized p
      else if pmethod p = ''sphere'' then denorm_sphere_fp rnd normalized p
      else Inl (ValueError (Unknown_method (pmethod p))))"

section \<open>Notions used to state the properties\<close>

text \<open>A vertex set is an array of shape \<open>(N, 3)\<close> with at least one row.\<close>

definition is_vertex_set :: "'a ndarray \<Rightarrow> bool" where
  "is_vertex_set a = (case shape a of [n, m] \<Rightarrow> 0 < n \<and> m = 3 | _ \<Rightarrow> False)"

text \<open>The values \<open>norm_minmax\<close> and \<open>norm_sphere\<close> compute on the way, by name.\<close>

definition col_min :: "vec3 list \<Rightarrow> vec3" where
  "col_min vs = (Min (set (column X vs)), Min (set (column Y vs)), Min (set (column Z vs)))"

definition col_max :: "vec3 list \<Rightarrow> vec3" where
  "col_max vs = (Max (set (column X vs)), Max (set (column Y vs)), Max (set (column Z vs)))"

definition shifted_rows :: "vec3 list \<Rightarrow> vec3 list" where
  "shifted_rows vs = map (\<lambda>v. vzip (-) v (mean_axis0 vs)) vs"

definition max_distance :: "vec3 list \<Rightarrow> real" where
  "max_distance vs = Max (set (map norm3 (shifted_rows vs)))"

definition sphere_scale :: "vec3 list \<Rightarrow> real" where
  "sphere_scale vs = (if max_distance vs = 0 then 1 else max_distance vs)"

text \<open>The remapping \<open>quantize\<close> applies before it scales (none for \<open>minmax\<close>,
  \<open>(x + 1) / 2\<close> for \<open>sphere\<close>), and what it computes for one component after it.\<close>

definition to01 :: "string \<Rightarrow> real \<Rightarrow> real" where
  "to01 meth x = (if meth = ''minmax'' then x else (x + 1) / 2)"

definition quantize_component :: "(real \<Rightarrow> int) \<Rightarrow> int \<Rightarrow> real \<Rightarrow> int" where
  "quantize_component ovf bins x01 =
     clip (astype_int32 ovf (np_floor (x01 * of_int (bins - 1)))) 0 (bins - 1)"

text \<open>
  The error metrics in the words of their specification, over the rows of the two vertex
  sets: the difference of entry \<open>(i, a)\<close>, the means over all \<open>3 N\<close> entries, the
  Euclidean norm of each row of differences, and the population standard deviation.
\<close>

definition spec_diff :: "vec3 list \<Rightarrow> vec3 list \<Rightarrow> nat \<Rightarrow> axis \<Rightarrow> real" where
  "spec_diff os rs i a = sel a (os ! i) - sel a (rs ! i)"

definition spec_mse_total :: "vec3 list \<Rightarrow> vec3 list \<Rightarrow> real" where
  "spec_mse_total os rs =
     (\<Sum>i<length os. \<Sum>a\<in>{X, Y, Z}. (spec_diff os rs i a)\<^sup>2) / real (3 * length os)"

definition spec_mae_total :: "vec3 list \<Rightarrow> vec3 list \<Rightarrow> real" where
  "spec_mae_total os rs =
     (\<Sum>i<length os. \<Sum>a\<in>{X, Y, Z}. \<bar>spec_diff os rs i a\<bar>) / real (3 * length os)"

definition spec_per_vertex_error :: "vec3 list \<Rightarrow> vec3 list \<Rightarrow> real list" where
  "spec_per_vertex_error os rs =
     map (\<lambda>i. sqrt (\<Sum>a\<in>{X, Y, Z}. (spec_diff os rs i a)\<^sup>2)) [0..<length os]"

definition spec_population_std :: "real list \<Rightarrow> real" where
  "spec_population_std es =
     sqrt ((\<Sum>i<length es. (es ! i - (\<Sum>j<length es. es ! j) / real (length es))\<^sup>2)
           / real (length es))"

text \<open>The array \<open>diff\<close> of \<open>compute_errors\<close>, by rows.\<close>

definition diff_rows :: "vec3 list \<Rightarrow> vec3 list \<Rightarrow> vec3 list" where
  "diff_rows os rs = map2 (vzip (-)) os rs"

text \<open>The same values as \<open>norm_sphere_fp\<close> and \<open>quantize_fp\<close> compute them.\<close>

definition shifted_rows_fp :: "(real \<Rightarrow> real) \<Rightarrow> vec3 list \<Rightarrow> vec3 list" where
  "shifted_rows_fp rnd vs = map (\<lambda>v. vzip (\<lambda>x y. rnd (x - y)) v (mean_axis0_fp rnd vs)) vs"

definition max_distance_fp :: "(real \<Rightarrow> real) \<Rightarrow> vec3 list \<Rightarrow> real" where
  "max_distance_fp rnd vs = Max (set (map (norm3_fp rnd) (shifted_rows_fp rnd vs)))"

definition sphere_scale_fp :: "(real \<Rightarrow> real) \<Rightarrow> vec3 list \<Rightarrow> real" where
  "sphere_scale_fp rnd vs = (if max_distance_fp rnd vs = 0 then 1 else max_distance_fp rnd vs)"

definition to01_fp :: "(real \<Rightarrow> real) \<Rightarrow> string \<Rightarrow> real \<Rightarrow> real" where
  "to01_fp rnd meth x = (if meth = ''minmax'' then x else rnd (rnd (x + 1) / 2))"

definition quantize_component_fp :: "(real \<Rightarrow> real) \<Rightarrow> (real \<Rightarrow> int) \<Rightarrow> int \<Rightarrow> real \<Rightarrow> int" where
  "quantize_component_fp rnd ovf bins x01 =
     clip (astype_int32 ovf (np_floor (rnd (x01 * rnd (of_int (bins - 1)))))) 0 (bins - 1)"

text \<open>What becomes of one component \<open>k\<close> of a lattice when \<open>dequantize_fp\<close> and then
  \<open>quantize_fp\<close> are applied to it.\<close>

definition requantize_component ::
  "(real \<Rightarrow> real) \<Rightarrow> (real \<Rightarrow> int) \<Rightarrow> int \<Rightarrow> string \<Rightarrow> int \<Rightarrow> int" where
  "requantize_component rnd ovf bins meth k =
     quantize_component_fp rnd ovf bins
       (to01_fp rnd meth
          (if meth = ''minmax'' then rnd (rnd (of_int k) / rnd (of_int (bins - 1)))
           else rnd (rnd (rnd (rnd (of_int k) / rnd (of_int (bins - 1))) * 2) - 1)))"

text \<open>The double nearest to \<open>0.1\<close>.\<close>

definition tenth :: real where
  "tenth = 3602879701896397 / 36028797018963968"

section \<open>Basic facts about arrays\<close>

lemma rows_of_flat_of [simp]: "rows_of (flat_of vs) = vs"
  by (induction vs) auto

lemma length_flat_of [simp]: "length (flat_of vs) = 3 * length vs"
  by (induction vs) auto

lemma shape_of_rows [simp]: "shape (of_rows vs) = [length vs, 3]"
  by (simp add: of_rows_def)

lemma flat_of_rows [simp]: "flat (of_rows vs) = flat_of vs"
  by (simp add: of_rows_def)

lemma valid_of_rows [simp]: "\<not> invalid_shape (of_rows vs)"
  by (simp add: invalid_shape_def)

lemma wf_of_rows [simp]: "wf_array (of_rows vs)"
  by (simp add: wf_array_def)

lemma sel_vzip [simp]: "sel a (vzip f u v) = f (sel a u) (sel a v)"
  by (cases a; cases u; cases v) auto

lemma sel_vmap [simp]: "sel a (vmap f v) = f (sel a v)"
  by (cases a; cases v) auto

lemma vec3_eqI: "(\<And>a. sel a u = sel a v) \<Longrightarrow> u = v"
proof -
  assume h: "\<And>a. sel a u = sel a v"
  obtain x y z where u: "u = (x, y, z)" by (cases u) auto
  obtain x' y' z' where v: "v = (x', y', z')" by (cases v) auto
  from h [of X] h [of Y] h [of Z] show ?thesis by (simp add: u v)
qed

lemma sel_col_min [simp]: "sel a (col_min vs) = Min (set (column a vs))"
  by (cases a) (simp_all add: col_min_def)

lemma sel_col_max [simp]: "sel a (col_max vs) = Max (set (column a vs))"
  by (cases a) (simp_all add: col_max_def)

lemma amin_axis0_eq: "vs \<noteq> [] \<Longrightarrow> amin_axis0 vs = Inr (col_min vs)"
  by (simp add: amin_axis0_def col_min_def)

lemma amax_axis0_eq: "vs \<noteq> [] \<Longrightarrow> amax_axis0 vs = Inr (col_max vs)"
  by (simp add: amax_axis0_def col_max_def)

lemma and_then_Inr [simp]: "and_then (Inr x) f = f x"
  by (simp add: and_then_def)

lemma and_then_Inl [simp]: "and_then (Inl e) f = Inl e"
  by (simp add: and_then_def)

lemma range_per_axis_nonzero: "sel a (range_per_axis lo hi) \<noteq> 0"
  by (simp add: range_per_axis_def)

lemma divide_rows_range:
  "divide_rows ws (range_per_axis lo hi) = Inr (map (\<lambda>v. vzip (/) v (range_per_axis lo hi)) ws)"
  using range_per_axis_nonzero [of _ lo hi] by (simp add: divide_rows_def)

lemma array_of_rows: "NDArray [length vs, 3] (flat_of (map f vs)) = of_rows (map f vs)"
  by (simp add: of_rows_def)

lemma norm_minmax_rows:
  assumes "vs \<noteq> []"
  shows "norm_minmax (of_rows vs) =
     Inr (of_rows (map (\<lambda>v. vzip (/) (vzip (-) v (col_min vs)) (range_per_axis (col_min vs) (col_max vs))) vs),
          \<lparr>pmethod = ''minmax'', v_min = Some (col_min vs), v_max = Some (col_max vs),
           center = None, scale = None\<rparr>)"
  using assms
  by (simp add: norm_minmax_def amin_axis0_eq amax_axis0_eq divide_rows_range array_of_rows
      o_def)

lemma rows_of_nonempty: "3 \<le> length xs \<Longrightarrow> rows_of xs \<noteq> []"
  by (cases xs rule: rows_of.cases) auto

lemma flat_of_rows_of: "length xs = 3 * n \<Longrightarrow> flat_of (rows_of xs) = xs"
proof (induction n arbitrary: xs)
  case 0
  then show ?case by simp
next
  case (Suc n)
  then obtain x ys where xs: "xs = x # ys" by (cases xs) auto
  with Suc.prems obtain y zs where ys: "ys = y # zs" by (cases ys) auto
  with xs Suc.prems obtain z rest where zs: "zs = z # rest" by (cases zs) auto
  with xs ys Suc.prems have "length rest = 3 * n" by simp
  with Suc.IH have "flat_of (rows_of rest) = rest" .
  with xs ys zs show ?case by simp
qed

lemma wf_vertex_array:
  assumes "wf_array a" "shape a = [n, 3]"
  shows "a = of_rows (rows_of (flat a)) \<and> length (rows_of (flat a)) = n"
proof -
  have len: "length (flat a) = 3 * n" using assms by (simp add: wf_array_def)
  have l: "length (rows_of xs) = length xs div 3" for xs :: "'a list"
    by (induction xs rule: rows_of.induct) auto
  have "flat_of (rows_of (flat a)) = flat a" using len by (rule flat_of_rows_of)
  moreover have "length (rows_of (flat a)) = n" using len by (simp add: l)
  ultimately show ?thesis using assms(2) by (cases a) (simp add: of_rows_def)
qed

lemma sphere_scale_nonzero: "sphere_scale vs \<noteq> 0"
  by (simp add: sphere_scale_def)

lemma norm_sphere_rows:
  assumes "vs \<noteq> []"
  shows "norm_sphere (of_rows vs) =
     Inr (of_rows (map (vmap (\<lambda>x. x / sphere_scale vs)) (shifted_rows vs)),
          \<lparr>pmethod = ''sphere'', v_min = None, v_max = None,
           center = Some (mean_axis0 vs), scale = Some (sphere_scale vs)\<rparr>)"
  using assms
  by (simp add: norm_sphere_def Let_def amax_def divide_scalar_def sphere_scale_def
      max_distance_def shifted_rows_def of_rows_def o_def invalid_shape_def)

lemma norm_empty:
  "norm_minmax (NDArray [0, 3] []) = Inl (ValueError Zero_size_reduction)"
  "norm_sphere (NDArray [0, 3] []) = Inl (ValueError Zero_size_reduction)"
  by (simp_all add: norm_minmax_def norm_sphere_def invalid_shape_def amin_axis0_def amax_def)

lemma norm_invalid:
  "invalid_shape a \<Longrightarrow> norm_minmax a = Inl (ValueError (Invalid_vertices_shape (shape a)))"
  "invalid_shape a \<Longrightarrow> norm_sphere a = Inl (ValueError (Invalid_vertices_shape (shape a)))"
  by (simp_all add: norm_minmax_def norm_sphere_def)

lemma shape_cases:
  "invalid_shape a \<or> (\<exists>n. shape a = [n, 3])"
proof (cases "invalid_shape a")
  case False
  then have l: "length (shape a) = 2" and t: "shape a ! 1 = 3"
    by (auto simp: invalid_shape_def split: if_splits)
  from l obtain n m where "shape a = [n, m]"
    by (cases "shape a"; cases "tl (shape a)"; cases "tl (tl (shape a))") auto
  with t show ?thesis by simp
qed simp

lemma invalid_not_vertex_set: "invalid_shape a \<Longrightarrow> \<not> is_vertex_set a"
  by (auto simp: invalid_shape_def is_vertex_set_def split: list.splits if_splits)

section \<open>Facts about the operations\<close>

lemma vmap_vmap [simp]: "vmap f (vmap g v) = vmap (\<lambda>x. f (g x)) v"
  by (cases v) simp

lemma vmap_id [simp]: "vmap (\<lambda>x. x) v = v"
  by (cases v) simp

lemma array_shape_rows:
  "NDArray [length vs, 3] (flat_of ws) = of_rows ws \<longleftrightarrow> length ws = length vs"
  by (auto simp: of_rows_def)

lemma quantize_eq:
  assumes "\<not> invalid_shape a" "meth = ''minmax'' \<or> meth = ''sphere''"
  shows "quantize ovf a bins meth
       = Inr (NDArray (shape a)
                (flat_of (map (vmap (\<lambda>x. quantize_component ovf bins (to01 meth x)))
                              (rows_of (flat a)))))"
  using assms by (auto simp: quantize_def quantize_component_def to01_def o_def)

lemma quantize_Inr:
  assumes "quantize ovf a bins meth = Inr q"
  shows "\<not> invalid_shape a \<and> (meth = ''minmax'' \<or> meth = ''sphere'')"
  using assms by (auto simp: quantize_def split: if_splits)

lemma quantize_rows:
  assumes "meth = ''minmax'' \<or> meth = ''sphere''"
  shows "quantize ovf (of_rows vs) bins meth
       = Inr (of_rows (map (vmap (\<lambda>x. quantize_component ovf bins (to01 meth x))) vs))"
  using quantize_eq [OF valid_of_rows assms, of ovf vs bins]
  by (simp add: array_shape_rows)

lemma clip_range: "0 \<le> hi \<Longrightarrow> 0 \<le> clip q 0 hi \<and> clip q 0 hi \<le> hi"
  by (simp add: clip_def)

lemma quantize_component_range:
  "1 \<le> bins \<Longrightarrow> 0 \<le> quantize_component ovf bins x \<and> quantize_component ovf bins x \<le> bins - 1"
  unfolding quantize_component_def by (rule clip_range) simp

lemma astype_int32_fits:
  "int32_range \<lfloor>y\<rfloor> \<Longrightarrow> astype_int32 ovf (np_floor y) = \<lfloor>y\<rfloor>"
  by (simp add: astype_int32_def np_floor_def)

lemma set_flat_of_vmap: "set (flat_of (map (vmap f) vs)) = f ` set (flat_of vs)"
proof (induction vs)
  case (Cons v vs)
  then show ?case by (cases v) auto
qed simp

lemma quantize_flat_range:
  assumes "quantize ovf a bins meth = Inr q" "1 \<le> bins" "k \<in> set (flat q)"
  shows "0 \<le> k \<and> k \<le> bins - 1"
proof -
  from quantize_Inr [OF assms(1)] quantize_eq [of a meth ovf bins] assms(1)
  have "flat q = flat_of (map (vmap (\<lambda>x. quantize_component ovf bins (to01 meth x)))
                              (rows_of (flat a)))"
    by auto
  with assms(3) obtain x where "k = quantize_component ovf bins x"
    by (auto simp: set_flat_of_vmap)
  with quantize_component_range [OF assms(2)] show ?thesis by simp
qed

lemma amin_in: "amin xs = Inr m \<Longrightarrow> m \<in> set xs"
  by (auto simp: amin_def split: if_splits intro: Min_in)

lemma amax_in: "amax xs = Inr m \<Longrightarrow> m \<in> set xs"
  by (auto simp: amax_def split: if_splits intro: Max_in)

lemma and_then_eq_Inl:
  "and_then r f = Inl e \<longleftrightarrow> r = Inl e \<or> (\<exists>x. r = Inr x \<and> f x = Inl e)"
  by (cases r) (auto simp: and_then_def)

lemma norm_minmax_no_exit: "norm_minmax a \<noteq> Inl (SystemExit n)"
  by (auto simp: norm_minmax_def amin_axis0_def amax_axis0_def divide_rows_def
      and_then_eq_Inl Let_def)

lemma norm_sphere_no_exit: "norm_sphere a \<noteq> Inl (SystemExit n)"
  by (auto simp: norm_sphere_def amax_def divide_scalar_def and_then_eq_Inl Let_def)

lemma quantize_no_exit: "quantize ovf a bins meth \<noteq> Inl (SystemExit n)"
  by (auto simp: quantize_def and_then_eq_Inl)

lemma dequantize_no_exit: "dequantize q bins meth \<noteq> Inl (SystemExit n)"
  by (auto simp: dequantize_def divide_scalar_def and_then_eq_Inl Let_def)

lemma process_method_no_exit:
  assumes "norm_func vertices \<noteq> Inl (SystemExit 1)"
  shows "process_method ovf vertices (name, norm_func) \<noteq> Inl (SystemExit 1)"
proof
  assume h: "process_method ovf vertices (name, norm_func) = Inl (SystemExit 1)"
  with assms obtain normalized p q qmin qmax where
    q: "quantize ovf normalized BINS name = Inr q" and
    mn: "amin (flat q) = Inr qmin" and mx: "amax (flat q) = Inr qmax" and
    bad: "qmin < 0 \<or> qmax \<ge> BINS"
    by (auto simp: process_method_def and_then_eq_Inl quantize_no_exit dequantize_no_exit
        amin_def amax_def split: if_splits)
  have b: "1 \<le> BINS" by (simp add: BINS_def)
  from quantize_flat_range [OF q b amin_in [OF mn]] quantize_flat_range [OF q b amax_in [OF mx]] bad
  show False by simp
qed

lemma process_mesh_file_no_exit: "process_mesh_file ovf vertices \<noteq> Inl (SystemExit 1)"
  using process_method_no_exit [OF norm_minmax_no_exit, where ovf = ovf and name = "''minmax''"]
    process_method_no_exit [OF norm_sphere_no_exit, where ovf = ovf and name = "''sphere''"]
  by (auto simp: process_mesh_file_def and_then_eq_Inl)

lemma clip_id: "0 \<le> k \<Longrightarrow> k \<le> hi \<Longrightarrow> clip k 0 hi = k"
  by (simp add: clip_def)

lemma dequantize_eq:
  assumes "\<not> invalid_shape q" "bins \<noteq> 1"
  shows "dequantize q bins ''minmax''
           = Inr (NDArray (shape q)
                   (flat_of (map (vmap (\<lambda>k. real_of_int k / of_int (bins - 1))) (rows_of (flat q)))))"
    and "dequantize q bins ''sphere''
           = Inr (NDArray (shape q)
                   (flat_of (map (vmap (\<lambda>k. real_of_int k / of_int (bins - 1) * 2 - 1)) (rows_of (flat q)))))"
  using assms by (simp_all add: dequantize_def divide_scalar_def Let_def o_def)

lemma dequantize_rows:
  assumes "bins \<noteq> 1"
  shows "dequantize (of_rows qs) bins ''minmax''
           = Inr (of_rows (map (vmap (\<lambda>k. real_of_int k / of_int (bins - 1))) qs))"
    and "dequantize (of_rows qs) bins ''sphere''
           = Inr (of_rows (map (vmap (\<lambda>k. real_of_int k / of_int (bins - 1) * 2 - 1)) qs))"
  using dequantize_eq [OF valid_of_rows assms, of qs]
  by (simp_all add: array_shape_rows)

lemma denorm_minmax_rows:
  "denorm_minmax (of_rows ns)
      \<lparr>pmethod = ''minmax'', v_min = Some lo, v_max = Some hi, center = c, scale = s\<rparr>
     = Inr (of_rows (map (\<lambda>v. vzip (+) (vzip (*) v (vzip (-) hi lo)) lo) ns))"
  by (simp add: denorm_minmax_def array_shape_rows)

lemma denorm_sphere_rows:
  "denorm_sphere (of_rows ns)
      \<lparr>pmethod = ''sphere'', v_min = lo, v_max = hi, center = Some c, scale = Some s\<rparr>
     = Inr (of_rows (map (\<lambda>v. vzip (+) (vmap (\<lambda>x. x * s) v) c) ns))"
  by (simp add: denorm_sphere_def array_shape_rows)

lemma col_min_concrete:
  "col_min [(0, 0, 0), (1, 1, 1), (2, 1 / 2, 3 / 2), (- 1, 2, 1 / 2)] = (- 1, 0, 0)"
  by (simp add: col_min_def column_def)

lemma col_max_concrete:
  "col_max [(0, 0, 0), (1, 1, 1), (2, 1 / 2, 3 / 2), (- 1, 2, 1 / 2)] = (2, 2, 3 / 2)"
  by (simp add: col_max_def column_def)

lemma norm_concrete:
  "norm_minmax (of_rows [(0, 0, 0), (1, 1, 1), (2, 1 / 2, 3 / 2), (- 1, 2, 1 / 2)])
    = Inr (of_rows [(1 / 3, 0, 0), (2 / 3, 1 / 2, 2 / 3), (1, 1 / 4, 1), (0, 1, 1 / 3)],
           \<lparr>pmethod = ''minmax'', v_min = Some (- 1, 0, 0), v_max = Some (2, 2, 3 / 2),
            center = None, scale = None\<rparr>)"
  by (simp add: norm_minmax_rows col_min_concrete col_max_concrete range_per_axis_def)

lemma quantize_component_concrete:
  "quantize_component ovf 1024 0 = 0"
  "quantize_component ovf 1024 (1 / 3) = 341"
  "quantize_component ovf 1024 (2 / 3) = 682"
  "quantize_component ovf 1024 (1 / 2) = 511"
  "quantize_component ovf 1024 (1 / 4) = 255"
  "quantize_component ovf 1024 1 = 1023"
  by (simp_all add: quantize_component_def astype_int32_def np_floor_def int32_range_def clip_def)

lemma quantize_concrete:
  "quantize ovf (of_rows [(1 / 3, 0, 0), (2 / 3, 1 / 2, 2 / 3), (1, 1 / 4, 1), (0, 1, 1 / 3)]) 1024 ''minmax''
    = Inr (of_rows [(341, 0, 0), (682, 511, 682), (1023, 255, 1023), (0, 1023, 341)])"
  by (simp add: quantize_rows to01_def quantize_component_concrete)

lemma dequantize_concrete:
  "dequantize (of_rows [(341, 0, 0), (682, 511, 682), (1023, 255, 1023), (0, 1023, 341)]) 1024 ''minmax''
    = Inr (of_rows [(341 / 1023, 0, 0), (682 / 1023, 511 / 1023, 682 / 1023), (1, 255 / 1023, 1), (0, 1, 341 / 1023)])"
  by (simp add: dequantize_rows)

lemma denorm_concrete:
  "denorm_minmax (of_rows [(341 / 1023, 0, 0), (682 / 1023, 511 / 1023, 682 / 1023), (1, 255 / 1023, 1), (0, 1, 341 / 1023)])
      \<lparr>pmethod = ''minmax'', v_min = Some (- 1, 0, 0), v_max = Some (2, 2, 3 / 2),
            center = None, scale = None\<rparr>
    = Inr (of_rows [(0, 0, 0), (1, 1022 / 1023, 1), (2, 170 / 341, 3 / 2), (- 1, 2, 1 / 2)])"
  by (simp add: denorm_minmax_rows)

lemma column_nth: "i < length vs \<Longrightarrow> sel a (vs ! i) \<in> set (column a vs)"
  by (simp add: column_def)

lemma col_bounds:
  assumes "i < length vs"
  shows "sel a (col_min vs) \<le> sel a (vs ! i)" and "sel a (vs ! i) \<le> sel a (col_max vs)"
  using column_nth [OF assms, of a] by simp_all

lemma sel_range_per_axis:
  "sel a (range_per_axis lo hi) = (if sel a hi - sel a lo = 0 then 1 else sel a hi - sel a lo)"
  by (simp add: range_per_axis_def)

lemma minmax_component_roundtrip:
  fixes x lo hi :: real
  assumes "lo \<le> x" "x \<le> hi"
  shows "(x - lo) / (if hi - lo = 0 then 1 else hi - lo) * (hi - lo) + lo = x"
proof (cases "hi - lo = 0")
  case True
  with assms have "x = lo" by simp
  with True show ?thesis by simp
next
  case False
  then show ?thesis by simp
qed

lemma minmax_row_roundtrip:
  assumes "i < length vs"
  shows "vzip (+) (vzip (*) (vzip (/) (vzip (-) (vs ! i) (col_min vs))
                                 (range_per_axis (col_min vs) (col_max vs)))
                         (vzip (-) (col_max vs) (col_min vs)))
                 (col_min vs) = vs ! i"
proof (rule vec3_eqI)
  fix a
  from minmax_component_roundtrip [OF col_bounds [OF assms, of a]]
  show "sel a (vzip (+) (vzip (*) (vzip (/) (vzip (-) (vs ! i) (col_min vs))
                                 (range_per_axis (col_min vs) (col_max vs)))
                         (vzip (-) (col_max vs) (col_min vs)))
                 (col_min vs)) = sel a (vs ! i)"
    by (simp add: sel_range_per_axis del: sel_col_min sel_col_max)
qed

lemma map_nth_eq: "(\<And>i. i < length vs \<Longrightarrow> f (vs ! i) = vs ! i) \<Longrightarrow> map f vs = vs"
  by (simp add: list_eq_iff_nth_eq)

lemma minmax_roundtrip_rows:
  "map (\<lambda>v. vzip (+) (vzip (*) v (vzip (-) (col_max vs) (col_min vs))) (col_min vs))
       (map (\<lambda>v. vzip (/) (vzip (-) v (col_min vs)) (range_per_axis (col_min vs) (col_max vs))) vs)
   = vs"
  by (simp add: o_def map_nth_eq minmax_row_roundtrip)

lemma sphere_row_roundtrip:
  fixes v c :: vec3
  shows "s \<noteq> 0 \<Longrightarrow> vzip (+) (vmap (\<lambda>x. x * s) (vmap (\<lambda>x. x / s) (vzip (-) v c))) c = v"
  by (rule vec3_eqI) simp

lemma sphere_roundtrip_rows:
  "map (\<lambda>v. vzip (+) (vmap (\<lambda>x. x * sphere_scale vs) v) (mean_axis0 vs))
       (map (vmap (\<lambda>x. x / sphere_scale vs)) (shifted_rows vs)) = vs"
  using sphere_row_roundtrip [OF sphere_scale_nonzero]
  by (simp add: shifted_rows_def o_def map_nth_eq)

lemma minmax_component_unit:
  fixes x lo hi :: real
  assumes "lo \<le> x" "x \<le> hi"
  shows "0 \<le> (x - lo) / (if hi - lo = 0 then 1 else hi - lo)"
    and "(x - lo) / (if hi - lo = 0 then 1 else hi - lo) \<le> 1"
  using assms by (auto simp: divide_le_eq)

lemma norm3_nonneg [simp]: "0 \<le> norm3 v"
  by (cases v) simp

lemma norm3_scale: "norm3 (vmap (\<lambda>x. x / s) v) = norm3 v / \<bar>s\<bar>"
proof (cases v)
  case (fields x y z)
  have "(x / s)\<^sup>2 + (y / s)\<^sup>2 + (z / s)\<^sup>2 = (x\<^sup>2 + y\<^sup>2 + z\<^sup>2) / s\<^sup>2"
    by (simp add: power_divide add_divide_distrib)
  then show ?thesis by (simp add: fields real_sqrt_divide)
qed

lemma length_shifted_rows [simp]: "length (shifted_rows vs) = length vs"
  by (simp add: shifted_rows_def)

lemma distance_le_max:
  assumes "i < length vs"
  shows "norm3 (shifted_rows vs ! i) \<le> max_distance vs"
proof -
  from assms have "norm3 (shifted_rows vs ! i) \<in> set (map norm3 (shifted_rows vs))"
    by simp
  then show ?thesis unfolding max_distance_def by (intro Max_ge) simp_all
qed

lemma max_distance_nonneg:
  assumes "vs \<noteq> []"
  shows "0 \<le> max_distance vs"
proof -
  from assms have "0 < length vs" by simp
  from distance_le_max [OF this] norm3_nonneg [of "shifted_rows vs ! 0"]
  show ?thesis by (rule order_trans [rotated])
qed

lemma sphere_scale_pos: "vs \<noteq> [] \<Longrightarrow> 0 < sphere_scale vs"
  using max_distance_nonneg [of vs] by (simp add: sphere_scale_def)

lemma sphere_row_unit:
  assumes "i < length vs"
  shows "norm3 (vmap (\<lambda>x. x / sphere_scale vs) (shifted_rows vs ! i)) \<le> 1"
proof -
  from assms have ne: "vs \<noteq> []" by auto
  have le: "norm3 (shifted_rows vs ! i) \<le> sphere_scale vs"
    using distance_le_max [OF assms] norm3_nonneg [of "shifted_rows vs ! i"]
    by (simp add: sphere_scale_def)
  with sphere_scale_pos [OF ne] show ?thesis
    by (simp add: norm3_scale)
qed

lemma sum_list_const:
  fixes c :: real
  shows "(\<And>x. x \<in> set xs \<Longrightarrow> f x = c) \<Longrightarrow> sum_list (map f xs) = real (length xs) * c"
  by (induction xs) (simp_all add: algebra_simps)

lemma column_const:
  assumes "vs \<noteq> []" "\<And>v. v \<in> set vs \<Longrightarrow> sel a v = c"
  shows "set (column a vs) = {c}"
  using assms by (cases vs) (auto simp: column_def)

lemma mean_column_const:
  assumes "vs \<noteq> []" "\<And>v. v \<in> set vs \<Longrightarrow> sel a v = c"
  shows "mean (column a vs) = c"
  using assms(1) sum_list_const [of vs "sel a" c, OF assms(2)]
  by (simp add: mean_def column_def)

lemma sel_mean_axis0 [simp]: "sel a (mean_axis0 vs) = mean (column a vs)"
  by (cases a) (simp_all add: mean_axis0_def)

lemma mean_axis0_const:
  assumes "vs \<noteq> []" "\<And>v. v \<in> set vs \<Longrightarrow> v = w"
  shows "mean_axis0 vs = w"
proof (rule vec3_eqI)
  fix a
  from assms(2) have "\<And>v. v \<in> set vs \<Longrightarrow> sel a v = sel a w" by simp
  from mean_column_const [OF assms(1) this] show "sel a (mean_axis0 vs) = sel a w" by simp
qed

lemma shifted_rows_const:
  assumes "vs \<noteq> []" "\<And>v. v \<in> set vs \<Longrightarrow> v = w" "i < length vs"
  shows "shifted_rows vs ! i = (0, 0, 0)"
proof -
  from assms(2,3) have "vs ! i = w" by simp
  with assms(3) mean_axis0_const [OF assms(1,2)] show ?thesis
    by (cases w) (simp add: shifted_rows_def)
qed

lemma max_distance_const:
  assumes "vs \<noteq> []" "\<And>v. v \<in> set vs \<Longrightarrow> v = w"
  shows "max_distance vs = 0"
proof (rule antisym)
  show "max_distance vs \<le> 0"
    unfolding max_distance_def
  proof (rule Max.boundedI)
    show "set (map norm3 (shifted_rows vs)) \<noteq> {}" using assms(1) by (simp add: shifted_rows_def)
    fix d assume "d \<in> set (map norm3 (shifted_rows vs))"
    then obtain i where "i < length vs" "d = norm3 (shifted_rows vs ! i)"
      by (auto simp: in_set_conv_nth)
    with shifted_rows_const [OF assms] show "d \<le> 0" by simp
  qed simp
  show "0 \<le> max_distance vs" by (rule max_distance_nonneg [OF assms(1)])
qed

lemma floor_unit_bounds:
  fixes x :: real and m :: int
  assumes "0 \<le> x" "x \<le> 1" "1 \<le> m"
  shows "0 \<le> \<lfloor>x * of_int m\<rfloor>" and "\<lfloor>x * of_int m\<rfloor> \<le> m"
proof -
  from assms show "0 \<le> \<lfloor>x * of_int m\<rfloor>" by simp
  from assms have "x * of_int m \<le> 1 * of_int m" by (intro mult_right_mono) simp_all
  then have "\<lfloor>x * of_int m\<rfloor> \<le> \<lfloor>(of_int m :: real)\<rfloor>" by (intro floor_mono) simp
  then show "\<lfloor>x * of_int m\<rfloor> \<le> m" by simp
qed

lemma quantize_component_alt:
  "quantize_component ovf bins x = clip (astype_int32 ovf (np_floor (x * of_int (bins - 1)))) 0 (bins - 1)"
  by (simp only: quantize_component_def)

lemma quantize_component_unit:
  assumes "0 \<le> x" "x \<le> 1" "2 \<le> bins" "bins \<le> 2147483648"
  shows "quantize_component ovf bins x = \<lfloor>x * of_int (bins - 1)\<rfloor>"
proof -
  define m where "m = bins - 1"
  from assms(3,4) have m: "1 \<le> m" "m \<le> 2147483647" by (simp_all add: m_def)
  note b = floor_unit_bounds [OF assms(1,2) m(1)]
  from b m(2) have "int32_range \<lfloor>x * of_int m\<rfloor>"
    unfolding int32_range_def by linarith
  from astype_int32_fits [OF this] b
  have "clip (astype_int32 ovf (np_floor (x * of_int m))) 0 m = \<lfloor>x * of_int m\<rfloor>"
    by (simp add: clip_id)
  then show ?thesis unfolding quantize_component_alt m_def .
qed

lemma quantize_component_exact:
  assumes "0 \<le> k" "k \<le> bins - 1" "int32_range k" "2 \<le> bins"
  shows "quantize_component ovf bins (of_int k / of_int (bins - 1)) = k"
proof -
  define m where "m = bins - 1"
  from assms(4) have "real_of_int m \<noteq> 0" by (simp add: m_def)
  then have e: "real_of_int k / of_int m * of_int m = of_int k" by simp
  have "\<lfloor>real_of_int k / of_int m * of_int m\<rfloor> = k"
    by (simp only: e floor_of_int)
  with assms(3) astype_int32_fits [of "real_of_int k / of_int m * of_int m" ovf]
  have "astype_int32 ovf (np_floor (real_of_int k / of_int m * of_int m)) = k"
    by simp
  with assms(1,2) have "clip (astype_int32 ovf (np_floor (real_of_int k / of_int m * of_int m))) 0 m = k"
    by (simp add: clip_id m_def)
  then show ?thesis unfolding quantize_component_alt m_def .
qed

lemma to01_dequantized:
  "to01 ''minmax'' (real_of_int k / of_int m) = of_int k / of_int m"
  "to01 ''sphere'' (real_of_int k / of_int m * 2 - 1) = of_int k / of_int m"
  by (simp_all add: to01_def)

lemma dequantized_error:
  assumes "0 \<le> x" "x \<le> 1" "2 \<le> bins" "bins \<le> 2147483648"
  shows "0 \<le> x - of_int (quantize_component ovf bins x) / of_int (bins - 1)"
    and "x - of_int (quantize_component ovf bins x) / of_int (bins - 1) \<le> 1 / of_int (bins - 1)"
proof -
  define m where "m = bins - 1"
  define k where "k = \<lfloor>x * of_int m\<rfloor>"
  from assms(3) have m: "0 < real_of_int m" by (simp add: m_def)
  have q: "quantize_component ovf bins x = k"
    unfolding k_def m_def by (rule quantize_component_unit [OF assms])
  have lo: "of_int k \<le> x * of_int m" unfolding k_def by (rule of_int_floor_le)
  have hi: "x * of_int m \<le> of_int k + 1" unfolding k_def by linarith
  from lo m have "real_of_int k / of_int m \<le> x" by (simp add: divide_le_eq)
  then show "0 \<le> x - of_int (quantize_component ovf bins x) / of_int (bins - 1)"
    unfolding q m_def [symmetric] by simp
  from hi m have "x \<le> (of_int k + 1) / of_int m" by (simp add: le_divide_eq)
  then have "x - real_of_int k / of_int m \<le> 1 / of_int m" by (simp add: add_divide_distrib)
  then show "x - of_int (quantize_component ovf bins x) / of_int (bins - 1) \<le> 1 / of_int (bins - 1)"
    unfolding q m_def [symmetric] .
qed

lemma minmax_axis_error:
  fixes v lo hi d m :: real
  assumes "lo \<le> v" "v \<le> hi" "0 < m"
    and "0 \<le> (v - lo) / (if hi - lo = 0 then 1 else hi - lo) - d"
    and "(v - lo) / (if hi - lo = 0 then 1 else hi - lo) - d \<le> 1 / m"
  shows "\<bar>d * (hi - lo) + lo - v\<bar> \<le> (hi - lo) / m"
proof (cases "hi - lo = 0")
  case True
  with assms(1,2) have "v = lo" by simp
  with True show ?thesis by simp
next
  case False
  with assms(1,2) have r: "0 < hi - lo" by simp
  define x where "x = (v - lo) / (hi - lo)"
  from r have v: "v = x * (hi - lo) + lo" by (simp add: x_def)
  from assms(4,5) False have e: "0 \<le> x - d" "x - d \<le> 1 / m" by (simp_all add: x_def)
  have "d * (hi - lo) + lo - v = - ((x - d) * (hi - lo))" by (simp add: v algebra_simps)
  then have "\<bar>d * (hi - lo) + lo - v\<bar> = (x - d) * (hi - lo)"
    using e(1) r by simp
  also have "\<dots> \<le> 1 / m * (hi - lo)" using e(2) r by (intro mult_right_mono) simp_all
  finally show ?thesis by simp
qed

lemma sphere_axis_error:
  fixes v c s d01 m :: real
  assumes "0 < s" "0 < m"
    and "0 \<le> ((v - c) / s + 1) / 2 - d01"
    and "((v - c) / s + 1) / 2 - d01 \<le> 1 / m"
  shows "\<bar>(d01 * 2 - 1) * s + c - v\<bar> \<le> 2 * s / m"
proof -
  define x where "x = (v - c) / s"
  from assms(1) have v: "v = x * s + c" by (simp add: x_def)
  from assms(3,4) have e: "0 \<le> (x + 1) / 2 - d01" "(x + 1) / 2 - d01 \<le> 1 / m"
    by (simp_all add: x_def)
  have "(d01 * 2 - 1) * s + c - v = - (2 * ((x + 1) / 2 - d01) * s)"
    by (simp add: v algebra_simps)
  then have "\<bar>(d01 * 2 - 1) * s + c - v\<bar> = 2 * ((x + 1) / 2 - d01) * s"
    using e(1) assms(1) by simp
  also have "\<dots> \<le> 2 * (1 / m) * s"
    using e(2) assms(1) by (intro mult_right_mono mult_left_mono) simp_all
  finally show ?thesis by simp
qed

lemma abs_sel_le_norm3: "\<bar>sel a v\<bar> \<le> norm3 v"
proof (cases v)
  case (fields x y z)
  have "\<bar>t\<bar> \<le> sqrt (x\<^sup>2 + y\<^sup>2 + z\<^sup>2)" if "t\<^sup>2 \<le> x\<^sup>2 + y\<^sup>2 + z\<^sup>2" for t :: real
    using real_sqrt_le_mono [OF that] by simp
  then show ?thesis by (cases a) (simp_all add: fields)
qed

lemma sphere_component_unit:
  assumes "i < length vs"
  shows "- sphere_scale vs \<le> sel a (shifted_rows vs ! i)"
    and "sel a (shifted_rows vs ! i) \<le> sphere_scale vs"
proof -
  have "\<bar>sel a (shifted_rows vs ! i)\<bar> \<le> norm3 (shifted_rows vs ! i)" by (rule abs_sel_le_norm3)
  also have "\<dots> \<le> sphere_scale vs"
    using distance_le_max [OF assms] norm3_nonneg [of "shifted_rows vs ! i"]
    by (simp add: sphere_scale_def)
  finally show "- sphere_scale vs \<le> sel a (shifted_rows vs ! i)"
    and "sel a (shifted_rows vs ! i) \<le> sphere_scale vs" by simp_all
qed

lemma minmax_quantized_error:
  assumes "vs \<noteq> []" "2 \<le> bins" "bins \<le> 2147483648"
  shows "\<exists>ns p qa d ws. norm_minmax (of_rows vs) = Inr (ns, p)
            \<and> quantize ovf ns bins ''minmax'' = Inr qa
            \<and> dequantize qa bins ''minmax'' = Inr d
            \<and> denorm_minmax d p = Inr (of_rows ws) \<and> length ws = length vs
            \<and> v_min p = Some (col_min vs) \<and> v_max p = Some (col_max vs)
            \<and> (\<forall>i<length vs. \<forall>a. \<bar>sel a (ws ! i) - sel a (vs ! i)\<bar>
                   \<le> (sel a (col_max vs) - sel a (col_min vs)) / of_int (bins - 1))"
proof -
  define lo where "lo = col_min vs"
  define hi where "hi = col_max vs"
  define N where "N = map (\<lambda>v. vzip (/) (vzip (-) v lo) (range_per_axis lo hi)) vs"
  define Q where "Q = map (vmap (\<lambda>x. quantize_component ovf bins (to01 ''minmax'' x))) N"
  define D where "D = map (vmap (\<lambda>k. real_of_int k / of_int (bins - 1))) Q"
  define W where "W = map (\<lambda>v. vzip (+) (vzip (*) v (vzip (-) hi lo)) lo) D"
  define P where "P = \<lparr>pmethod = ''minmax'', v_min = Some lo, v_max = Some hi,
                        center = None, scale = (None :: real option)\<rparr>"
  from assms(2) have b: "bins \<noteq> 1" and m: "0 < real_of_int (bins - 1)" by simp_all
  have 1: "norm_minmax (of_rows vs) = Inr (of_rows N, P)"
    unfolding N_def P_def lo_def hi_def by (rule norm_minmax_rows [OF assms(1)])
  have 2: "quantize ovf (of_rows N) bins ''minmax'' = Inr (of_rows Q)"
    unfolding Q_def by (rule quantize_rows) simp
  have 3: "dequantize (of_rows Q) bins ''minmax'' = Inr (of_rows D)"
    unfolding D_def by (rule dequantize_rows(1) [OF b])
  have 4: "denorm_minmax (of_rows D) P = Inr (of_rows W)"
    unfolding W_def P_def by (rule denorm_minmax_rows)
  have 5: "length W = length vs" by (simp add: W_def D_def Q_def N_def)
  have 6: "v_min P = Some (col_min vs)" "v_max P = Some (col_max vs)"
    by (simp_all add: P_def lo_def hi_def)
  have 7: "\<bar>sel a (W ! i) - sel a (vs ! i)\<bar> \<le> (sel a (col_max vs) - sel a (col_min vs)) / of_int (bins - 1)"
    if i: "i < length vs" for i a
  proof -
    define x where "x = (sel a (vs ! i) - sel a lo) / (if sel a hi - sel a lo = 0 then 1 else sel a hi - sel a lo)"
    define d where "d = real_of_int (quantize_component ovf bins x) / of_int (bins - 1)"
    have bnd: "sel a lo \<le> sel a (vs ! i)" "sel a (vs ! i) \<le> sel a hi"
      unfolding lo_def hi_def by (rule col_bounds [OF i])+
    from minmax_component_unit [OF bnd] have x01: "0 \<le> x" "x \<le> 1" by (simp_all add: x_def)
    note e = dequantized_error [OF x01 assms(2,3), of ovf, folded d_def]
    have w: "sel a (W ! i) = d * (sel a hi - sel a lo) + sel a lo"
      using i by (simp add: W_def D_def Q_def N_def d_def x_def to01_def sel_range_per_axis
          del: of_int_diff)
    from minmax_axis_error [OF bnd m e [unfolded x_def]]
    show ?thesis unfolding w by (simp add: lo_def hi_def del: of_int_diff sel_col_min sel_col_max)
  qed
  from 1 2 3 4 5 6 7 show ?thesis by blast
qed

lemma sphere_quantized_error:
  assumes "vs \<noteq> []" "2 \<le> bins" "bins \<le> 2147483648"
  shows "\<exists>ns p qa d ws s. norm_sphere (of_rows vs) = Inr (ns, p)
            \<and> quantize ovf ns bins ''sphere'' = Inr qa
            \<and> dequantize qa bins ''sphere'' = Inr d
            \<and> denorm_sphere d p = Inr (of_rows ws) \<and> length ws = length vs
            \<and> scale p = Some s
            \<and> (\<forall>i<length vs. \<forall>a. \<bar>sel a (ws ! i) - sel a (vs ! i)\<bar> \<le> 2 * s / of_int (bins - 1))"
proof -
  define c where "c = mean_axis0 vs"
  define s where "s = sphere_scale vs"
  define N where "N = map (vmap (\<lambda>x. x / s)) (shifted_rows vs)"
  define Q where "Q = map (vmap (\<lambda>x. quantize_component ovf bins (to01 ''sphere'' x))) N"
  define D where "D = map (vmap (\<lambda>k. real_of_int k / of_int (bins - 1) * 2 - 1)) Q"
  define W where "W = map (\<lambda>v. vzip (+) (vmap (\<lambda>x. x * s) v) c) D"
  define P where "P = \<lparr>pmethod = ''sphere'', v_min = None, v_max = (None :: vec3 option),
                        center = Some c, scale = Some s\<rparr>"
  from assms(2) have b: "bins \<noteq> 1" and m: "0 < real_of_int (bins - 1)" by simp_all
  have s: "0 < s" unfolding s_def by (rule sphere_scale_pos [OF assms(1)])
  have 1: "norm_sphere (of_rows vs) = Inr (of_rows N, P)"
    unfolding N_def P_def c_def s_def by (rule norm_sphere_rows [OF assms(1)])
  have 2: "quantize ovf (of_rows N) bins ''sphere'' = Inr (of_rows Q)"
    unfolding Q_def by (rule quantize_rows) simp
  have 3: "dequantize (of_rows Q) bins ''sphere'' = Inr (of_rows D)"
    unfolding D_def by (rule dequantize_rows(2) [OF b])
  have 4: "denorm_sphere (of_rows D) P = Inr (of_rows W)"
    unfolding W_def P_def by (rule denorm_sphere_rows)
  have 5: "length W = length vs" by (simp add: W_def D_def Q_def N_def)
  have 6: "scale P = Some s" by (simp add: P_def)
  have 7: "\<bar>sel a (W ! i) - sel a (vs ! i)\<bar> \<le> 2 * s / of_int (bins - 1)"
    if i: "i < length vs" for i a
  proof -
    define x01 where "x01 = ((sel a (vs ! i) - sel a c) / s + 1) / 2"
    define d01 where "d01 = real_of_int (quantize_component ovf bins x01) / of_int (bins - 1)"
    have sh: "sel a (shifted_rows vs ! i) = sel a (vs ! i) - sel a c"
      using i by (simp add: shifted_rows_def c_def)
    from sphere_component_unit [OF i, of a] s
    have "- 1 \<le> (sel a (vs ! i) - sel a c) / s" "(sel a (vs ! i) - sel a c) / s \<le> 1"
      unfolding sh s_def by (simp_all add: le_divide_eq divide_le_eq)
    then have x: "0 \<le> x01" "x01 \<le> 1" by (simp_all add: x01_def)
    note e = dequantized_error [OF x assms(2,3), of ovf, folded d01_def]
    have w: "sel a (W ! i) = (d01 * 2 - 1) * s + sel a c"
      using i by (simp add: W_def D_def Q_def N_def d01_def x01_def to01_def sh
          del: of_int_diff)
    from sphere_axis_error [OF s m e [unfolded x01_def]]
    show ?thesis unfolding w by (simp del: of_int_diff)
  qed
  from 1 2 3 4 5 6 7 show ?thesis by blast
qed

lemma all_axis: "(\<forall>a. P a) \<longleftrightarrow> P X \<and> P Y \<and> P Z"
proof
  assume h: "P X \<and> P Y \<and> P Z"
  show "\<forall>a. P a"
  proof
    fix a from h show "P a" by (cases a) simp_all
  qed
qed simp

lemma sum_axis: "(\<Sum>a\<in>{X, Y, Z}. f a) = f X + f Y + (f Z :: real)"
  by simp

lemma map2_flat_of:
  "length os = length rs \<Longrightarrow>
     map2 f (flat_of os) (flat_of rs) = flat_of (map2 (vzip f) os rs)"
proof (induction os rs rule: list_induct2)
  case (Cons v os w rs)
  then show ?case by (cases v; cases w) simp
qed simp

lemma map_flat_of: "map f (flat_of vs) = flat_of (map (vmap f) vs)"
proof (induction vs)
  case (Cons v vs)
  then show ?case by (cases v) simp
qed simp

lemma flat_of_append: "flat_of (us @ vs) = flat_of us @ flat_of vs"
proof (induction us)
  case (Cons u us)
  then show ?case by (cases u) simp
qed simp

lemma sum_list_flat_of:
  "sum_list (flat_of vs) = (\<Sum>i<length vs. sel X (vs ! i) + sel Y (vs ! i) + (sel Z (vs ! i) :: real))"
proof (induction vs rule: rev_induct)
  case (snoc v vs)
  then show ?case by (cases v) (simp add: flat_of_append nth_append)
qed simp

lemma sum_list_nth: "sum_list xs = (\<Sum>i<length xs. (xs ! i :: real))"
  by (simp add: sum_list_sum_nth atLeast0LessThan)

lemma norm3_sel: "norm3 v = sqrt ((sel X v)\<^sup>2 + (sel Y v)\<^sup>2 + (sel Z v)\<^sup>2)"
  by (cases v) simp

lemma mean_nth: "mean xs = (\<Sum>i<length xs. xs ! i) / real (length xs)"
  by (simp add: mean_def sum_list_nth)

lemma np_std_spec: "np_std es = spec_population_std es"
proof -
  have "sum_list (map (\<lambda>x. \<bar>x - mean es\<bar>\<^sup>2) es) = (\<Sum>i<length es. (es ! i - mean es)\<^sup>2)"
    by (simp add: sum_list_nth)
  then show ?thesis
    by (simp add: np_std_def spec_population_std_def mean_def [of "map _ _"] mean_nth)
qed

lemma length_diff_rows [simp]: "length os = length rs \<Longrightarrow> length (diff_rows os rs) = length os"
  by (simp add: diff_rows_def)

lemma diff_rows_nth [simp]:
  assumes "length os = length rs" "i < length os"
  shows "sel a (diff_rows os rs ! i) = spec_diff os rs i a"
  using assms by (simp add: spec_diff_def diff_rows_def)

lemma compute_errors_rows:
  assumes "length os = length rs" "os \<noteq> []"
  shows "compute_errors (of_rows os) (of_rows rs) =
     Inr \<lparr>mse_total = mean (flat_of (map (vmap (\<lambda>d. d\<^sup>2)) (diff_rows os rs))),
          mae_total = mean (flat_of (map (vmap abs) (diff_rows os rs))),
          mse_per_axis = mean_axis0 (map (vmap (\<lambda>d. d\<^sup>2)) (diff_rows os rs)),
          mae_per_axis = mean_axis0 (map (vmap abs) (diff_rows os rs)),
          max_error = Max (set (map norm3 (diff_rows os rs))),
          min_error = Min (set (map norm3 (diff_rows os rs))),
          std_error = np_std (map norm3 (diff_rows os rs)),
          per_vertex_error = map norm3 (diff_rows os rs),
          per_vertex_abs_error = map (vmap abs) (diff_rows os rs)\<rparr>"
proof -
  from assms have "diff_rows os rs \<noteq> []" by (cases os; cases rs) (simp_all add: diff_rows_def)
  then have ne: "map norm3 (diff_rows os rs) \<noteq> []" by simp
  have d: "map2 (-) (flat_of os) (flat_of rs) = flat_of (diff_rows os rs)"
    unfolding diff_rows_def by (rule map2_flat_of [OF assms(1)])
  show ?thesis
    using assms(1) ne
    by (simp add: compute_errors_def Let_def d map_flat_of amax_def amin_def
        del: map_is_Nil_conv)
qed

lemma mean_flat_rows:
  fixes f :: "real \<Rightarrow> real"
  assumes "length os = length rs"
  shows "mean (flat_of (map (vmap f) (diff_rows os rs)))
       = (\<Sum>i<length os. \<Sum>a\<in>{X, Y, Z}. f (spec_diff os rs i a)) / real (3 * length os)"
proof -
  have "(\<Sum>i<length os. sel X (map (vmap f) (diff_rows os rs) ! i)
                        + sel Y (map (vmap f) (diff_rows os rs) ! i)
                        + sel Z (map (vmap f) (diff_rows os rs) ! i))
      = (\<Sum>i<length os. \<Sum>a\<in>{X, Y, Z}. f (spec_diff os rs i a))"
    using assms by (intro sum.cong refl) simp
  with assms show ?thesis
    by (simp add: mean_def sum_list_flat_of del: sum.insert)
qed

lemma per_vertex_error_spec:
  assumes "length os = length rs"
  shows "map norm3 (diff_rows os rs) = spec_per_vertex_error os rs"
proof (rule nth_equalityI)
  show "length (map norm3 (diff_rows os rs)) = length (spec_per_vertex_error os rs)"
    using assms by (simp add: spec_per_vertex_error_def)
  fix i assume "i < length (map norm3 (diff_rows os rs))"
  with assms have i: "i < length os" by simp
  with assms show "map norm3 (diff_rows os rs) ! i = spec_per_vertex_error os rs ! i"
    by (simp add: spec_per_vertex_error_def norm3_sel)
qed

lemma diff_rows_same: "diff_rows os os = replicate (length os) ((0, 0, 0) :: vec3)"
  unfolding diff_rows_def
proof (induction os)
  case (Cons v os)
  then show ?case by (cases v) simp
qed simp

lemma mean_flat_zero: "mean (flat_of (replicate n ((0, 0, 0) :: vec3))) = 0"
  by (simp add: mean_def sum_list_flat_of)

lemma mean_axis0_zero: "mean_axis0 (replicate n ((0, 0, 0) :: vec3)) = (0, 0, 0)"
  by (simp add: mean_axis0_def mean_def column_def sum_list_replicate)

lemma np_std_zero: "np_std (replicate n 0) = 0"
  by (simp add: np_std_def mean_def sum_list_replicate)

lemma compute_errors_empty:
  "compute_errors (of_rows []) (of_rows []) = Inl (ValueError Zero_size_reduction)"
  by (simp add: compute_errors_def amax_def)

lemma compute_errors_mismatch:
  "length os \<noteq> length rs \<Longrightarrow>
     compute_errors (of_rows os) (of_rows rs)
       = Inl (ValueError (Shape_mismatch [length os, 3] [length rs, 3]))"
  by (simp add: compute_errors_def)

section \<open>Facts about rounding\<close>

lemma round_even_of_int [simp]: "round_even (of_int k) = k"
  by (simp add: round_even_def)

lemma round_even_error: "\<bar>of_int (round_even m) - m\<bar> \<le> 1 / 2"
  unfolding round_even_def Let_def by (auto simp: abs_if) linarith+

lemma binade_bounds:
  assumes "x \<noteq> 0"
  shows "2 powi binade x \<le> \<bar>x\<bar>" and "\<bar>x\<bar> < 2 powi (binade x + 1)"
proof -
  from assms have p: "0 < \<bar>x\<bar>" by simp
  have "\<lfloor>log 2 \<bar>x\<bar>\<rfloor> = binade x" by (simp add: binade_def)
  with floor_log_eq_powr_iff [OF p, of 2 "binade x"]
  have "2 powr of_int (binade x) \<le> \<bar>x\<bar> \<and> \<bar>x\<bar> < 2 powr (of_int (binade x) + 1)" by simp
  moreover have "(2 :: real) powr (of_int (binade x) + 1) = 2 powr of_int (binade x + 1)" by simp
  ultimately show "2 powi binade x \<le> \<bar>x\<bar>" and "\<bar>x\<bar> < 2 powi (binade x + 1)"
    by (simp_all only: powr_real_of_int' [of 2, simplified])
qed

lemma binade_eq:
  assumes "2 powi e \<le> \<bar>x\<bar>" "\<bar>x\<bar> < 2 powi (e + 1)"
  shows "binade x = e"
proof -
  have "0 < (2 :: real) powi e" by (rule zero_less_power_int) simp
  with assms(1) have p: "0 < \<bar>x\<bar>" by linarith
  have a: "(2 :: real) powr of_int e = 2 powi e" "(2 :: real) powr (of_int e + 1) = 2 powi (e + 1)"
    using powr_real_of_int' [of 2 e] powr_real_of_int' [of 2 "e + 1"] by simp_all
  from floor_log_eq_powr_iff [OF p, of 2 e] assms show ?thesis
    by (simp add: binade_def a)
qed

lemma round_f64_eval:
  assumes "2 powi e \<le> \<bar>x\<bar>" "\<bar>x\<bar> < 2 powi (e + 1)"
  shows "round_f64 x = of_int (round_even (x / 2 powi (e - 52))) * 2 powi (e - 52)"
proof -
  have "0 < (2 :: real) powi e" by (rule zero_less_power_int) simp
  with assms(1) have "0 < \<bar>x\<bar>" by linarith
  then have "x \<noteq> 0" by simp
  then show ?thesis by (simp add: round_f64_def binade_eq [OF assms])
qed

lemma round_f64_zero [simp]: "round_f64 0 = 0"
  by (simp add: round_f64_def)

lemma round_f64_rel: "\<bar>round_f64 x - x\<bar> \<le> \<bar>x\<bar> / 2 ^ 53"
proof (cases "x = 0")
  case False
  define s :: real where "s = 2 powi (binade x - 52)"
  have s: "0 < s" unfolding s_def by (rule zero_less_power_int) simp
  have "round_f64 x - x = (of_int (round_even (x / s)) - x / s) * s"
    using False s by (simp add: round_f64_def s_def algebra_simps)
  then have "\<bar>round_f64 x - x\<bar> = \<bar>of_int (round_even (x / s)) - x / s\<bar> * s"
    using s by (simp add: abs_mult)
  also have "\<dots> \<le> 1 / 2 * s"
    using round_even_error [of "x / s"] s by (intro mult_right_mono) simp_all
  also have "1 / 2 * s = 2 powi binade x / 2 ^ 53"
  proof -
    have "(2 :: real) powi (binade x - 52) = 2 powi binade x / 2 powi 52"
      by (rule power_int_diff) simp
    then show ?thesis by (simp add: s_def)
  qed
  also have "\<dots> \<le> \<bar>x\<bar> / 2 ^ 53"
    using binade_bounds(1) [OF False] by (simp add: divide_right_mono)
  finally show ?thesis .
qed simp

lemma rel_rounding_f64: "rel_rounding round_f64"
  unfolding rel_rounding_def using round_f64_rel by blast

lemma rel_rounding_exact: "rel_rounding (\<lambda>x. x)"
  by (simp add: rel_rounding_def)

lemma round_f64_of_int:
  assumes "\<bar>k\<bar> \<le> 9007199254740992"
  shows "round_f64 (of_int k) = of_int k"
proof (cases "k = 0")
  case False
  define x :: real where "x = of_int k"
  define e where "e = binade x"
  from False have x0: "x \<noteq> 0" by (simp add: x_def)
  note b = binade_bounds [OF x0, folded e_def]
  have ax: "\<bar>x\<bar> \<le> 2 powi 53" using assms by (simp add: x_def)
  have e53: "e \<le> 53"
  proof (rule ccontr)
    assume "\<not> e \<le> 53"
    then have "54 \<le> e" by simp
    then have "(2 :: real) powi 54 \<le> 2 powi e" by (intro power_int_increasing) simp_all
    with b(1) ax show False by simp
  qed
  have "\<exists>j. x / 2 powi (e - 52) = of_int j"
  proof (cases "e \<le> 52")
    case True
    define n where "n = nat (52 - e)"
    have "(2 :: real) powi (e - 52) = 1 / 2 ^ n"
      using True by (simp add: power_int_def n_def field_simps)
    then have "x / 2 powi (e - 52) = of_int (k * 2 ^ n)" by (simp add: x_def)
    then show ?thesis by blast
  next
    case False
    with e53 have e: "e = 53" by simp
    with b(1) ax have "\<bar>x\<bar> = 2 ^ 53" by simp
    then have "real_of_int \<bar>k\<bar> = real_of_int (2 ^ 53)" unfolding x_def by simp
    then have "\<bar>k\<bar> = 2 ^ 53" by (simp only: of_int_eq_iff)
    then have "k = 2 * 4503599627370496 \<or> k = 2 * (- 4503599627370496)" by (simp add: abs_if split: if_splits)
    then have "x / 2 = of_int 4503599627370496 \<or> x / 2 = of_int (- 4503599627370496)"
      unfolding x_def by auto
    then show ?thesis unfolding e by (auto intro: exI [of _ 4503599627370496] exI [of _ "- 4503599627370496"])
  qed
  then obtain j where j: "x / 2 powi (e - 52) = of_int j" by blast
  have "round_f64 x = of_int j * 2 powi (e - 52)"
    using x0 by (simp add: round_f64_def e_def [symmetric] j)
  also have "\<dots> = x" using j by (simp add: field_simps)
  finally show ?thesis by (simp add: x_def)
qed simp

lemma exact_on_int53_f64: "exact_on_int53 round_f64"
  unfolding exact_on_int53_def using round_f64_of_int by blast

lemma exact_on_int53_exact: "exact_on_int53 (\<lambda>x. x)"
  by (simp add: exact_on_int53_def)

lemma rel_rounding_zero_iff:
  assumes "rel_rounding rnd"
  shows "rnd x = 0 \<longleftrightarrow> x = 0"
proof
  assume "rnd x = 0"
  with assms have "\<bar>x\<bar> \<le> \<bar>x\<bar> / 2 ^ 53" unfolding rel_rounding_def by (metis abs_minus_commute diff_zero)
  then have "\<bar>x\<bar> * 9007199254740992 \<le> \<bar>x\<bar>" by (simp add: field_simps)
  then have "\<bar>x\<bar> \<le> 0" by linarith
  then show "x = 0" by simp
next
  assume "x = 0"
  with assms show "rnd x = 0" unfolding rel_rounding_def by (metis abs_le_zero_iff abs_zero diff_zero div_0)
qed

lemma rel_rounding_upper:
  assumes "rel_rounding rnd" "0 \<le> x"
  shows "rnd x \<le> 2 * x"
proof -
  have "rnd x - x \<le> \<bar>rnd x - x\<bar>" by simp
  also from assms(1) have "\<dots> \<le> \<bar>x\<bar> / 2 ^ 53" unfolding rel_rounding_def by blast
  also have "\<dots> \<le> x"
  proof -
    have "x / 2 ^ 53 \<le> x / 1" using assms(2) by (intro divide_left_mono) simp_all
    with assms(2) show ?thesis by simp
  qed
  finally show ?thesis by simp
qed

lemma rel_roundingD: "rel_rounding rnd \<Longrightarrow> \<bar>rnd x - x\<bar> \<le> \<bar>x\<bar> / 2 ^ 53"
  unfolding rel_rounding_def by blast

lemma rel_rounding_zero: "rel_rounding rnd \<Longrightarrow> rnd 0 = 0"
  using rel_rounding_zero_iff [of rnd 0] by simp

lemma exact_on_int53D:
  "exact_on_int53 rnd \<Longrightarrow> \<bar>k\<bar> \<le> 9007199254740992 \<Longrightarrow> rnd (of_int k) = of_int k"
  unfolding exact_on_int53_def by blast

section \<open>Facts about the operations with rounding\<close>

subsection \<open>The exact functions are the rounded ones without rounding\<close>

lemma foldl_add: "foldl (\<lambda>s y. s + y) (a :: real) xs = a + sum_list xs"
  by (induction xs arbitrary: a) simp_all

lemma fsum_exact: "fsum (\<lambda>x. x) xs = sum_list xs"
  by (cases xs) (simp_all add: fsum_def foldl_add)

lemma mean_fp_exact: "mean_fp (\<lambda>x. x) xs = mean xs"
  by (simp add: mean_fp_def mean_def fsum_exact)

lemma mean_axis0_fp_exact: "mean_axis0_fp (\<lambda>x. x) vs = mean_axis0 vs"
  by (simp add: mean_axis0_fp_def mean_axis0_def mean_fp_exact)

lemma norm3_fp_exact: "norm3_fp (\<lambda>x. x) v = norm3 v"
  by (cases v) (simp add: power2_eq_square)

lemma norm_minmax_fp_exact: "norm_minmax_fp (\<lambda>x. x) a = norm_minmax a"
  by (simp add: norm_minmax_fp_def norm_minmax_def divide_rows_fp_def divide_rows_def
      range_per_axis_fp_def range_per_axis_def)

lemma denorm_minmax_fp_exact: "denorm_minmax_fp (\<lambda>x. x) a p = denorm_minmax a p"
  by (simp add: denorm_minmax_fp_def denorm_minmax_def)

lemma norm_sphere_fp_exact: "norm_sphere_fp (\<lambda>x. x) a = norm_sphere a"
proof -
  have "norm3_fp (\<lambda>x. x) = norm3" by (rule ext) (rule norm3_fp_exact)
  then show ?thesis
    by (simp add: norm_sphere_fp_def norm_sphere_def divide_scalar_fp_def divide_scalar_def
        mean_axis0_fp_exact)
qed

lemma denorm_sphere_fp_exact: "denorm_sphere_fp (\<lambda>x. x) a p = denorm_sphere a p"
  by (simp add: denorm_sphere_fp_def denorm_sphere_def)

lemma quantize_fp_exact: "quantize_fp (\<lambda>x. x) ovf a bins meth = quantize ovf a bins meth"
  by (simp add: quantize_fp_def quantize_def)

lemma dequantize_fp_exact: "dequantize_fp (\<lambda>x. x) q bins meth = dequantize q bins meth"
  by (simp add: dequantize_fp_def dequantize_def divide_scalar_fp_def divide_scalar_def)

lemma denormalize_fp_exact: "denormalize_fp (\<lambda>x. x) a p = denormalize a p"
  by (simp add: denormalize_fp_def denormalize_def denorm_minmax_fp_exact denorm_sphere_fp_exact)

subsection \<open>Normalization\<close>

lemma sel_range_per_axis_fp:
  "sel a (range_per_axis_fp rnd lo hi)
     = (if rnd (sel a hi - sel a lo) = 0 then 1 else rnd (sel a hi - sel a lo))"
  by (simp add: range_per_axis_fp_def)

lemma range_per_axis_fp_nonzero: "sel a (range_per_axis_fp rnd lo hi) \<noteq> 0"
  by (simp add: sel_range_per_axis_fp)

lemma divide_rows_fp_range:
  "divide_rows_fp rnd ws (range_per_axis_fp rnd lo hi)
     = Inr (map (\<lambda>v. vzip (\<lambda>x y. rnd (x / y)) v (range_per_axis_fp rnd lo hi)) ws)"
  using range_per_axis_fp_nonzero [of _ rnd lo hi] by (simp add: divide_rows_fp_def)

lemma norm_minmax_fp_rows:
  assumes "vs \<noteq> []"
  shows "norm_minmax_fp rnd (of_rows vs) =
     Inr (of_rows (map (\<lambda>v. vzip (\<lambda>x y. rnd (x / y)) (vzip (\<lambda>x y. rnd (x - y)) v (col_min vs))
                                 (range_per_axis_fp rnd (col_min vs) (col_max vs))) vs),
          \<lparr>pmethod = ''minmax'', v_min = Some (col_min vs), v_max = Some (col_max vs),
           center = None, scale = None\<rparr>)"
  using assms
  by (simp add: norm_minmax_fp_def amin_axis0_eq amax_axis0_eq divide_rows_fp_range array_of_rows
      o_def)

lemma sphere_scale_fp_nonzero: "sphere_scale_fp rnd vs \<noteq> 0"
  by (simp add: sphere_scale_fp_def)

lemma length_shifted_rows_fp [simp]: "length (shifted_rows_fp rnd vs) = length vs"
  by (simp add: shifted_rows_fp_def)

lemma norm_sphere_fp_rows:
  assumes "vs \<noteq> []"
  shows "norm_sphere_fp rnd (of_rows vs) =
     Inr (of_rows (map (vmap (\<lambda>x. rnd (x / sphere_scale_fp rnd vs))) (shifted_rows_fp rnd vs)),
          \<lparr>pmethod = ''sphere'', v_min = None, v_max = None,
           center = Some (mean_axis0_fp rnd vs), scale = Some (sphere_scale_fp rnd vs)\<rparr>)"
  using assms
  by (simp add: norm_sphere_fp_def Let_def amax_def divide_scalar_fp_def sphere_scale_fp_def
      max_distance_fp_def shifted_rows_fp_def of_rows_def o_def invalid_shape_def)

lemma rel_rounding_roundtrip:
  assumes "rel_rounding rnd" "r \<noteq> 0"
  shows "\<bar>rnd (rnd (rnd (rnd (v - c) / r) * r) + c) - v\<bar> \<le> (4 * \<bar>v - c\<bar> + \<bar>v\<bar>) / 2 ^ 53"
proof -
  define A where "A = \<bar>v - c\<bar>"
  define d where "d = rnd (v - c)"
  define n where "n = rnd (d / r)"
  define m where "m = rnd (n * r)"
  define out where "out = rnd (m + c)"
  define E1 where "E1 = \<bar>d - (v - c)\<bar>"
  define E2 where "E2 = \<bar>n * r - d\<bar>"
  define E3 where "E3 = \<bar>m - n * r\<bar>"
  define E4 where "E4 = \<bar>out - (m + c)\<bar>"
  define D where "D = \<bar>d\<bar>"
  define NR where "NR = \<bar>n * r\<bar>"
  define T where "T = \<bar>m - (v - c)\<bar>"
  define MC where "MC = \<bar>m + c\<bar>"
  define V where "V = \<bar>v\<bar>"
  have e1: "E1 \<le> A / 2 ^ 53"
    using rel_roundingD [OF assms(1), of "v - c"] by (simp add: d_def A_def E1_def)
  have "\<bar>n - d / r\<bar> \<le> \<bar>d / r\<bar> / 2 ^ 53"
    using rel_roundingD [OF assms(1), of "d / r"] by (simp add: n_def)
  then have "\<bar>n - d / r\<bar> * \<bar>r\<bar> \<le> \<bar>d / r\<bar> / 2 ^ 53 * \<bar>r\<bar>"
    by (intro mult_right_mono) simp_all
  moreover have "\<bar>n - d / r\<bar> * \<bar>r\<bar> = \<bar>n * r - d\<bar>"
    using assms(2) by (simp add: abs_mult [symmetric] left_diff_distrib)
  moreover have "\<bar>d / r\<bar> / 2 ^ 53 * \<bar>r\<bar> = \<bar>d\<bar> / 2 ^ 53"
    using assms(2) by (simp add: abs_divide)
  ultimately have e2: "E2 \<le> D / 2 ^ 53" by (simp add: E2_def D_def)
  have e3: "E3 \<le> NR / 2 ^ 53"
    using rel_roundingD [OF assms(1), of "n * r"] by (simp add: m_def E3_def NR_def)
  have e4: "E4 \<le> MC / 2 ^ 53"
    using rel_roundingD [OF assms(1), of "m + c"] by (simp add: out_def E4_def MC_def)
  have t1: "D \<le> A + E1" unfolding D_def A_def E1_def by linarith
  have t2: "NR \<le> D + E2" unfolding NR_def D_def E2_def by linarith
  have t3: "T \<le> E3 + E2 + E1" unfolding T_def E1_def E2_def E3_def by linarith
  have t4: "MC \<le> V + T" unfolding MC_def V_def T_def by linarith
  have t5: "\<bar>out - v\<bar> \<le> E4 + T" unfolding E4_def T_def by linarith
  have a: "0 \<le> A" by (simp add: A_def)
  have "\<bar>out - v\<bar> \<le> (4 * A + V) / 2 ^ 53"
    using e1 e2 e3 e4 t1 t2 t3 t4 t5 a by simp
  then show ?thesis
    by (simp add: out_def m_def n_def d_def A_def V_def)
qed

lemma minmax_component_roundtrip_fp:
  fixes x lo hi :: real
  assumes "rel_rounding rnd" "lo \<le> x" "x \<le> hi"
  shows "\<bar>rnd (rnd (rnd (rnd (x - lo) / (if rnd (hi - lo) = 0 then 1 else rnd (hi - lo)))
                    * rnd (hi - lo)) + lo) - x\<bar>
           \<le> (4 * \<bar>x - lo\<bar> + \<bar>x\<bar>) / 2 ^ 53"
proof (cases "rnd (hi - lo) = 0")
  case True
  with rel_rounding_zero_iff [OF assms(1), of "hi - lo"] have "hi = lo" by simp
  with assms have x: "x = lo" by simp
  have "\<bar>rnd x - x\<bar> \<le> \<bar>x\<bar> / 2 ^ 53" by (rule rel_roundingD [OF assms(1)])
  then show ?thesis using True x by (simp add: rel_rounding_zero [OF assms(1)])
next
  case False
  with rel_rounding_roundtrip [OF assms(1) False, of x lo] show ?thesis by simp
qed

lemma denorm_minmax_fp_rows:
  "denorm_minmax_fp rnd (of_rows ns)
      \<lparr>pmethod = ''minmax'', v_min = Some lo, v_max = Some hi, center = c, scale = s\<rparr>
     = Inr (of_rows (map (\<lambda>v. vzip (\<lambda>x y. rnd (x + y))
                                    (vzip (\<lambda>x y. rnd (x * y)) v (vzip (\<lambda>a b. rnd (a - b)) hi lo)) lo)
                         ns))"
  by (simp add: denorm_minmax_fp_def array_shape_rows)

lemma denorm_sphere_fp_rows:
  "denorm_sphere_fp rnd (of_rows ns)
      \<lparr>pmethod = ''sphere'', v_min = lo, v_max = hi, center = Some c, scale = Some s\<rparr>
     = Inr (of_rows (map (\<lambda>v. vzip (\<lambda>x y. rnd (x + y)) (vmap (\<lambda>x. rnd (x * s)) v) c) ns))"
  by (simp add: denorm_sphere_fp_def array_shape_rows)

lemma tolerance_of_bound:
  fixes e v d :: real
  assumes "e \<le> (4 * d + \<bar>v\<bar>) / 2 ^ 53" "\<bar>v\<bar> \<le> 1000000" "d \<le> 2000000"
  shows "e < 1 / 10 ^ 9"
proof -
  have "(4 * d + \<bar>v\<bar>) / 2 ^ 53 \<le> (4 * 2000000 + 1000000) / 2 ^ 53"
    using assms(2,3) by (intro divide_right_mono) simp_all
  also have "\<dots> < 1 / 10 ^ 9" by simp
  finally show ?thesis using assms(1) by simp
qed

subsection \<open>Quantization\<close>

lemma quantize_fp_eq:
  assumes "\<not> invalid_shape a" "meth = ''minmax'' \<or> meth = ''sphere''"
  shows "quantize_fp rnd ovf a bins meth
       = Inr (NDArray (shape a)
                (flat_of (map (vmap (\<lambda>x. quantize_component_fp rnd ovf bins (to01_fp rnd meth x)))
                              (rows_of (flat a)))))"
  using assms by (auto simp: quantize_fp_def quantize_component_fp_def to01_fp_def o_def)

lemma quantize_fp_Inr:
  assumes "quantize_fp rnd ovf a bins meth = Inr q"
  shows "\<not> invalid_shape a \<and> (meth = ''minmax'' \<or> meth = ''sphere'')"
  using assms by (auto simp: quantize_fp_def split: if_splits)

lemma quantize_fp_rows:
  assumes "meth = ''minmax'' \<or> meth = ''sphere''"
  shows "quantize_fp rnd ovf (of_rows vs) bins meth
       = Inr (of_rows (map (vmap (\<lambda>x. quantize_component_fp rnd ovf bins (to01_fp rnd meth x))) vs))"
  using quantize_fp_eq [OF valid_of_rows assms, of rnd ovf vs bins]
  by (simp add: array_shape_rows)

lemma quantize_component_fp_range:
  "1 \<le> bins \<Longrightarrow> 0 \<le> quantize_component_fp rnd ovf bins x
                   \<and> quantize_component_fp rnd ovf bins x \<le> bins - 1"
  unfolding quantize_component_fp_def by (rule clip_range) simp

lemma quantize_component_fp_alt:
  "quantize_component_fp rnd ovf bins x
     = clip (astype_int32 ovf (np_floor (rnd (x * rnd (of_int (bins - 1)))))) 0 (bins - 1)"
  by (simp only: quantize_component_fp_def)

lemma quantize_fp_flat_range:
  assumes "quantize_fp rnd ovf a bins meth = Inr q" "1 \<le> bins" "k \<in> set (flat q)"
  shows "0 \<le> k \<and> k \<le> bins - 1"
proof -
  from quantize_fp_Inr [OF assms(1)] quantize_fp_eq [of a meth rnd ovf bins] assms(1)
  have "flat q = flat_of (map (vmap (\<lambda>x. quantize_component_fp rnd ovf bins (to01_fp rnd meth x)))
                              (rows_of (flat a)))"
    by auto
  with assms(3) obtain x where "k = quantize_component_fp rnd ovf bins x"
    by (auto simp: set_flat_of_vmap)
  with quantize_component_fp_range [OF assms(2)] show ?thesis by simp
qed

lemma norm_minmax_fp_no_exit: "norm_minmax_fp rnd a \<noteq> Inl (SystemExit n)"
  by (auto simp: norm_minmax_fp_def amin_axis0_def amax_axis0_def divide_rows_fp_def
      and_then_eq_Inl Let_def)

lemma norm_sphere_fp_no_exit: "norm_sphere_fp rnd a \<noteq> Inl (SystemExit n)"
  by (auto simp: norm_sphere_fp_def amax_def divide_scalar_fp_def and_then_eq_Inl Let_def)

lemma quantize_fp_no_exit: "quantize_fp rnd ovf a bins meth \<noteq> Inl (SystemExit n)"
  by (auto simp: quantize_fp_def and_then_eq_Inl)

lemma dequantize_fp_no_exit: "dequantize_fp rnd q bins meth \<noteq> Inl (SystemExit n)"
  by (auto simp: dequantize_fp_def divide_scalar_fp_def and_then_eq_Inl Let_def)

lemma process_method_fp_no_exit:
  assumes "norm_func vertices \<noteq> Inl (SystemExit 1)"
  shows "process_method_fp rnd ovf vertices (name, norm_func) \<noteq> Inl (SystemExit 1)"
proof
  assume h: "process_method_fp rnd ovf vertices (name, norm_func) = Inl (SystemExit 1)"
  with assms obtain normalized p q qmin qmax where
    q: "quantize_fp rnd ovf normalized BINS name = Inr q" and
    mn: "amin (flat q) = Inr qmin" and mx: "amax (flat q) = Inr qmax" and
    bad: "qmin < 0 \<or> qmax \<ge> BINS"
    by (auto simp: process_method_fp_def and_then_eq_Inl quantize_fp_no_exit dequantize_fp_no_exit
        amin_def amax_def split: if_splits)
  have b: "1 \<le> BINS" by (simp add: BINS_def)
  from quantize_fp_flat_range [OF q b amin_in [OF mn]]
    quantize_fp_flat_range [OF q b amax_in [OF mx]] bad
  show False by simp
qed

lemma process_mesh_file_fp_no_exit: "process_mesh_file_fp rnd ovf vertices \<noteq> Inl (SystemExit 1)"
proof -
  have "process_method_fp rnd ovf vertices (''minmax'', norm_minmax_fp rnd) \<noteq> Inl (SystemExit 1)"
    by (rule process_method_fp_no_exit) (rule norm_minmax_fp_no_exit)
  moreover
  have "process_method_fp rnd ovf vertices (''sphere'', norm_sphere_fp rnd) \<noteq> Inl (SystemExit 1)"
    by (rule process_method_fp_no_exit) (rule norm_sphere_fp_no_exit)
  ultimately show ?thesis
    by (auto simp: process_mesh_file_fp_def and_then_eq_Inl)
qed

lemma round_f64_1023: "round_f64 1023 = 1023"
  using round_f64_of_int [of 1023] by simp

lemma product_fits_int32:
  fixes x :: real and bins :: int
  assumes "rel_rounding rnd" "exact_on_int53 rnd" "2 \<le> bins" "bins \<le> 2147483648" "\<bar>x\<bar> \<le> 1"
  shows "int32_range \<lfloor>rnd (x * rnd (of_int (bins - 1)))\<rfloor>"
proof -
  define m where "m = bins - 1"
  from assms(3,4) have m: "1 \<le> m" "m \<le> 2147483647" by (simp_all add: m_def)
  then have "\<bar>m\<bar> \<le> 9007199254740992" by simp
  from exact_on_int53D [OF assms(2) this] have rm: "rnd (of_int m) = of_int m" .
  define z where "z = x * of_int m"
  define Z where "Z = \<bar>z\<bar>"
  have "\<bar>x\<bar> * real_of_int m \<le> 1 * real_of_int m"
    using assms(5) m(1) by (intro mult_right_mono) simp_all
  also have "\<dots> \<le> 2147483647" using m(2) by simp
  finally have "\<bar>x\<bar> * real_of_int m \<le> 2147483647" .
  with m(1) have zb: "Z \<le> 2147483647" by (simp add: Z_def z_def abs_mult)
  have e: "\<bar>rnd z - z\<bar> \<le> Z / 2 ^ 53" unfolding Z_def by (rule rel_roundingD [OF assms(1)])
  have t: "\<bar>rnd z\<bar> \<le> Z + \<bar>rnd z - z\<bar>" unfolding Z_def by linarith
  from zb e t have "\<bar>rnd z\<bar> < 2147483648" by simp
  then have "- 2147483648 \<le> rnd z" "rnd z < 2147483648" by linarith+
  then have "- 2147483648 \<le> \<lfloor>rnd z\<rfloor>" "\<lfloor>rnd z\<rfloor> < 2147483648"
    by (simp_all add: le_floor_iff floor_less_iff)
  then have "int32_range \<lfloor>rnd z\<rfloor>" by (simp add: int32_range_def)
  then show ?thesis unfolding z_def m_def [symmetric] rm .
qed

lemma floor_near:
  fixes p :: real and q :: int
  assumes "\<bar>p - of_int q\<bar> < 1"
  shows "\<lfloor>p\<rfloor> = q \<or> \<lfloor>p\<rfloor> = q - 1"
proof -
  from assms have "of_int (q - 1) \<le> p" "p < of_int (q + 1)" by simp_all
  then have "q - 1 \<le> \<lfloor>p\<rfloor>" "\<lfloor>p\<rfloor> < q + 1" by (simp_all only: le_floor_iff floor_less_iff)
  then show ?thesis by linarith
qed

lemma requantize_product:
  fixes x :: real and q m :: int
  assumes "rel_rounding rnd" "1 \<le> m" "m \<le> 2147483647" "0 \<le> q" "q \<le> m"
    and "\<bar>x - of_int q / of_int m\<bar> \<le> 7 / 2 ^ 53"
  shows "\<bar>rnd (x * of_int m) - of_int q\<bar> < 1"
proof -
  define M where "M = real_of_int m"
  define Q where "Q = real_of_int q"
  define XM where "XM = x * M"
  define E where "E = \<bar>XM - Q\<bar>"
  define F where "F = \<bar>rnd XM - XM\<bar>"
  from assms(2,3) have M: "1 \<le> M" "M \<le> 2147483647" by (simp_all add: M_def)
  from assms(4,5) have Q: "0 \<le> Q" "Q \<le> M" by (simp_all add: Q_def M_def)
  from M have M0: "M \<noteq> 0" "0 \<le> M" by simp_all
  have "\<bar>x - Q / M\<bar> * M \<le> 7 / 2 ^ 53 * M"
    using assms(6) M0(2) unfolding M_def Q_def by (intro mult_right_mono) simp_all
  moreover have "\<bar>x - Q / M\<bar> * M = \<bar>x * M - Q\<bar>"
  proof -
    have "\<bar>x - Q / M\<bar> * M = \<bar>x - Q / M\<bar> * \<bar>M\<bar>" using M0(2) by simp
    also have "\<dots> = \<bar>(x - Q / M) * M\<bar>" by (simp add: abs_mult)
    also have "(x - Q / M) * M = x * M - Q" using M0(1) by (simp add: left_diff_distrib)
    finally show ?thesis .
  qed
  ultimately have e: "E \<le> 7 / 2 ^ 53 * M" by (simp add: E_def XM_def)
  have f: "F \<le> \<bar>XM\<bar> / 2 ^ 53" unfolding F_def by (rule rel_roundingD [OF assms(1)])
  have t1: "\<bar>XM\<bar> \<le> Q + E" using Q(1) unfolding E_def by linarith
  have t2: "\<bar>rnd XM - Q\<bar> \<le> F + E" unfolding F_def E_def by linarith
  have "\<bar>rnd XM - Q\<bar> < 1" using e f t1 t2 M Q by simp
  then show ?thesis by (simp add: XM_def M_def Q_def)
qed

lemma quantize_component_fp_near:
  fixes x :: real and q bins :: int
  assumes "rel_rounding rnd" "exact_on_int53 rnd" "2 \<le> bins" "bins \<le> 2147483648"
    "0 \<le> q" "q \<le> bins - 1"
    and "\<bar>x - of_int q / of_int (bins - 1)\<bar> \<le> 7 / 2 ^ 53"
  shows "quantize_component_fp rnd ovf bins x = q \<or> quantize_component_fp rnd ovf bins x = q - 1"
proof -
  define m where "m = bins - 1"
  from assms(3,4) have m: "1 \<le> m" "m \<le> 2147483647" by (simp_all add: m_def)
  from assms(6) have qm: "q \<le> m" by (simp add: m_def)
  from m have "\<bar>m\<bar> \<le> 9007199254740992" by simp
  from exact_on_int53D [OF assms(2) this] have rm: "rnd (of_int m) = of_int m" .
  define p where "p = rnd (x * of_int m)"
  have "\<bar>p - of_int q\<bar> < 1"
    unfolding p_def
    using requantize_product [OF assms(1) m assms(5) qm] assms(7) by (simp add: m_def)
  from floor_near [OF this] have fl: "\<lfloor>p\<rfloor> = q \<or> \<lfloor>p\<rfloor> = q - 1" .
  with assms(5) qm m have "int32_range \<lfloor>p\<rfloor>" unfolding int32_range_def by linarith
  from astype_int32_fits [OF this] have c: "astype_int32 ovf (np_floor p) = \<lfloor>p\<rfloor>" .
  have "clip \<lfloor>p\<rfloor> 0 m = q \<or> clip \<lfloor>p\<rfloor> 0 m = q - 1"
    using fl assms(5) qm unfolding clip_def by linarith
  then have "clip (astype_int32 ovf (np_floor (rnd (x * rnd (of_int m))))) 0 m = q
     \<or> clip (astype_int32 ovf (np_floor (rnd (x * rnd (of_int m))))) 0 m = q - 1"
    unfolding rm p_def [symmetric] c .
  then show ?thesis unfolding quantize_component_fp_alt m_def .
qed

lemma sphere_remap_error:
  fixes a :: real
  assumes "rel_rounding rnd" "0 \<le> a" "a \<le> 1"
  shows "\<bar>rnd (rnd (rnd (rnd (rnd a * 2) - 1) + 1) / 2) - a\<bar> \<le> 7 / 2 ^ 53"
proof -
  define d where "d = rnd a"
  define t where "t = rnd (d * 2)"
  define y where "y = rnd (t - 1)"
  define s where "s = rnd (y + 1)"
  define x where "x = rnd (s / 2)"
  define E1 where "E1 = \<bar>d - a\<bar>"
  define E2 where "E2 = \<bar>t - d * 2\<bar>"
  define E3 where "E3 = \<bar>y - (t - 1)\<bar>"
  define E4 where "E4 = \<bar>s - (y + 1)\<bar>"
  define E5 where "E5 = \<bar>x - s / 2\<bar>"
  define D where "D = \<bar>d\<bar>"
  define H where "H = \<bar>d * 2 - a * 2\<bar>"
  define G2 where "G2 = \<bar>t - a * 2\<bar>"
  define T1 where "T1 = \<bar>t - 1\<bar>"
  define G3 where "G3 = \<bar>y + 1 - a * 2\<bar>"
  define Y1 where "Y1 = \<bar>y + 1\<bar>"
  define G4 where "G4 = \<bar>s - a * 2\<bar>"
  define S where "S = \<bar>s\<bar>"
  define K where "K = \<bar>s / 2 - a\<bar>"
  have e1: "E1 \<le> 1 / 2 ^ 53"
    using rel_roundingD [OF assms(1), of a] assms(2,3) by (simp add: E1_def d_def)
  have e2: "E2 \<le> 2 * D / 2 ^ 53"
    using rel_roundingD [OF assms(1), of "d * 2"] by (simp add: E2_def D_def t_def abs_mult)
  have e3: "E3 \<le> T1 / 2 ^ 53" unfolding E3_def T1_def y_def by (rule rel_roundingD [OF assms(1)])
  have e4: "E4 \<le> Y1 / 2 ^ 53" unfolding E4_def Y1_def s_def by (rule rel_roundingD [OF assms(1)])
  have e5: "E5 \<le> S / 2 / 2 ^ 53"
    using rel_roundingD [OF assms(1), of "s / 2"] by (simp add: E5_def S_def x_def)
  have "d * 2 - a * 2 = (d - a) * 2" by simp
  then have h: "H = 2 * E1" unfolding H_def E1_def by (simp only: abs_mult)
  have "s / 2 - a = (s - a * 2) / 2" by simp
  then have k: "K = G4 / 2" unfolding K_def G4_def by (simp only: abs_divide)
  have b1: "D \<le> 1 + E1" using assms(2,3) unfolding D_def E1_def by linarith
  have g2: "G2 \<le> E2 + H" unfolding G2_def E2_def H_def by linarith
  have b2: "T1 \<le> 1 + G2" using assms(2,3) unfolding T1_def G2_def by linarith
  have g3: "G3 \<le> E3 + G2" unfolding G3_def E3_def G2_def by linarith
  have b3: "Y1 \<le> 2 + G3" using assms(2,3) unfolding Y1_def G3_def by linarith
  have g4: "G4 \<le> E4 + G3" unfolding G4_def E4_def G3_def by linarith
  have b4: "S \<le> 2 + G4" using assms(2,3) unfolding S_def G4_def by linarith
  have b5: "\<bar>x - a\<bar> \<le> E5 + K" unfolding E5_def K_def by linarith
  have "\<bar>x - a\<bar> \<le> 7 / 2 ^ 53"
    using e1 e2 e3 e4 e5 h k b1 g2 b2 g3 b3 g4 b4 b5 by simp
  then show ?thesis by (simp add: x_def s_def y_def t_def d_def)
qed

lemma dequantize_fp_rows:
  assumes "rnd (of_int (bins - 1)) \<noteq> 0"
  shows "dequantize_fp rnd (of_rows qs) bins ''minmax''
           = Inr (of_rows (map (vmap (\<lambda>k. rnd (rnd (of_int k) / rnd (of_int (bins - 1))))) qs))"
    and "dequantize_fp rnd (of_rows qs) bins ''sphere''
           = Inr (of_rows (map (vmap (\<lambda>k. rnd (rnd (rnd (rnd (of_int k) / rnd (of_int (bins - 1))) * 2) - 1)))
                               qs))"
  using assms
  by (simp_all add: dequantize_fp_def divide_scalar_fp_def Let_def o_def array_shape_rows
      del: of_int_diff)

lemma requantize_rows:
  assumes "rnd (of_int (bins - 1)) \<noteq> 0" "meth = ''minmax'' \<or> meth = ''sphere''"
  shows "\<exists>d. dequantize_fp rnd (of_rows qs) bins meth = Inr d
           \<and> quantize_fp rnd ovf d bins meth
                = Inr (of_rows (map (vmap (requantize_component rnd ovf bins meth)) qs))"
  using assms(2)
proof
  assume m: "meth = ''minmax''"
  show ?thesis
    unfolding m
    by (rule exI, rule conjI, rule dequantize_fp_rows(1), rule assms(1))
       (simp add: quantize_fp_rows o_def requantize_component_def [abs_def] del: of_int_diff)
next
  assume m: "meth = ''sphere''"
  show ?thesis
    unfolding m
    by (rule exI, rule conjI, rule dequantize_fp_rows(2), rule assms(1))
       (simp add: quantize_fp_rows o_def requantize_component_def [abs_def] del: of_int_diff)
qed

lemma requantize_component_near:
  assumes "rel_rounding rnd" "exact_on_int53 rnd" "2 \<le> bins" "bins \<le> 2147483648"
    "meth = ''minmax'' \<or> meth = ''sphere''" "0 \<le> k" "k \<le> bins - 1"
  shows "requantize_component rnd ovf bins meth k = k
       \<or> requantize_component rnd ovf bins meth k = k - 1"
proof -
  define m where "m = bins - 1"
  define a where "a = real_of_int k / of_int m"
  from assms(3,4) have m: "1 \<le> m" "m \<le> 2147483647" by (simp_all add: m_def)
  from assms(7) have km: "k \<le> m" by (simp add: m_def)
  from m have "\<bar>m\<bar> \<le> 9007199254740992" by simp
  from exact_on_int53D [OF assms(2) this] have rm: "rnd (of_int m) = of_int m" .
  from assms(6) km m have "\<bar>k\<bar> \<le> 9007199254740992" by simp
  from exact_on_int53D [OF assms(2) this] have rk: "rnd (of_int k) = of_int k" .
  from assms(6) km m have a: "0 \<le> a" "a \<le> 1" by (simp_all add: a_def)
  from assms(5) show ?thesis
  proof
    assume mm: "meth = ''minmax''"
    have "\<bar>rnd a - a\<bar> \<le> \<bar>a\<bar> / 2 ^ 53" by (rule rel_roundingD [OF assms(1)])
    with a have "\<bar>rnd a - a\<bar> \<le> 7 / 2 ^ 53" by simp
    then have "\<bar>rnd a - real_of_int k / of_int (bins - 1)\<bar> \<le> 7 / 2 ^ 53"
      unfolding a_def m_def .
    from quantize_component_fp_near [OF assms(1,2,3,4,6,7) this]
    show ?thesis
      unfolding requantize_component_def mm to01_fp_def m_def [symmetric] rm rk a_def [symmetric]
      by (simp add: m_def)
  next
    assume ms: "meth = ''sphere''"
    have "\<bar>rnd (rnd (rnd (rnd (rnd a * 2) - 1) + 1) / 2) - a\<bar> \<le> 7 / 2 ^ 53"
      by (rule sphere_remap_error [OF assms(1) a])
    then have "\<bar>rnd (rnd (rnd (rnd (rnd a * 2) - 1) + 1) / 2) - real_of_int k / of_int (bins - 1)\<bar>
        \<le> 7 / 2 ^ 53"
      unfolding a_def m_def .
    from quantize_component_fp_near [OF assms(1,2,3,4,6,7) this]
    show ?thesis
      unfolding requantize_component_def ms to01_fp_def m_def [symmetric] rm rk a_def [symmetric]
      by (simp add: m_def)
  qed
qed

subsection \<open>Values of \<open>round_f64\<close>\<close>

lemma tenth_sum2:
  "round_f64 (3602879701896397 / 18014398509481984) = 3602879701896397 / 18014398509481984"
  by (subst round_f64_eval [of "- 3"]) (simp_all add: power_int_minus round_even_def)

lemma tenth_sum3:
  "round_f64 (10808639105689191 / 36028797018963968) = 1351079888211149 / 4503599627370496"
  by (subst round_f64_eval [of "- 2"]) (simp_all add: power_int_minus round_even_def)

lemma tenth_mean:
  "round_f64 (1351079888211149 / 13510798882111488) = 7205759403792795 / 72057594037927936"
  by (subst round_f64_eval [of "- 4"]) (simp_all add: power_int_minus round_even_def)

lemma tenth_shift:
  "round_f64 (- (1 / 72057594037927936)) = - (1 / 72057594037927936)"
  by (subst round_f64_eval [of "- 56"]) (simp_all add: power_int_minus round_even_def)

lemma round_f64_3: "round_f64 3 = 3"
  using round_f64_of_int [of 3] by simp

lemma tenth_square:
  "round_f64 (1 / 5192296858534827628530496329220096) = 1 / 5192296858534827628530496329220096"
  by (subst round_f64_eval [of "- 112"]) (simp_all add: power_int_minus round_even_def)

lemma tenth_square2:
  "round_f64 (1 / 2596148429267413814265248164610048) = 1 / 2596148429267413814265248164610048"
  by (subst round_f64_eval [of "- 111"]) (simp_all add: power_int_minus round_even_def)

lemma tenth_square3:
  "round_f64 (3 / 5192296858534827628530496329220096) = 3 / 5192296858534827628530496329220096"
  by (subst round_f64_eval [of "- 111"]) (simp_all add: power_int_minus round_even_def)

lemma tenth_mean_axis0:
  "mean_axis0_fp round_f64 [(tenth, tenth, tenth), (tenth, tenth, tenth), (tenth, tenth, tenth)]
     = (7205759403792795 / 72057594037927936, 7205759403792795 / 72057594037927936,
        7205759403792795 / 72057594037927936)"
  by (simp add: mean_axis0_fp_def mean_fp_def fsum_def column_def tenth_def
      tenth_sum2 tenth_sum3 tenth_mean round_f64_3)

lemma tenth_shifted_rows:
  "shifted_rows_fp round_f64 [(tenth, tenth, tenth), (tenth, tenth, tenth), (tenth, tenth, tenth)]
     = [(- (1 / 72057594037927936), - (1 / 72057594037927936), - (1 / 72057594037927936)),
        (- (1 / 72057594037927936), - (1 / 72057594037927936), - (1 / 72057594037927936)),
        (- (1 / 72057594037927936), - (1 / 72057594037927936), - (1 / 72057594037927936))]"
  unfolding shifted_rows_fp_def tenth_mean_axis0
  by (simp add: tenth_def tenth_shift)

lemma tenth_distance:
  "norm3_fp round_f64 (- (1 / 72057594037927936), - (1 / 72057594037927936), - (1 / 72057594037927936))
     = round_f64 (sqrt (3 / 5192296858534827628530496329220096))"
proof -
  let ?a = "- (1 / 72057594037927936) :: real"
  have sq: "?a * ?a = 1 / 5192296858534827628530496329220096" by simp
  have s2: "(1 / 5192296858534827628530496329220096 :: real) + 1 / 5192296858534827628530496329220096
      = 1 / 2596148429267413814265248164610048" by simp
  have s3: "(1 / 2596148429267413814265248164610048 :: real) + 1 / 5192296858534827628530496329220096
      = 3 / 5192296858534827628530496329220096" by simp
  show ?thesis
    unfolding norm3_fp.simps sq tenth_square s2 tenth_square2 s3 tenth_square3 ..
qed

lemma tenth_max_distance:
  "max_distance_fp round_f64 [(tenth, tenth, tenth), (tenth, tenth, tenth), (tenth, tenth, tenth)]
     = round_f64 (sqrt (3 / 5192296858534827628530496329220096))"
  unfolding max_distance_fp_def tenth_shifted_rows
  by (simp add: tenth_distance del: norm3_fp.simps)

lemma tenth_distance_bounds:
  "round_f64 (sqrt (3 / 5192296858534827628530496329220096)) \<noteq> 0"
  "round_f64 (sqrt (3 / 5192296858534827628530496329220096)) < 1"
proof -
  let ?y = "sqrt (3 / 5192296858534827628530496329220096)"
  have p: "0 < ?y" by simp
  then have "?y \<noteq> 0" by simp
  then show "round_f64 ?y \<noteq> 0"
    using rel_rounding_zero_iff [OF rel_rounding_f64, of ?y] by simp
  have "?y < sqrt (1 / 4)" by (intro real_sqrt_less_mono) simp
  also have "sqrt (1 / 4) = 1 / 2" by (simp add: real_sqrt_divide)
  finally have "?y < 1 / 2" .
  with rel_rounding_upper [OF rel_rounding_f64, of ?y] p show "round_f64 ?y < 1" by simp
qed

lemma round_f64_22e9: "round_f64 22000000000 = 22000000000"
  using round_f64_of_int [of 22000000000] by simp

lemma round_f64_15e9: "round_f64 15000000000 = 15000000000"
  using round_f64_of_int [of 15000000000] by simp

lemma round_f64_1: "round_f64 1 = 1"
  using round_f64_of_int [of 1] by simp

lemma round_f64_15_22: "round_f64 (15 / 22) = 6141272219141585 / 9007199254740992"
  by (subst round_f64_eval [of "- 1"]) (simp_all add: power_int_minus round_even_def)

lemma round_f64_product:
  "round_f64 (131941395333119990234375 / 8796093022208) = 7864319999999999 / 524288"
  by (subst round_f64_eval [of 33]) (simp_all add: power_int_minus round_even_def)

lemma round_f64_result: "round_f64 (7864319999999999 / 524288) = 7864319999999999 / 524288"
  by (subst round_f64_eval [of 33]) (simp_all add: power_int_minus round_even_def)

lemma round_f64_1023_inv:
  "round_f64 (1 / 1023) = 1127000493261825 / 1152921504606846976"
  by (subst round_f64_eval [of "- 10"]) (simp_all add: power_int_minus round_even_def)

lemma round_f64_double:
  "round_f64 (1127000493261825 / 576460752303423488) = 1127000493261825 / 576460752303423488"
  by (subst round_f64_eval [of "- 9"]) (simp_all add: power_int_minus round_even_def)

lemma round_f64_sphere_coordinate:
  "round_f64 (- (575333751810161663 / 576460752303423488))
     = - (561849367002111 / 562949953421312)"
  by (subst round_f64_eval [of "- 1"]) (simp_all add: power_int_minus round_even_def)

lemma round_f64_shifted:
  "round_f64 (1100586419201 / 562949953421312) = 1100586419201 / 562949953421312"
  by (subst round_f64_eval [of "- 9"]) (simp_all add: power_int_minus round_even_def)

lemma round_f64_halved:
  "round_f64 (1100586419201 / 1125899906842624) = 1100586419201 / 1125899906842624"
  by (subst round_f64_eval [of "- 10"]) (simp_all add: power_int_minus round_even_def)

lemma round_f64_scaled:
  "round_f64 (1125899906842623 / 1125899906842624) = 1125899906842623 / 1125899906842624"
  by (subst round_f64_eval [of "- 1"]) (simp_all add: power_int_minus round_even_def)

lemma round_f64_third: "round_f64 (1 / 3) = 6004799503160661 / 18014398509481984"
  by (subst round_f64_eval [of "- 2"]) (simp_all add: power_int_minus round_even_def)

lemma round_f64_third_scaled: "round_f64 (6142909891733356203 / 18014398509481984) = 341"
  by (subst round_f64_eval [of 8]) (simp_all add: power_int_minus round_even_def)

section \<open>Shape errors of the normalizer\<close>

text \<open>
  C5. A well-formed array that is a vertex set (shape \<open>(N, 3)\<close>, \<open>N > 0\<close>) is normalized
  by both methods without any error. Every other well-formed array, the array of shape
  \<open>(0, 3)\<close> among them, makes both \<open>norm_minmax\<close> and \<open>norm_sphere\<close> fail with a
  \<open>ValueError\<close> about the shape: the one the source raises itself, or the one NumPy
  raises when \<open>min\<close> or \<open>max\<close> reduces zero rows.
\<close>

theorem normalize_shape_errors:
  assumes "wf_array a"
  shows "(is_vertex_set a \<longrightarrow>
            (\<exists>n p. norm_minmax a = Inr (n, p)) \<and> (\<exists>n p. norm_sphere a = Inr (n, p)))
       \<and> (\<not> is_vertex_set a \<longrightarrow>
            (\<exists>e. norm_minmax a = Inl e \<and> is_ShapeError e)
          \<and> (\<exists>e. norm_sphere a = Inl e \<and> is_ShapeError e))"
proof (cases "invalid_shape a")
  case True
  then show ?thesis by (simp add: norm_invalid invalid_not_vertex_set)
next
  case False
  with shape_cases [of a] obtain n where sh: "shape a = [n, 3]" by blast
  from wf_vertex_array [OF assms sh]
  have a: "a = of_rows (rows_of (flat a))" and n: "length (rows_of (flat a)) = n" by simp_all
  show ?thesis
  proof (cases "n = 0")
    case True
    with n have e: "rows_of (flat a) = []" by simp
    have "a = NDArray [0, 3] []" by (subst a) (simp add: of_rows_def e)
    moreover have "\<not> is_vertex_set a" using sh True by (simp add: is_vertex_set_def)
    ultimately show ?thesis by (simp add: norm_empty)
  next
    case False
    with n have ne: "rows_of (flat a) \<noteq> []" by auto
    have v: "is_vertex_set a" using sh False by (simp add: is_vertex_set_def)
    from norm_minmax_rows [OF ne] have "\<exists>n p. norm_minmax a = Inr (n, p)"
      unfolding a [symmetric] by blast
    moreover from norm_sphere_rows [OF ne] have "\<exists>n p. norm_sphere a = Inr (n, p)"
      unfolding a [symmetric] by blast
    ultimately show ?thesis using v by simp
  qed
qed

theorem normalize_shape_errors_witness:
  "(\<exists>n p. norm_minmax (of_rows [(0, 0, 0), (1, 2, 3)]) = Inr (n, p))
 \<and> (\<exists>e. norm_sphere (NDArray [2, 2] [1, 2, 3, 4]) = Inl e \<and> is_ShapeError e)"
  using normalize_shape_errors [of "of_rows [(0, 0, 0), (1, 2, 3)]"]
    normalize_shape_errors [of "NDArray [2, 2] [1, 2, 3, 4]"]
  by (simp add: is_vertex_set_def wf_array_def)

section \<open>Parameters of the wrong method\<close>

text \<open>
  C9. Whatever the array, \<open>denorm_minmax\<close> fails with the method-mismatch
  \<open>ValueError\<close> when the parameters are not tagged \<open>minmax\<close>, and \<open>denorm_sphere\<close>
  fails with it when they are not tagged \<open>sphere\<close>.
\<close>

theorem denorm_method_mismatch:
  "(pmethod p \<noteq> ''minmax'' \<longrightarrow>
      denorm_minmax normalized p = Inl (ValueError (Invalid_method_in_params (pmethod p))))
 \<and> (pmethod p \<noteq> ''sphere'' \<longrightarrow>
      denorm_sphere normalized p = Inl (ValueError (Invalid_method_in_params (pmethod p))))
 \<and> is_MethodMismatchError (ValueError (Invalid_method_in_params (pmethod p)))"
  by (simp add: denorm_minmax_def denorm_sphere_def)

theorem denorm_method_mismatch_witness:
  "denorm_minmax (of_rows [(0, 0, 0)])
     \<lparr>pmethod = ''sphere'', v_min = None, v_max = None, center = Some (0, 0, 0), scale = Some 1\<rparr>
   = Inl (ValueError (Invalid_method_in_params ''sphere''))"
  using denorm_method_mismatch [of "\<lparr>pmethod = ''sphere'', v_min = None, v_max = None, center = Some (0, 0, 0), scale = Some 1\<rparr>" "of_rows [(0, 0, 0)]"]
  by simp



section \<open>Degenerate axes and coinciding points\<close>

text \<open>
  In exact arithmetic: on an axis where all points share one value the range is replaced
  by 1 and the normalized value is 0; when all points coincide the largest distance is 0,
  the scale 1 is stored, and every normalized point is the origin.
\<close>

lemma degenerate_axes_exact:
  assumes "vs \<noteq> []"
  shows "(\<exists>ns p. norm_minmax (of_rows vs) = Inr (of_rows ns, p) \<and> length ns = length vs
            \<and> (\<forall>a. (\<forall>v\<in>set vs. sel a v = sel a (hd vs)) \<longrightarrow>
                    sel a (col_max vs) = sel a (col_min vs)
                  \<and> sel a (range_per_axis (col_min vs) (col_max vs)) = 1
                  \<and> (\<forall>i<length vs. sel a (ns ! i) = sel a (vs ! i) - sel a (col_min vs)
                                   \<and> sel a (ns ! i) = 0)))
       \<and> (\<exists>ns p. norm_sphere (of_rows vs) = Inr (of_rows ns, p) \<and> length ns = length vs
            \<and> ((\<forall>v\<in>set vs. v = hd vs) \<longrightarrow>
                    max_distance vs = 0 \<and> scale p = Some 1
                  \<and> (\<forall>i<length vs. ns ! i = vzip (-) (vs ! i) (mean_axis0 vs)
                                   \<and> ns ! i = (0, 0, 0))))"
proof (intro conjI exI)
  show "norm_minmax (of_rows vs) = Inr
     (of_rows (map (\<lambda>v. vzip (/) (vzip (-) v (col_min vs)) (range_per_axis (col_min vs) (col_max vs))) vs),
      \<lparr>pmethod = ''minmax'', v_min = Some (col_min vs), v_max = Some (col_max vs),
       center = None, scale = None\<rparr>)"
    by (rule norm_minmax_rows [OF assms])
  show "norm_sphere (of_rows vs) = Inr
     (of_rows (map (vmap (\<lambda>x. x / sphere_scale vs)) (shifted_rows vs)),
      \<lparr>pmethod = ''sphere'', v_min = None, v_max = None,
       center = Some (mean_axis0 vs), scale = Some (sphere_scale vs)\<rparr>)"
    by (rule norm_sphere_rows [OF assms])
  show "\<forall>a. (\<forall>v\<in>set vs. sel a v = sel a (hd vs)) \<longrightarrow>
          sel a (col_max vs) = sel a (col_min vs)
        \<and> sel a (range_per_axis (col_min vs) (col_max vs)) = 1
        \<and> (\<forall>i<length vs.
              sel a (map (\<lambda>v. vzip (/) (vzip (-) v (col_min vs)) (range_per_axis (col_min vs) (col_max vs))) vs ! i)
                = sel a (vs ! i) - sel a (col_min vs)
            \<and> sel a (map (\<lambda>v. vzip (/) (vzip (-) v (col_min vs)) (range_per_axis (col_min vs) (col_max vs))) vs ! i) = 0)"
  proof (intro allI impI)
    fix a assume same: "\<forall>v\<in>set vs. sel a v = sel a (hd vs)"
    then have col: "set (column a vs) = {sel a (hd vs)}"
      using column_const [OF assms, of a "sel a (hd vs)"] by simp
    have mn: "sel a (col_min vs) = sel a (hd vs)" and mx: "sel a (col_max vs) = sel a (hd vs)"
      by (simp_all add: col)
    have r: "sel a (range_per_axis (col_min vs) (col_max vs)) = 1"
      by (simp add: sel_range_per_axis mn mx del: sel_col_min sel_col_max)
    have "sel a (vs ! i) = sel a (hd vs)" if "i < length vs" for i
      using same that by simp
    then show "sel a (col_max vs) = sel a (col_min vs)
        \<and> sel a (range_per_axis (col_min vs) (col_max vs)) = 1
        \<and> (\<forall>i<length vs.
              sel a (map (\<lambda>v. vzip (/) (vzip (-) v (col_min vs)) (range_per_axis (col_min vs) (col_max vs))) vs ! i)
                = sel a (vs ! i) - sel a (col_min vs)
            \<and> sel a (map (\<lambda>v. vzip (/) (vzip (-) v (col_min vs)) (range_per_axis (col_min vs) (col_max vs))) vs ! i) = 0)"
      using r mn mx by (simp del: sel_col_min sel_col_max)
  qed
  show "(\<forall>v\<in>set vs. v = hd vs) \<longrightarrow>
          max_distance vs = 0
        \<and> scale \<lparr>pmethod = ''sphere'', v_min = None, v_max = None,
                 center = Some (mean_axis0 vs), scale = Some (sphere_scale vs)\<rparr> = Some 1
        \<and> (\<forall>i<length vs.
              map (vmap (\<lambda>x. x / sphere_scale vs)) (shifted_rows vs) ! i = vzip (-) (vs ! i) (mean_axis0 vs)
            \<and> map (vmap (\<lambda>x. x / sphere_scale vs)) (shifted_rows vs) ! i = (0, 0, 0))"
  proof
    assume "\<forall>v\<in>set vs. v = hd vs"
    then have same: "\<And>v. v \<in> set vs \<Longrightarrow> v = hd vs" by simp
    have m: "max_distance vs = 0" by (rule max_distance_const [OF assms same])
    then have s: "sphere_scale vs = 1" by (simp add: sphere_scale_def)
    have z: "shifted_rows vs ! i = (0, 0, 0)" if "i < length vs" for i
      using shifted_rows_const [OF assms same that] .
    have sh: "shifted_rows vs ! i = vzip (-) (vs ! i) (mean_axis0 vs)" if "i < length vs" for i
      using that by (simp add: shifted_rows_def)
    show "max_distance vs = 0
        \<and> scale \<lparr>pmethod = ''sphere'', v_min = None, v_max = None,
                 center = Some (mean_axis0 vs), scale = Some (sphere_scale vs)\<rparr> = Some 1
        \<and> (\<forall>i<length vs.
              map (vmap (\<lambda>x. x / sphere_scale vs)) (shifted_rows vs) ! i = vzip (-) (vs ! i) (mean_axis0 vs)
            \<and> map (vmap (\<lambda>x. x / sphere_scale vs)) (shifted_rows vs) ! i = (0, 0, 0))"
      using m s z sh by simp
  qed
qed simp_all

text \<open>
  With rounding, for every rounding that leaves 0 as it is: the first two hold as they
  are; the scale is replaced by 1 when the largest distance that was computed is 0.
\<close>

lemma degenerate_division_rounded:
  assumes "vs \<noteq> []" "rnd 0 = 0"
  shows "(\<exists>ns p. norm_minmax_fp rnd (of_rows vs) = Inr (of_rows ns, p) \<and> length ns = length vs
            \<and> (\<forall>a. sel a (range_per_axis_fp rnd (col_min vs) (col_max vs)) \<noteq> 0)
            \<and> (\<forall>a. (\<forall>v\<in>set vs. sel a v = sel a (hd vs)) \<longrightarrow>
                    sel a (col_max vs) = sel a (col_min vs)
                  \<and> sel a (range_per_axis_fp rnd (col_min vs) (col_max vs)) = 1
                  \<and> (\<forall>i<length vs. sel a (ns ! i) = sel a (vs ! i) - sel a (col_min vs)
                                   \<and> sel a (ns ! i) = 0)))
       \<and> (\<exists>ns p s. norm_sphere_fp rnd (of_rows vs) = Inr (of_rows ns, p) \<and> length ns = length vs
            \<and> scale p = Some s \<and> s \<noteq> 0
            \<and> (max_distance_fp rnd vs = 0 \<longrightarrow>
                    s = 1
                  \<and> (\<forall>i<length vs. ns ! i = vmap (\<lambda>x. rnd (x / 1)) (shifted_rows_fp rnd vs ! i))))"
proof (intro conjI exI)
  let ?ns = "map (\<lambda>v. vzip (\<lambda>x y. rnd (x / y)) (vzip (\<lambda>x y. rnd (x - y)) v (col_min vs))
                                 (range_per_axis_fp rnd (col_min vs) (col_max vs))) vs"
  let ?ss = "map (vmap (\<lambda>x. rnd (x / sphere_scale_fp rnd vs))) (shifted_rows_fp rnd vs)"
  let ?p = "\<lparr>pmethod = ''sphere'', v_min = None, v_max = None,
           center = Some (mean_axis0_fp rnd vs), scale = Some (sphere_scale_fp rnd vs)\<rparr>"
  show "norm_minmax_fp rnd (of_rows vs) = Inr (of_rows ?ns,
      \<lparr>pmethod = ''minmax'', v_min = Some (col_min vs), v_max = Some (col_max vs),
       center = None, scale = None\<rparr>)"
    by (rule norm_minmax_fp_rows [OF assms(1)])
  show "norm_sphere_fp rnd (of_rows vs) = Inr (of_rows ?ss, ?p)"
    by (rule norm_sphere_fp_rows [OF assms(1)])
  show "\<forall>a. sel a (range_per_axis_fp rnd (col_min vs) (col_max vs)) \<noteq> 0"
    by (simp add: range_per_axis_fp_nonzero del: sel_col_min sel_col_max)
  show "\<forall>a. (\<forall>v\<in>set vs. sel a v = sel a (hd vs)) \<longrightarrow>
          sel a (col_max vs) = sel a (col_min vs)
        \<and> sel a (range_per_axis_fp rnd (col_min vs) (col_max vs)) = 1
        \<and> (\<forall>i<length vs. sel a (?ns ! i) = sel a (vs ! i) - sel a (col_min vs)
                         \<and> sel a (?ns ! i) = 0)"
  proof (intro allI impI)
    fix a assume same: "\<forall>v\<in>set vs. sel a v = sel a (hd vs)"
    then have col: "set (column a vs) = {sel a (hd vs)}"
      using column_const [OF assms(1), of a "sel a (hd vs)"] by simp
    have mn: "sel a (col_min vs) = sel a (hd vs)" and mx: "sel a (col_max vs) = sel a (hd vs)"
      by (simp_all add: col)
    have r: "sel a (range_per_axis_fp rnd (col_min vs) (col_max vs)) = 1"
      by (simp add: sel_range_per_axis_fp mn mx assms(2) del: sel_col_min sel_col_max)
    have "sel a (vs ! i) = sel a (hd vs)" if "i < length vs" for i
      using same that by simp
    then show "sel a (col_max vs) = sel a (col_min vs)
        \<and> sel a (range_per_axis_fp rnd (col_min vs) (col_max vs)) = 1
        \<and> (\<forall>i<length vs. sel a (?ns ! i) = sel a (vs ! i) - sel a (col_min vs)
                         \<and> sel a (?ns ! i) = 0)"
      using r mn mx by (simp add: assms(2) del: sel_col_min sel_col_max)
  qed
  show "scale ?p = Some (sphere_scale_fp rnd vs)" by simp
  show "sphere_scale_fp rnd vs \<noteq> 0" by (rule sphere_scale_fp_nonzero)
  show "max_distance_fp rnd vs = 0 \<longrightarrow>
          sphere_scale_fp rnd vs = 1
        \<and> (\<forall>i<length vs. ?ss ! i = vmap (\<lambda>x. rnd (x / 1)) (shifted_rows_fp rnd vs ! i))"
    by (simp add: sphere_scale_fp_def)
qed simp_all

text \<open>
  C6. A non-empty vertex set is normalized by both methods without a division by zero:
  the result is \<open>Inr\<close>, never \<open>NonFinite\<close>, and every divisor is different from 0. On an
  axis where all points share one value, \<open>norm_minmax\<close> finds maximum equal to minimum,
  divides by 1 instead of by the zero range, and the normalized value there is the
  vertex value minus the minimum, which is 0. \<open>norm_sphere\<close> stores the scale 1 when the
  largest distance it computed is 0, and then divides the shifted points by 1. When all
  points coincide this is so in exact arithmetic, where every normalized point is the
  origin; in binary64 the computed centre need not be the common point, and then the
  largest distance is not 0 and is the scale (the example after the theorem).
\<close>

theorem degenerate_division:
  assumes "vs \<noteq> []" "rnd 0 = 0"
  shows "(\<exists>ns p. norm_minmax_fp rnd (of_rows vs) = Inr (of_rows ns, p) \<and> length ns = length vs
            \<and> (\<forall>a. sel a (range_per_axis_fp rnd (col_min vs) (col_max vs)) \<noteq> 0)
            \<and> (\<forall>a. (\<forall>v\<in>set vs. sel a v = sel a (hd vs)) \<longrightarrow>
                    sel a (col_max vs) = sel a (col_min vs)
                  \<and> sel a (range_per_axis_fp rnd (col_min vs) (col_max vs)) = 1
                  \<and> (\<forall>i<length vs. sel a (ns ! i) = sel a (vs ! i) - sel a (col_min vs)
                                   \<and> sel a (ns ! i) = 0)))
       \<and> (\<exists>ns p s. norm_sphere_fp rnd (of_rows vs) = Inr (of_rows ns, p) \<and> length ns = length vs
            \<and> scale p = Some s \<and> s \<noteq> 0
            \<and> (max_distance_fp rnd vs = 0 \<longrightarrow>
                    s = 1
                  \<and> (\<forall>i<length vs. ns ! i = vmap (\<lambda>x. rnd (x / 1)) (shifted_rows_fp rnd vs ! i))))
       \<and> (\<exists>ns p. norm_sphere (of_rows vs) = Inr (of_rows ns, p) \<and> length ns = length vs
            \<and> ((\<forall>v\<in>set vs. v = hd vs) \<longrightarrow>
                    max_distance vs = 0 \<and> scale p = Some 1
                  \<and> (\<forall>i<length vs. ns ! i = (0, 0, 0))))"
proof -
  from degenerate_axes_exact [OF assms(1)]
  have "\<exists>ns p. norm_sphere (of_rows vs) = Inr (of_rows ns, p) \<and> length ns = length vs
            \<and> ((\<forall>v\<in>set vs. v = hd vs) \<longrightarrow>
                    max_distance vs = 0 \<and> scale p = Some 1
                  \<and> (\<forall>i<length vs. ns ! i = (0, 0, 0)))"
    by blast
  with assms degenerate_division_rounded [of vs rnd] show ?thesis by blast
qed

theorem degenerate_division_witness:
  "\<exists>ns p. norm_minmax_fp round_f64 (of_rows [(0, 0, 5), (1, 2, 5)]) = Inr (of_rows ns, p)
         \<and> sel Z (ns ! 1) = 0"
proof -
  let ?V = "[(0, 0, 5), (1, 2, 5)] :: vec3 list"
  have h: "?V \<noteq> []" "round_f64 0 = 0" by simp_all
  from h degenerate_division [of ?V round_f64] obtain ns p where
    n: "norm_minmax_fp round_f64 (of_rows ?V) = Inr (of_rows ns, p)"
    and r: "\<forall>a. (\<forall>v\<in>set ?V. sel a v = sel a (hd ?V)) \<longrightarrow>
                    sel a (col_max ?V) = sel a (col_min ?V)
                  \<and> sel a (range_per_axis_fp round_f64 (col_min ?V) (col_max ?V)) = 1
                  \<and> (\<forall>i<length ?V. sel a (ns ! i) = sel a (?V ! i) - sel a (col_min ?V)
                                   \<and> sel a (ns ! i) = 0)"
    by blast
  have "\<forall>v\<in>set ?V. sel Z v = sel Z (hd ?V)" by simp
  with r have "\<forall>i<length ?V. sel Z (ns ! i) = sel Z (?V ! i) - sel Z (col_min ?V)
                                   \<and> sel Z (ns ! i) = 0"
    by blast
  moreover have "(1 :: nat) < length ?V" by simp
  ultimately have "sel Z (ns ! 1) = 0" by blast
  with n show ?thesis by blast
qed

text \<open>
  Three copies of the point whose coordinates are the double nearest to \<open>0.1\<close>. The sum
  of the three is rounded upwards, the centre computed is \<open>0.1 + 2\<^sup>-\<^sup>5\<^sup>6\<close> on every axis,
  every shifted coordinate is \<open>-2\<^sup>-\<^sup>5\<^sup>6\<close>, and the largest distance is the double nearest
  to \<open>sqrt 3 * 2\<^sup>-\<^sup>5\<^sup>6\<close>: it is not 0, and it is stored as the scale instead of 1.
\<close>

theorem coinciding_points_counterexample:
  "max_distance_fp round_f64 [(tenth, tenth, tenth), (tenth, tenth, tenth), (tenth, tenth, tenth)] \<noteq> 0
 \<and> scale (snd (projr (norm_sphere_fp round_f64
        (of_rows [(tenth, tenth, tenth), (tenth, tenth, tenth), (tenth, tenth, tenth)])))) \<noteq> Some 1"
proof -
  let ?V = "[(tenth, tenth, tenth), (tenth, tenth, tenth), (tenth, tenth, tenth)]"
  have "?V \<noteq> []" by simp
  note n = norm_sphere_fp_rows [OF this, of round_f64]
  from tenth_distance_bounds have s: "sphere_scale_fp round_f64 ?V \<noteq> 1"
    "max_distance_fp round_f64 ?V \<noteq> 0"
    by (simp_all add: sphere_scale_fp_def tenth_max_distance)
  then show ?thesis unfolding n by simp
qed

section \<open>Ranges of the normalized output\<close>

text \<open>
  C4. For a non-empty vertex set, every component of the output of \<open>norm_minmax\<close> lies
  in \<open>[0, 1]\<close>, and every point of the output of \<open>norm_sphere\<close> has Euclidean norm at
  most 1. In exact arithmetic this holds on every axis and for every scale, the
  degenerate ones included.
\<close>

theorem normalized_ranges:
  assumes "vs \<noteq> []"
  shows "(\<exists>ns p. norm_minmax (of_rows vs) = Inr (of_rows ns, p) \<and> length ns = length vs
              \<and> (\<forall>i<length vs. \<forall>a. 0 \<le> sel a (ns ! i) \<and> sel a (ns ! i) \<le> 1))
       \<and> (\<exists>ns p. norm_sphere (of_rows vs) = Inr (of_rows ns, p) \<and> length ns = length vs
              \<and> (\<forall>i<length vs. norm3 (ns ! i) \<le> 1))"
proof (intro conjI exI)
  show "norm_minmax (of_rows vs) = Inr
     (of_rows (map (\<lambda>v. vzip (/) (vzip (-) v (col_min vs)) (range_per_axis (col_min vs) (col_max vs))) vs),
      \<lparr>pmethod = ''minmax'', v_min = Some (col_min vs), v_max = Some (col_max vs),
       center = None, scale = None\<rparr>)"
    by (rule norm_minmax_rows [OF assms])
  show "norm_sphere (of_rows vs) = Inr
     (of_rows (map (vmap (\<lambda>x. x / sphere_scale vs)) (shifted_rows vs)),
      \<lparr>pmethod = ''sphere'', v_min = None, v_max = None,
       center = Some (mean_axis0 vs), scale = Some (sphere_scale vs)\<rparr>)"
    by (rule norm_sphere_rows [OF assms])
  show "\<forall>i<length vs. \<forall>a.
      0 \<le> sel a (map (\<lambda>v. vzip (/) (vzip (-) v (col_min vs)) (range_per_axis (col_min vs) (col_max vs))) vs ! i)
    \<and> sel a (map (\<lambda>v. vzip (/) (vzip (-) v (col_min vs)) (range_per_axis (col_min vs) (col_max vs))) vs ! i) \<le> 1"
  proof (intro allI impI)
    fix i a assume i: "i < length vs"
    from minmax_component_unit [OF col_bounds [OF i, of a]] i
    show "0 \<le> sel a (map (\<lambda>v. vzip (/) (vzip (-) v (col_min vs)) (range_per_axis (col_min vs) (col_max vs))) vs ! i)
    \<and> sel a (map (\<lambda>v. vzip (/) (vzip (-) v (col_min vs)) (range_per_axis (col_min vs) (col_max vs))) vs ! i) \<le> 1"
      by (simp add: sel_range_per_axis del: sel_col_min sel_col_max)
  qed
  show "\<forall>i<length vs. norm3 (map (vmap (\<lambda>x. x / sphere_scale vs)) (shifted_rows vs) ! i) \<le> 1"
    using sphere_row_unit by simp
qed simp_all

theorem normalized_ranges_witness:
  "\<exists>ns p. norm_minmax (of_rows [(0, 0, 0), (1, 2, 4)]) = Inr (of_rows ns, p)
         \<and> 0 \<le> sel Y (ns ! 1) \<and> sel Y (ns ! 1) \<le> 1"
proof -
  let ?V = "[(0, 0, 0), (1, 2, 4)] :: vec3 list"
  have "?V \<noteq> []" by simp
  from normalized_ranges [OF this] obtain ns p where
    n: "norm_minmax (of_rows ?V) = Inr (of_rows ns, p)"
    and r: "\<forall>i<length ?V. \<forall>a. 0 \<le> sel a (ns ! i) \<and> sel a (ns ! i) \<le> 1"
    by blast
  have "(1 :: nat) < length ?V" by simp
  with r have "0 \<le> sel Y (ns ! 1) \<and> sel Y (ns ! 1) \<le> 1" by blast
  with n show ?thesis by blast
qed

section \<open>Round trip without quantization\<close>

text \<open>
  In exact arithmetic, denormalizing the normalized array with the parameters that came
  with it gives back the vertex set itself.
\<close>

lemma normalize_roundtrip_exact:
  assumes "vs \<noteq> []"
  shows "(\<exists>ns p. norm_minmax (of_rows vs) = Inr (ns, p)
              \<and> denorm_minmax ns p = Inr (of_rows vs) \<and> denormalize ns p = Inr (of_rows vs))
       \<and> (\<exists>ns p. norm_sphere (of_rows vs) = Inr (ns, p)
              \<and> denorm_sphere ns p = Inr (of_rows vs) \<and> denormalize ns p = Inr (of_rows vs))"
proof (intro conjI exI)
  show "norm_minmax (of_rows vs) = Inr
     (of_rows (map (\<lambda>v. vzip (/) (vzip (-) v (col_min vs)) (range_per_axis (col_min vs) (col_max vs))) vs),
      \<lparr>pmethod = ''minmax'', v_min = Some (col_min vs), v_max = Some (col_max vs),
       center = None, scale = None\<rparr>)"
    by (rule norm_minmax_rows [OF assms])
  show "norm_sphere (of_rows vs) = Inr
     (of_rows (map (vmap (\<lambda>x. x / sphere_scale vs)) (shifted_rows vs)),
      \<lparr>pmethod = ''sphere'', v_min = None, v_max = None,
       center = Some (mean_axis0 vs), scale = Some (sphere_scale vs)\<rparr>)"
    by (rule norm_sphere_rows [OF assms])
qed (simp_all only: denorm_minmax_rows denorm_sphere_rows minmax_roundtrip_rows
      sphere_roundtrip_rows denormalize_def params.simps if_True if_False, simp_all)

text \<open>
  C2. For a non-empty vertex set and both methods, denormalizing the normalized array
  with the parameters that came with it gives back the vertex set up to rounding. When
  every operation has a relative error of at most \<open>2\<^sup>-\<^sup>5\<^sup>3\<close>, as in binary64, a
  reconstructed component differs from the original \<open>v\<close> by at most
  \<open>(4 * \<bar>v - o\<bar> + \<bar>v\<bar>) / 2\<^sup>5\<^sup>3\<close>, where \<open>o\<close> is the minimum of the axis for MinMax and the
  stored centre of the axis for UnitSphere; so by less than \<open>10\<^sup>-\<^sup>9\<close> when
  \<open>\<bar>v\<bar> \<le> 10\<^sup>6\<close> and \<open>\<bar>v - o\<bar> \<le> 2 * 10\<^sup>6\<close>. The bound grows with the coordinates: the
  tolerance \<open>10\<^sup>-\<^sup>9\<close> does not hold for all vertex sets (the example after the theorem).
  In exact arithmetic the vertex set comes back exactly. The dispatching \<open>denormalize\<close>
  of the reconstruction step gives the same.
\<close>

theorem normalize_roundtrip_error:
  assumes "vs \<noteq> []" "rel_rounding rnd"
  shows "(\<exists>ns p rs. norm_minmax_fp rnd (of_rows vs) = Inr (ns, p)
            \<and> denorm_minmax_fp rnd ns p = Inr (of_rows rs)
            \<and> denormalize_fp rnd ns p = Inr (of_rows rs)
            \<and> length rs = length vs
            \<and> (\<forall>i<length vs. \<forall>a.
                  \<bar>sel a (rs ! i) - sel a (vs ! i)\<bar>
                    \<le> (4 * \<bar>sel a (vs ! i) - sel a (col_min vs)\<bar> + \<bar>sel a (vs ! i)\<bar>) / 2 ^ 53
                \<and> (\<bar>sel a (vs ! i)\<bar> \<le> 1000000
                     \<and> \<bar>sel a (vs ! i) - sel a (col_min vs)\<bar> \<le> 2000000
                   \<longrightarrow> \<bar>sel a (rs ! i) - sel a (vs ! i)\<bar> < 1 / 10 ^ 9)))
       \<and> (\<exists>ns p rs. norm_sphere_fp rnd (of_rows vs) = Inr (ns, p)
            \<and> denorm_sphere_fp rnd ns p = Inr (of_rows rs)
            \<and> denormalize_fp rnd ns p = Inr (of_rows rs)
            \<and> length rs = length vs
            \<and> (\<forall>i<length vs. \<forall>a.
                  \<bar>sel a (rs ! i) - sel a (vs ! i)\<bar>
                    \<le> (4 * \<bar>sel a (vs ! i) - sel a (mean_axis0_fp rnd vs)\<bar> + \<bar>sel a (vs ! i)\<bar>) / 2 ^ 53
                \<and> (\<bar>sel a (vs ! i)\<bar> \<le> 1000000
                     \<and> \<bar>sel a (vs ! i) - sel a (mean_axis0_fp rnd vs)\<bar> \<le> 2000000
                   \<longrightarrow> \<bar>sel a (rs ! i) - sel a (vs ! i)\<bar> < 1 / 10 ^ 9)))
       \<and> (\<exists>ns p. norm_minmax (of_rows vs) = Inr (ns, p) \<and> denorm_minmax ns p = Inr (of_rows vs)
            \<and> denormalize ns p = Inr (of_rows vs))
       \<and> (\<exists>ns p. norm_sphere (of_rows vs) = Inr (ns, p) \<and> denorm_sphere ns p = Inr (of_rows vs)
            \<and> denormalize ns p = Inr (of_rows vs))"
proof -
  let ?lo = "col_min vs" and ?hi = "col_max vs" and ?c = "mean_axis0_fp rnd vs"
  let ?s = "sphere_scale_fp rnd vs"
  let ?nm = "map (\<lambda>v. vzip (\<lambda>x y. rnd (x / y)) (vzip (\<lambda>x y. rnd (x - y)) v ?lo)
                                 (range_per_axis_fp rnd ?lo ?hi)) vs"
  let ?pm = "\<lparr>pmethod = ''minmax'', v_min = Some ?lo, v_max = Some ?hi,
           center = None, scale = None\<rparr>"
  let ?rm = "map (\<lambda>v. vzip (\<lambda>x y. rnd (x + y))
                          (vzip (\<lambda>x y. rnd (x * y)) v (vzip (\<lambda>a b. rnd (a - b)) ?hi ?lo)) ?lo) ?nm"
  let ?ns = "map (vmap (\<lambda>x. rnd (x / ?s))) (shifted_rows_fp rnd vs)"
  let ?ps = "\<lparr>pmethod = ''sphere'', v_min = None, v_max = None,
           center = Some ?c, scale = Some ?s\<rparr>"
  let ?rs = "map (\<lambda>v. vzip (\<lambda>x y. rnd (x + y)) (vmap (\<lambda>x. rnd (x * ?s)) v) ?c) ?ns"
  have m1: "norm_minmax_fp rnd (of_rows vs) = Inr (of_rows ?nm, ?pm)"
    by (rule norm_minmax_fp_rows [OF assms(1)])
  have m2: "denorm_minmax_fp rnd (of_rows ?nm) ?pm = Inr (of_rows ?rm)"
    by (rule denorm_minmax_fp_rows)
  have m3: "denormalize_fp rnd (of_rows ?nm) ?pm = Inr (of_rows ?rm)"
    unfolding denormalize_fp_def using m2 by simp
  have m4: "length ?rm = length vs" by simp
  have m5: "\<bar>sel a (?rm ! i) - sel a (vs ! i)\<bar>
              \<le> (4 * \<bar>sel a (vs ! i) - sel a ?lo\<bar> + \<bar>sel a (vs ! i)\<bar>) / 2 ^ 53"
    if "i < length vs" for i a
    using minmax_component_roundtrip_fp [OF assms(2) col_bounds [OF that, of a]] that
    by (simp add: sel_range_per_axis_fp del: sel_col_min sel_col_max)
  have s1: "norm_sphere_fp rnd (of_rows vs) = Inr (of_rows ?ns, ?ps)"
    by (rule norm_sphere_fp_rows [OF assms(1)])
  have s2: "denorm_sphere_fp rnd (of_rows ?ns) ?ps = Inr (of_rows ?rs)"
    by (rule denorm_sphere_fp_rows)
  have s3: "denormalize_fp rnd (of_rows ?ns) ?ps = Inr (of_rows ?rs)"
    unfolding denormalize_fp_def using s2 by simp
  have s4: "length ?rs = length vs" by simp
  have s5: "\<bar>sel a (?rs ! i) - sel a (vs ! i)\<bar>
              \<le> (4 * \<bar>sel a (vs ! i) - sel a ?c\<bar> + \<bar>sel a (vs ! i)\<bar>) / 2 ^ 53"
    if "i < length vs" for i a
    using rel_rounding_roundtrip [OF assms(2) sphere_scale_fp_nonzero [of rnd vs],
        of "sel a (vs ! i)" "sel a ?c"]
      that
    by (simp add: shifted_rows_fp_def)
  have m6: "\<forall>i<length vs. \<forall>a.
                  \<bar>sel a (?rm ! i) - sel a (vs ! i)\<bar>
                    \<le> (4 * \<bar>sel a (vs ! i) - sel a ?lo\<bar> + \<bar>sel a (vs ! i)\<bar>) / 2 ^ 53
                \<and> (\<bar>sel a (vs ! i)\<bar> \<le> 1000000 \<and> \<bar>sel a (vs ! i) - sel a ?lo\<bar> \<le> 2000000
                   \<longrightarrow> \<bar>sel a (?rm ! i) - sel a (vs ! i)\<bar> < 1 / 10 ^ 9)"
    using m5 tolerance_of_bound by blast
  have s6: "\<forall>i<length vs. \<forall>a.
                  \<bar>sel a (?rs ! i) - sel a (vs ! i)\<bar>
                    \<le> (4 * \<bar>sel a (vs ! i) - sel a ?c\<bar> + \<bar>sel a (vs ! i)\<bar>) / 2 ^ 53
                \<and> (\<bar>sel a (vs ! i)\<bar> \<le> 1000000 \<and> \<bar>sel a (vs ! i) - sel a ?c\<bar> \<le> 2000000
                   \<longrightarrow> \<bar>sel a (?rs ! i) - sel a (vs ! i)\<bar> < 1 / 10 ^ 9)"
    using s5 tolerance_of_bound by blast
  from m1 m2 m3 m4 m6 have M: "\<exists>ns p rs. norm_minmax_fp rnd (of_rows vs) = Inr (ns, p)
            \<and> denorm_minmax_fp rnd ns p = Inr (of_rows rs)
            \<and> denormalize_fp rnd ns p = Inr (of_rows rs)
            \<and> length rs = length vs
            \<and> (\<forall>i<length vs. \<forall>a.
                  \<bar>sel a (rs ! i) - sel a (vs ! i)\<bar>
                    \<le> (4 * \<bar>sel a (vs ! i) - sel a (col_min vs)\<bar> + \<bar>sel a (vs ! i)\<bar>) / 2 ^ 53
                \<and> (\<bar>sel a (vs ! i)\<bar> \<le> 1000000
                     \<and> \<bar>sel a (vs ! i) - sel a (col_min vs)\<bar> \<le> 2000000
                   \<longrightarrow> \<bar>sel a (rs ! i) - sel a (vs ! i)\<bar> < 1 / 10 ^ 9))"
    by blast
  from s1 s2 s3 s4 s6 have S: "\<exists>ns p rs. norm_sphere_fp rnd (of_rows vs) = Inr (ns, p)
            \<and> denorm_sphere_fp rnd ns p = Inr (of_rows rs)
            \<and> denormalize_fp rnd ns p = Inr (of_rows rs)
            \<and> length rs = length vs
            \<and> (\<forall>i<length vs. \<forall>a.
                  \<bar>sel a (rs ! i) - sel a (vs ! i)\<bar>
                    \<le> (4 * \<bar>sel a (vs ! i) - sel a (mean_axis0_fp rnd vs)\<bar> + \<bar>sel a (vs ! i)\<bar>) / 2 ^ 53
                \<and> (\<bar>sel a (vs ! i)\<bar> \<le> 1000000
                     \<and> \<bar>sel a (vs ! i) - sel a (mean_axis0_fp rnd vs)\<bar> \<le> 2000000
                   \<longrightarrow> \<bar>sel a (rs ! i) - sel a (vs ! i)\<bar> < 1 / 10 ^ 9))"
    by blast
  from M S normalize_roundtrip_exact [OF assms(1)] show ?thesis by blast
qed

theorem normalize_roundtrip_error_witness:
  "\<exists>ns p rs. norm_minmax_fp round_f64 (of_rows [(0, 0, 0), (1, 2, 4)]) = Inr (ns, p)
         \<and> denorm_minmax_fp round_f64 ns p = Inr (of_rows rs)
         \<and> \<bar>sel X (rs ! 1) - 1\<bar> < 1 / 10 ^ 9"
proof -
  let ?V = "[(0, 0, 0), (1, 2, 4)] :: vec3 list"
  have h: "?V \<noteq> []" by simp
  from normalize_roundtrip_error [OF h rel_rounding_f64] obtain ns p rs where
    n: "norm_minmax_fp round_f64 (of_rows ?V) = Inr (ns, p)"
    and d: "denorm_minmax_fp round_f64 ns p = Inr (of_rows rs)"
    and r: "\<forall>i<length ?V. \<forall>a.
                  \<bar>sel a (rs ! i) - sel a (?V ! i)\<bar>
                    \<le> (4 * \<bar>sel a (?V ! i) - sel a (col_min ?V)\<bar> + \<bar>sel a (?V ! i)\<bar>) / 2 ^ 53
                \<and> (\<bar>sel a (?V ! i)\<bar> \<le> 1000000
                     \<and> \<bar>sel a (?V ! i) - sel a (col_min ?V)\<bar> \<le> 2000000
                   \<longrightarrow> \<bar>sel a (rs ! i) - sel a (?V ! i)\<bar> < 1 / 10 ^ 9)"
    by blast
  have "(1 :: nat) < length ?V" by simp
  with r have "\<bar>sel X (?V ! 1)\<bar> \<le> 1000000
                     \<and> \<bar>sel X (?V ! 1) - sel X (col_min ?V)\<bar> \<le> 2000000
                   \<longrightarrow> \<bar>sel X (rs ! 1) - sel X (?V ! 1)\<bar> < 1 / 10 ^ 9"
    by blast
  moreover have "sel X (?V ! 1) = 1" "sel X (col_min ?V) = 0"
    by (simp_all add: column_def)
  ultimately have "\<bar>sel X (rs ! 1) - 1\<bar> < 1 / 10 ^ 9" by simp
  with n d show ?thesis by blast
qed

text \<open>
  The vertices \<open>(0, 0, 0)\<close>, \<open>(1.5e10, 1.5e10, 1.5e10)\<close> and \<open>(2.2e10, 2.2e10, 2.2e10)\<close>
  in binary64: MinMax normalizes \<open>1.5e10\<close> to the double nearest to \<open>15 / 22\<close>, and the
  product of that with the range \<open>2.2e10\<close> is rounded to \<open>1.5e10 - 2\<^sup>-\<^sup>1\<^sup>9\<close>, which is what
  \<open>denorm_minmax\<close> returns: an error of \<open>1.9e-6\<close>.
\<close>

theorem roundtrip_tolerance_counterexample:
  "norm_minmax_fp round_f64
     (of_rows [(0, 0, 0), (15000000000, 15000000000, 15000000000),
               (22000000000, 22000000000, 22000000000)])
   = Inr (of_rows [(0, 0, 0),
                   (6141272219141585 / 9007199254740992, 6141272219141585 / 9007199254740992,
                    6141272219141585 / 9007199254740992),
                   (1, 1, 1)],
          \<lparr>pmethod = ''minmax'', v_min = Some (0, 0, 0),
           v_max = Some (22000000000, 22000000000, 22000000000), center = None, scale = None\<rparr>)
 \<and> denorm_minmax_fp round_f64
     (of_rows [(0, 0, 0),
               (6141272219141585 / 9007199254740992, 6141272219141585 / 9007199254740992,
                6141272219141585 / 9007199254740992),
               (1, 1, 1)])
     \<lparr>pmethod = ''minmax'', v_min = Some (0, 0, 0),
      v_max = Some (22000000000, 22000000000, 22000000000), center = None, scale = None\<rparr>
   = Inr (of_rows [(0, 0, 0),
                   (7864319999999999 / 524288, 7864319999999999 / 524288, 7864319999999999 / 524288),
                   (22000000000, 22000000000, 22000000000)])
 \<and> \<not> \<bar>7864319999999999 / 524288 - (15000000000 :: real)\<bar> < 1 / 10 ^ 9"
proof (intro conjI)
  let ?V = "[(0, 0, 0), (15000000000, 15000000000, 15000000000),
               (22000000000, 22000000000, 22000000000)] :: vec3 list"
  have h: "?V \<noteq> []" by simp
  have lo: "col_min ?V = (0, 0, 0)" and hi: "col_max ?V = (22000000000, 22000000000, 22000000000)"
    by (simp_all add: col_min_def col_max_def column_def)
  show "norm_minmax_fp round_f64 (of_rows ?V)
   = Inr (of_rows [(0, 0, 0),
                   (6141272219141585 / 9007199254740992, 6141272219141585 / 9007199254740992,
                    6141272219141585 / 9007199254740992),
                   (1, 1, 1)],
          \<lparr>pmethod = ''minmax'', v_min = Some (0, 0, 0),
           v_max = Some (22000000000, 22000000000, 22000000000), center = None, scale = None\<rparr>)"
    unfolding norm_minmax_fp_rows [OF h] lo hi
    by (simp add: range_per_axis_fp_def round_f64_22e9 round_f64_15e9 round_f64_1 round_f64_15_22)
  show "denorm_minmax_fp round_f64
     (of_rows [(0, 0, 0),
               (6141272219141585 / 9007199254740992, 6141272219141585 / 9007199254740992,
                6141272219141585 / 9007199254740992),
               (1, 1, 1)])
     \<lparr>pmethod = ''minmax'', v_min = Some (0, 0, 0),
      v_max = Some (22000000000, 22000000000, 22000000000), center = None, scale = None\<rparr>
   = Inr (of_rows [(0, 0, 0),
                   (7864319999999999 / 524288, 7864319999999999 / 524288, 7864319999999999 / 524288),
                   (22000000000, 22000000000, 22000000000)])"
    unfolding denorm_minmax_fp_rows
    by (simp add: round_f64_22e9 round_f64_product round_f64_result)
  show "\<not> \<bar>7864319999999999 / 524288 - (15000000000 :: real)\<bar> < 1 / 10 ^ 9" by simp
qed

section \<open>Range of the quantized lattice\<close>

text \<open>
  C3. For an array of shape \<open>(N, 3)\<close>, \<open>bins \<ge> 2\<close> and either method, \<open>quantize\<close>
  returns an array of the same shape. Each component is the floor of the rounded product
  \<open>x01 * (bins - 1)\<close> (\<open>x01\<close> the component itself for \<open>minmax\<close>, \<open>(x + 1) / 2\<close> for
  \<open>sphere\<close>), converted to \<open>int32\<close> and then clipped to \<open>[0, bins - 1]\<close>; so it lies in
  \<open>[0, bins - 1]\<close> whatever the conversion yields out of range. It is the clipped floor
  whenever the floor fits \<open>int32\<close>, as it does for \<open>\<bar>x01\<bar> \<le> 1\<close> and \<open>bins \<le> 2\<^sup>3\<^sup>1\<close>; it
  need not be for a larger floor, since the conversion comes before the clip (the
  example after the theorem). The branch of \<open>process_mesh_file\<close> that exits on a
  quantized value out of range is never taken, for any input array.
\<close>

theorem quantize_lattice:
  assumes "2 \<le> bins" "meth = ''minmax'' \<or> meth = ''sphere''"
  shows "(\<exists>qs. quantize_fp rnd ovf (of_rows vs) bins meth = Inr (of_rows qs)
          \<and> length qs = length vs
          \<and> (\<forall>i<length vs. \<forall>a.
                0 \<le> sel a (qs ! i) \<and> sel a (qs ! i) \<le> bins - 1
              \<and> sel a (qs ! i)
                  = clip (astype_int32 ovf
                            (np_floor (rnd (to01_fp rnd meth (sel a (vs ! i)) * rnd (of_int (bins - 1))))))
                         0 (bins - 1)
              \<and> (int32_range \<lfloor>rnd (to01_fp rnd meth (sel a (vs ! i)) * rnd (of_int (bins - 1)))\<rfloor>
                  \<or> rel_rounding rnd \<and> exact_on_int53 rnd \<and> bins \<le> 2147483648
                     \<and> \<bar>to01_fp rnd meth (sel a (vs ! i))\<bar> \<le> 1
                  \<longrightarrow>
                   sel a (qs ! i)
                     = clip \<lfloor>rnd (to01_fp rnd meth (sel a (vs ! i)) * rnd (of_int (bins - 1)))\<rfloor>
                            0 (bins - 1))))
       \<and> process_mesh_file_fp rnd ovf vertices \<noteq> Inl (SystemExit 1)"
proof (intro conjI exI)
  let ?qs = "map (vmap (\<lambda>x. quantize_component_fp rnd ovf bins (to01_fp rnd meth x))) vs"
  from assms(1) have b: "1 \<le> bins" by simp
  show "quantize_fp rnd ovf (of_rows vs) bins meth = Inr (of_rows ?qs)"
    by (rule quantize_fp_rows [OF assms(2)])
  show "length ?qs = length vs" by simp
  show "\<forall>i<length vs. \<forall>a.
                0 \<le> sel a (?qs ! i) \<and> sel a (?qs ! i) \<le> bins - 1
              \<and> sel a (?qs ! i)
                  = clip (astype_int32 ovf
                            (np_floor (rnd (to01_fp rnd meth (sel a (vs ! i)) * rnd (of_int (bins - 1))))))
                         0 (bins - 1)
              \<and> (int32_range \<lfloor>rnd (to01_fp rnd meth (sel a (vs ! i)) * rnd (of_int (bins - 1)))\<rfloor>
                  \<or> rel_rounding rnd \<and> exact_on_int53 rnd \<and> bins \<le> 2147483648
                     \<and> \<bar>to01_fp rnd meth (sel a (vs ! i))\<bar> \<le> 1
                  \<longrightarrow>
                   sel a (?qs ! i)
                     = clip \<lfloor>rnd (to01_fp rnd meth (sel a (vs ! i)) * rnd (of_int (bins - 1)))\<rfloor>
                            0 (bins - 1))"
  proof (intro allI impI conjI)
    fix i a assume i: "i < length vs"
    then have s: "sel a (?qs ! i) = quantize_component_fp rnd ovf bins (to01_fp rnd meth (sel a (vs ! i)))"
      by simp
    from quantize_component_fp_range [OF b] show "0 \<le> sel a (?qs ! i)" "sel a (?qs ! i) \<le> bins - 1"
      unfolding s by simp_all
    show "sel a (?qs ! i)
        = clip (astype_int32 ovf
                  (np_floor (rnd (to01_fp rnd meth (sel a (vs ! i)) * rnd (of_int (bins - 1))))))
               0 (bins - 1)"
      unfolding s by (rule quantize_component_fp_alt)
    assume "int32_range \<lfloor>rnd (to01_fp rnd meth (sel a (vs ! i)) * rnd (of_int (bins - 1)))\<rfloor>
                  \<or> rel_rounding rnd \<and> exact_on_int53 rnd \<and> bins \<le> 2147483648
                     \<and> \<bar>to01_fp rnd meth (sel a (vs ! i))\<bar> \<le> 1"
    then have "int32_range \<lfloor>rnd (to01_fp rnd meth (sel a (vs ! i)) * rnd (of_int (bins - 1)))\<rfloor>"
      using product_fits_int32 [OF _ _ assms(1)] by blast
    from astype_int32_fits [OF this, of ovf]
    have "quantize_component_fp rnd ovf bins (to01_fp rnd meth (sel a (vs ! i)))
        = clip \<lfloor>rnd (to01_fp rnd meth (sel a (vs ! i)) * rnd (of_int (bins - 1)))\<rfloor> 0 (bins - 1)"
      by (simp only: quantize_component_fp_alt)
    then show "sel a (?qs ! i)
        = clip \<lfloor>rnd (to01_fp rnd meth (sel a (vs ! i)) * rnd (of_int (bins - 1)))\<rfloor> 0 (bins - 1)"
      unfolding s .
  qed
  show "process_mesh_file_fp rnd ovf vertices \<noteq> Inl (SystemExit 1)"
    by (rule process_mesh_file_fp_no_exit)
qed

theorem quantize_lattice_witness:
  "\<exists>qs. quantize_fp round_f64 x86_indefinite (of_rows [(0, 1 / 2, 3)]) 1024 ''minmax''
            = Inr (of_rows qs)
        \<and> sel X (qs ! 0) = 0 \<and> sel Y (qs ! 0) = 511 \<and> sel Z (qs ! 0) = 1023"
proof -
  let ?V = "[(0, 1 / 2, 3)] :: vec3 list"
  have h: "(2 :: int) \<le> 1024" "''minmax'' = ''minmax'' \<or> ''minmax'' = ''sphere''" by simp_all
  from quantize_lattice [OF h, of round_f64 x86_indefinite ?V] obtain qs where
    q: "quantize_fp round_f64 x86_indefinite (of_rows ?V) 1024 ''minmax'' = Inr (of_rows qs)"
    and e: "\<forall>i<length ?V. \<forall>a.
                0 \<le> sel a (qs ! i) \<and> sel a (qs ! i) \<le> 1024 - 1
              \<and> sel a (qs ! i)
                  = clip (astype_int32 x86_indefinite
                            (np_floor (round_f64 (to01_fp round_f64 ''minmax'' (sel a (?V ! i))
                                                    * round_f64 (of_int (1024 - 1))))))
                         0 (1024 - 1)"
    by blast
  have "(0 :: nat) < length ?V" by simp
  with e have "\<forall>a. sel a (qs ! 0)
       = clip (astype_int32 x86_indefinite
                 (np_floor (round_f64 (to01_fp round_f64 ''minmax'' (sel a (?V ! 0))
                                         * round_f64 (of_int (1024 - 1))))))
              0 (1024 - 1)"
    by blast
  moreover have "round_f64 (1023 / 2) = 1023 / 2"
    by (subst round_f64_eval [of 8]) (simp_all add: power_int_minus round_even_def)
  moreover have "round_f64 3069 = 3069" using round_f64_of_int [of 3069] by simp
  ultimately have "sel X (qs ! 0) = 0 \<and> sel Y (qs ! 0) = 511 \<and> sel Z (qs ! 0) = 1023"
    by (simp add: all_axis to01_fp_def round_f64_1023 astype_int32_def np_floor_def
        int32_range_def clip_def)
  with q show ?thesis by blast
qed

text \<open>
  For the component \<open>2\<^sup>3\<^sup>2\<close> and 1024 bins the floor is \<open>1023 * 2\<^sup>3\<^sup>2\<close>, which \<open>int32\<close>
  cannot hold: the conversion yields \<open>-2\<^sup>3\<^sup>1\<close> on x86-64 and the clip 0, where the clipped
  floor is 1023.
\<close>

theorem floor_then_clamp_counterexample:
  "quantize_fp round_f64 x86_indefinite (of_rows [(4294967296, 0, 0)]) 1024 ''minmax''
     = Inr (of_rows [(0, 0, 0)])
 \<and> clip \<lfloor>round_f64 (4294967296 * round_f64 (of_int (1024 - 1)))\<rfloor> 0 (1024 - 1) = 1023"
proof -
  have p: "round_f64 4393751543808 = 4393751543808"
    using round_f64_of_int [of 4393751543808] by simp
  show ?thesis
    by (simp add: quantize_fp_rows to01_fp_def quantize_component_fp_def round_f64_1023 p
        astype_int32_def np_floor_def int32_range_def x86_indefinite_def clip_def)
qed

text \<open>
  The floor is taken of the rounded product: for the double nearest to \<open>1 / 3\<close> and 1024
  bins the exact product is below 341 and its floor 340, the product in binary64 is 341.
\<close>

lemma rounded_product_floor:
  "quantize_fp round_f64 x86_indefinite (of_rows [(round_f64 (1 / 3), 0, 0)]) 1024 ''minmax''
     = Inr (of_rows [(341, 0, 0)])
 \<and> \<lfloor>round_f64 (1 / 3) * 1023\<rfloor> = 340"
  by (simp add: round_f64_third quantize_fp_rows to01_fp_def quantize_component_fp_def
      round_f64_1023 round_f64_third_scaled astype_int32_def np_floor_def int32_range_def clip_def)

section \<open>Quantizing a dequantized lattice\<close>

text \<open>
  In exact arithmetic, for \<open>bins \<ge> 2\<close>, either method, and a lattice of shape \<open>(N, 3)\<close>
  whose components lie in \<open>[0, bins - 1]\<close> and fit \<open>int32\<close> (as every output of
  \<open>quantize\<close> does), quantizing the dequantized lattice gives the lattice back.
\<close>

lemma quantize_dequantize_exact:
  assumes "2 \<le> bins" "meth = ''minmax'' \<or> meth = ''sphere''"
    and "\<forall>v\<in>set qs. \<forall>a. 0 \<le> sel a v \<and> sel a v \<le> bins - 1 \<and> int32_range (sel a v)"
  shows "\<exists>d. dequantize (of_rows qs) bins meth = Inr d
           \<and> quantize ovf d bins meth = Inr (of_rows qs)"
proof -
  from assms(1) have b: "bins \<noteq> 1" by simp
  have row: "vmap (\<lambda>k. quantize_component ovf bins (real_of_int k / of_int (bins - 1))) v = v"
    if "v \<in> set qs" for v
  proof (rule vec3_eqI)
    fix a
    from assms(3) that have "0 \<le> sel a v" "sel a v \<le> bins - 1" "int32_range (sel a v)"
      by simp_all
    from quantize_component_exact [OF this assms(1)]
    show "sel a (vmap (\<lambda>k. quantize_component ovf bins (real_of_int k / of_int (bins - 1))) v) = sel a v"
      by simp
  qed
  then have rows: "map (vmap (\<lambda>k. quantize_component ovf bins (real_of_int k / of_int (bins - 1)))) qs = qs"
    by (simp add: map_idI)
  from assms(2) show ?thesis
  proof
    assume m: "meth = ''minmax''"
    show ?thesis
      unfolding m
      by (rule exI, rule conjI, rule dequantize_rows(1) [OF b])
         (simp only: quantize_rows [OF disjI1 [OF refl]] quantize_rows [OF disjI2 [OF refl]]
            map_map o_def vmap_vmap to01_dequantized rows)
  next
    assume m: "meth = ''sphere''"
    show ?thesis
      unfolding m
      by (rule exI, rule conjI, rule dequantize_rows(2) [OF b])
         (simp only: quantize_rows [OF disjI1 [OF refl]] quantize_rows [OF disjI2 [OF refl]]
            map_map o_def vmap_vmap to01_dequantized rows)
  qed
qed

text \<open>
  Without the bound of \<open>int32\<close> this fails: \<open>dequantize\<close> accepts the 64-bit lattice
  \<open>[[2\<^sup>3\<^sup>1, 0, 0]]\<close> with \<open>bins = 2\<^sup>3\<^sup>1 + 1\<close> and maps it to \<open>[[1, 0, 0]]\<close>, and \<open>quantize\<close>
  converts the floor \<open>2\<^sup>3\<^sup>1\<close> to \<open>int32\<close>, which cannot hold it.
\<close>

lemma quantize_dequantize_int64:
  "dequantize (of_rows [(2147483648, 0, 0)]) 2147483649 ''minmax'' = Inr (of_rows [(1, 0, 0)])
 \<and> quantize x86_indefinite (of_rows [(1, 0, 0)]) 2147483649 ''minmax'' = Inr (of_rows [(0, 0, 0)])
 \<and> (of_rows [(0, 0, 0)] :: int ndarray) \<noteq> of_rows [(2147483648, 0, 0)]"
proof (intro conjI)
  show "dequantize (of_rows [(2147483648, 0, 0)]) 2147483649 ''minmax'' = Inr (of_rows [(1, 0, 0)])"
    by (simp add: dequantize_rows)
  show "quantize x86_indefinite (of_rows [(1, 0, 0)]) 2147483649 ''minmax'' = Inr (of_rows [(0, 0, 0)])"
    by (simp add: quantize_rows to01_def quantize_component_def astype_int32_def
        np_floor_def int32_range_def x86_indefinite_def clip_def)
  show "(of_rows [(0, 0, 0)] :: int ndarray) \<noteq> of_rows [(2147483648, 0, 0)]"
    by (simp add: of_rows_def)
qed

text \<open>The same holds whatever \<open>int32\<close> value the conversion yields.\<close>

lemma int32_cast_never_restores:
  assumes "int32_range (ovf 2147483648)"
  shows "quantize ovf (of_rows [(1, 0, 0)]) 2147483649 ''minmax''
           \<noteq> Inr (of_rows [(2147483648, 0, 0)])"
proof -
  have c: "quantize_component ovf 2147483649 1 = clip (ovf 2147483648) 0 2147483648"
    by (simp add: quantize_component_def astype_int32_def np_floor_def int32_range_def)
  from assms have n: "clip (ovf 2147483648) 0 2147483648 \<noteq> 2147483648"
    by (auto simp: clip_def int32_range_def max_def)
  have q: "quantize ovf (of_rows [(1, 0, 0)]) 2147483649 ''minmax''
      = Inr (of_rows [(quantize_component ovf 2147483649 1, quantize_component ovf 2147483649 0,
                       quantize_component ovf 2147483649 0)])"
    by (simp add: quantize_rows to01_def)
  show ?thesis unfolding q c using n by (simp add: of_rows_def)
qed

text \<open>
  C10. For \<open>2 \<le> bins \<le> 2\<^sup>3\<^sup>1\<close>, either method, and a lattice of shape \<open>(N, 3)\<close> whose
  components lie in \<open>[0, bins - 1]\<close>: in binary64 (for every rounding with a relative
  error of at most \<open>2\<^sup>-\<^sup>5\<^sup>3\<close> that does not round the integers up to \<open>2\<^sup>5\<^sup>3\<close>) every
  component of the quantized dequantized lattice is the component of the lattice or one
  less, and one less does occur (the example after the theorem); in exact arithmetic it
  is the component of the lattice.
\<close>

theorem quantize_dequantize_near:
  assumes "2 \<le> bins" "bins \<le> 2147483648" "meth = ''minmax'' \<or> meth = ''sphere''"
    and "\<forall>v\<in>set qs. \<forall>a. 0 \<le> sel a v \<and> sel a v \<le> bins - 1"
    and "rel_rounding rnd" "exact_on_int53 rnd"
  shows "(\<exists>d rs. dequantize_fp rnd (of_rows qs) bins meth = Inr d
            \<and> quantize_fp rnd ovf d bins meth = Inr (of_rows rs)
            \<and> length rs = length qs
            \<and> (\<forall>i<length qs. \<forall>a. 0 \<le> sel a (rs ! i)
                  \<and> (sel a (rs ! i) = sel a (qs ! i) \<or> sel a (rs ! i) = sel a (qs ! i) - 1)))
       \<and> (\<exists>d. dequantize (of_rows qs) bins meth = Inr d
            \<and> quantize ovf d bins meth = Inr (of_rows qs))"
proof
  define m where "m = bins - 1"
  from assms(1,2) have m: "1 \<le> m" "m \<le> 2147483647" by (simp_all add: m_def)
  then have "\<bar>m\<bar> \<le> 9007199254740992" by simp
  from exact_on_int53D [OF assms(6) this] m have "rnd (of_int m) \<noteq> 0" by simp
  then have nz: "rnd (of_int (bins - 1)) \<noteq> 0" unfolding m_def .
  let ?rs = "map (vmap (requantize_component rnd ovf bins meth)) qs"
  from nz assms(3) have "\<exists>d. dequantize_fp rnd (of_rows qs) bins meth = Inr d
           \<and> quantize_fp rnd ovf d bins meth = Inr (of_rows ?rs)"
    by (rule requantize_rows)
  then obtain d where
    d: "dequantize_fp rnd (of_rows qs) bins meth = Inr d"
    and q: "quantize_fp rnd ovf d bins meth = Inr (of_rows ?rs)"
    by blast
  have near: "0 \<le> sel a (?rs ! i)
      \<and> (sel a (?rs ! i) = sel a (qs ! i) \<or> sel a (?rs ! i) = sel a (qs ! i) - 1)"
    if "i < length qs" for i a
  proof -
    from that assms(4) have "0 \<le> sel a (qs ! i)" "sel a (qs ! i) \<le> bins - 1" by simp_all
    from requantize_component_near [OF assms(5,6,1,2,3) this, of ovf] that
    have "sel a (?rs ! i) = sel a (qs ! i) \<or> sel a (?rs ! i) = sel a (qs ! i) - 1" by simp
    moreover from assms(1) have "1 \<le> bins" by simp
    from quantize_component_fp_range [OF this] that have "0 \<le> sel a (?rs ! i)"
      by (simp add: requantize_component_def)
    ultimately show ?thesis by simp
  qed
  have "length ?rs = length qs" by simp
  with d q near
  show "\<exists>d rs. dequantize_fp rnd (of_rows qs) bins meth = Inr d
            \<and> quantize_fp rnd ovf d bins meth = Inr (of_rows rs)
            \<and> length rs = length qs
            \<and> (\<forall>i<length qs. \<forall>a. 0 \<le> sel a (rs ! i)
                  \<and> (sel a (rs ! i) = sel a (qs ! i) \<or> sel a (rs ! i) = sel a (qs ! i) - 1))"
    by blast
  have "\<forall>v\<in>set qs. \<forall>a. 0 \<le> sel a v \<and> sel a v \<le> bins - 1 \<and> int32_range (sel a v)"
  proof (intro ballI allI)
    fix v a assume "v \<in> set qs"
    with assms(4) have "0 \<le> sel a v" "sel a v \<le> bins - 1" by simp_all
    with assms(2) show "0 \<le> sel a v \<and> sel a v \<le> bins - 1 \<and> int32_range (sel a v)"
      by (simp add: int32_range_def)
  qed
  from quantize_dequantize_exact [OF assms(1,3) this]
  show "\<exists>d. dequantize (of_rows qs) bins meth = Inr d
            \<and> quantize ovf d bins meth = Inr (of_rows qs)" .
qed

theorem quantize_dequantize_near_witness:
  "\<exists>d rs. dequantize_fp round_f64 (of_rows [(0, 511, 1023)]) 1024 ''sphere'' = Inr d
      \<and> quantize_fp round_f64 x86_indefinite d 1024 ''sphere'' = Inr (of_rows rs)
      \<and> (sel Y (rs ! 0) = 511 \<or> sel Y (rs ! 0) = 510)"
proof -
  let ?Q = "[(0, 511, 1023)] :: (int \<times> int \<times> int) list"
  have h: "(2 :: int) \<le> 1024" "(1024 :: int) \<le> 2147483648"
    "''sphere'' = ''minmax'' \<or> ''sphere'' = ''sphere''"
    "\<forall>v\<in>set ?Q. \<forall>a. 0 \<le> sel a v \<and> sel a v \<le> 1024 - 1"
    by (simp_all add: all_axis)
  from quantize_dequantize_near [OF h rel_rounding_f64 exact_on_int53_f64, of x86_indefinite]
  obtain d rs where
    d: "dequantize_fp round_f64 (of_rows ?Q) 1024 ''sphere'' = Inr d"
    and q: "quantize_fp round_f64 x86_indefinite d 1024 ''sphere'' = Inr (of_rows rs)"
    and r: "\<forall>i<length ?Q. \<forall>a. 0 \<le> sel a (rs ! i)
              \<and> (sel a (rs ! i) = sel a (?Q ! i) \<or> sel a (rs ! i) = sel a (?Q ! i) - 1)"
    by blast
  have "(0 :: nat) < length ?Q" by simp
  with r have "sel Y (rs ! 0) = sel Y (?Q ! 0) \<or> sel Y (rs ! 0) = sel Y (?Q ! 0) - 1" by blast
  then have "sel Y (rs ! 0) = 511 \<or> sel Y (rs ! 0) = 510" by simp
  with d q show ?thesis by blast
qed

text \<open>
  The lattice \<open>[[1, 1, 1]]\<close> with 1024 bins and the method \<open>sphere\<close> in binary64:
  \<open>dequantize\<close> gives \<open>-0.9980449657869013\<close> for the bin 1, \<open>quantize\<close> maps that to
  \<open>(x + 1) / 2 = 1100586419201 / 2\<^sup>5\<^sup>0\<close>, and the product with 1023 is \<open>1 - 2\<^sup>-\<^sup>5\<^sup>0\<close>,
  whose floor is 0.
\<close>

theorem requantize_float64_counterexample:
  "dequantize_fp round_f64 (of_rows [(1, 1, 1)]) 1024 ''sphere''
     = Inr (of_rows [(- (561849367002111 / 562949953421312), - (561849367002111 / 562949953421312),
                      - (561849367002111 / 562949953421312))])
 \<and> quantize_fp round_f64 x86_indefinite
       (of_rows [(- (561849367002111 / 562949953421312), - (561849367002111 / 562949953421312),
                  - (561849367002111 / 562949953421312))]) 1024 ''sphere''
     = Inr (of_rows [(0, 0, 0)])
 \<and> (of_rows [(0, 0, 0)] :: int ndarray) \<noteq> of_rows [(1, 1, 1)]"
proof (intro conjI)
  have nz: "round_f64 (of_int (1024 - 1)) \<noteq> 0" by (simp add: round_f64_1023)
  show "dequantize_fp round_f64 (of_rows [(1, 1, 1)]) 1024 ''sphere''
     = Inr (of_rows [(- (561849367002111 / 562949953421312), - (561849367002111 / 562949953421312),
                      - (561849367002111 / 562949953421312))])"
    unfolding dequantize_fp_rows(2) [of round_f64 1024, OF nz]
    by (simp add: round_f64_1023 round_f64_1 round_f64_1023_inv round_f64_double
        round_f64_sphere_coordinate)
  show "quantize_fp round_f64 x86_indefinite
       (of_rows [(- (561849367002111 / 562949953421312), - (561849367002111 / 562949953421312),
                  - (561849367002111 / 562949953421312))]) 1024 ''sphere''
     = Inr (of_rows [(0, 0, 0)])"
    by (simp add: quantize_fp_rows to01_fp_def quantize_component_fp_def round_f64_1023
        round_f64_shifted round_f64_halved round_f64_scaled astype_int32_def np_floor_def
        int32_range_def clip_def)
  show "(of_rows [(0, 0, 0)] :: int ndarray) \<noteq> of_rows [(1, 1, 1)]"
    by (simp add: of_rows_def)
qed

section \<open>Round trip with quantization\<close>

text \<open>
  C1, for at most \<open>2\<^sup>3\<^sup>1\<close> bins. For a non-empty vertex set, \<open>2 \<le> bins \<le> 2\<^sup>3\<^sup>1\<close> and either method,
  normalizing, quantizing, dequantizing and denormalizing succeeds, and on every axis the
  reconstructed coordinate differs from the original by at most
  \<open>(v_max[a] - v_min[a]) / (bins - 1)\<close> for \<open>minmax\<close> and by at most
  \<open>2 * scale / (bins - 1)\<close> for \<open>sphere\<close>, where \<open>v_min\<close>, \<open>v_max\<close> and \<open>scale\<close> are the
  stored parameters (\<open>scale\<close> is 1 when all points coincide).
\<close>

theorem quantized_roundtrip_error:
  assumes "vs \<noteq> []" "2 \<le> bins" "bins \<le> 2147483648"
  shows "(\<exists>ns p qa d ws. norm_minmax (of_rows vs) = Inr (ns, p)
            \<and> quantize ovf ns bins ''minmax'' = Inr qa
            \<and> dequantize qa bins ''minmax'' = Inr d
            \<and> denorm_minmax d p = Inr (of_rows ws) \<and> length ws = length vs
            \<and> v_min p = Some (col_min vs) \<and> v_max p = Some (col_max vs)
            \<and> (\<forall>i<length vs. \<forall>a. \<bar>sel a (ws ! i) - sel a (vs ! i)\<bar>
                   \<le> (sel a (col_max vs) - sel a (col_min vs)) / of_int (bins - 1)))
       \<and> (\<exists>ns p qa d ws s. norm_sphere (of_rows vs) = Inr (ns, p)
            \<and> quantize ovf ns bins ''sphere'' = Inr qa
            \<and> dequantize qa bins ''sphere'' = Inr d
            \<and> denorm_sphere d p = Inr (of_rows ws) \<and> length ws = length vs
            \<and> scale p = Some s
            \<and> (\<forall>i<length vs. \<forall>a. \<bar>sel a (ws ! i) - sel a (vs ! i)\<bar> \<le> 2 * s / of_int (bins - 1)))"
  using minmax_quantized_error [OF assms] sphere_quantized_error [OF assms] by (rule conjI)

theorem quantized_roundtrip_error_witness:
  "\<exists>ns p qa d ws. norm_minmax (of_rows [(0, 0, 0), (1, 2, 4)]) = Inr (ns, p)
            \<and> quantize x86_indefinite ns 1024 ''minmax'' = Inr qa
            \<and> dequantize qa 1024 ''minmax'' = Inr d
            \<and> denorm_minmax d p = Inr (of_rows ws)
            \<and> \<bar>sel Y (ws ! 1) - 2\<bar> \<le> (2 - 0) / 1023"
proof -
  let ?V = "[(0, 0, 0), (1, 2, 4)] :: vec3 list"
  have h: "?V \<noteq> []" "(2 :: int) \<le> 1024" "(1024 :: int) \<le> 2147483648"
    by simp_all
  from quantized_roundtrip_error [OF h, of x86_indefinite] obtain ns p qa d ws where
    c: "norm_minmax (of_rows ?V) = Inr (ns, p)"
       "quantize x86_indefinite ns 1024 ''minmax'' = Inr qa"
       "dequantize qa 1024 ''minmax'' = Inr d"
       "denorm_minmax d p = Inr (of_rows ws)"
    and e: "\<forall>i<length ?V. \<forall>a. \<bar>sel a (ws ! i) - sel a (?V ! i)\<bar>
         \<le> (sel a (col_max ?V) - sel a (col_min ?V)) / real_of_int (1024 - 1)"
    by blast
  have "(1 :: nat) < length ?V" by simp
  with e have "\<bar>sel Y (ws ! 1) - sel Y (?V ! 1)\<bar>
         \<le> (sel Y (col_max ?V) - sel Y (col_min ?V)) / real_of_int (1024 - 1)"
    by blast
  then have "\<bar>sel Y (ws ! 1) - 2\<bar> \<le> (2 - 0) / 1023"
    by (simp add: column_def)
  with c show ?thesis by blast
qed

text \<open>
  Beyond \<open>bins = 2\<^sup>3\<^sup>1\<close> the bound fails: with \<open>bins = 2\<^sup>3\<^sup>3 + 1\<close> the vertex at the
  maximum has the floor \<open>2\<^sup>3\<^sup>3\<close>, which \<open>int32\<close> cannot hold; the conversion yields
  \<open>-2\<^sup>3\<^sup>1\<close>, the clip 0, and the vertex is reconstructed at the minimum.
\<close>

theorem quantized_roundtrip_int32_counterexample:
  "norm_minmax (of_rows [(0, 0, 0), (1, 1, 1)])
     = Inr (of_rows [(0, 0, 0), (1, 1, 1)],
            \<lparr>pmethod = ''minmax'', v_min = Some (0, 0, 0), v_max = Some (1, 1, 1),
             center = None, scale = None\<rparr>)
 \<and> quantize x86_indefinite (of_rows [(0, 0, 0), (1, 1, 1)]) 8589934593 ''minmax''
     = Inr (of_rows [(0, 0, 0), (0, 0, 0)])
 \<and> dequantize (of_rows [(0, 0, 0), (0, 0, 0)]) 8589934593 ''minmax''
     = Inr (of_rows [(0, 0, 0), (0, 0, 0)])
 \<and> denorm_minmax (of_rows [(0, 0, 0), (0, 0, 0)])
       \<lparr>pmethod = ''minmax'', v_min = Some (0, 0, 0), v_max = Some (1, 1, 1),
        center = None, scale = None\<rparr>
     = Inr (of_rows [(0, 0, 0), (0, 0, 0)])
 \<and> \<not> \<bar>sel X ([(0, 0, 0), (0, 0, 0)] ! 1) - sel X ([(0, 0, 0), (1, 1, 1)] ! 1)\<bar>
       \<le> (sel X (1, 1, 1) - sel X (0, 0, 0)) / real_of_int (8589934593 - 1)"
proof (intro conjI)
  have mn: "col_min [(0, 0, 0), (1, 1, 1)] = (0, 0, 0)" by (simp add: col_min_def column_def)
  have mx: "col_max [(0, 0, 0), (1, 1, 1)] = (1, 1, 1)" by (simp add: col_max_def column_def)
  show "norm_minmax (of_rows [(0, 0, 0), (1, 1, 1)])
     = Inr (of_rows [(0, 0, 0), (1, 1, 1)],
            \<lparr>pmethod = ''minmax'', v_min = Some (0, 0, 0), v_max = Some (1, 1, 1),
             center = None, scale = None\<rparr>)"
    by (simp add: norm_minmax_rows mn mx range_per_axis_def)
  show "quantize x86_indefinite (of_rows [(0, 0, 0), (1, 1, 1)]) 8589934593 ''minmax''
     = Inr (of_rows [(0, 0, 0), (0, 0, 0)])"
    by (simp add: quantize_rows to01_def quantize_component_def astype_int32_def
        np_floor_def int32_range_def x86_indefinite_def clip_def)
  show "dequantize (of_rows [(0, 0, 0), (0, 0, 0)]) 8589934593 ''minmax''
     = Inr (of_rows [(0, 0, 0), (0, 0, 0)])"
    by (simp add: dequantize_rows)
  show "denorm_minmax (of_rows [(0, 0, 0), (0, 0, 0)])
       \<lparr>pmethod = ''minmax'', v_min = Some (0, 0, 0), v_max = Some (1, 1, 1),
        center = None, scale = None\<rparr>
     = Inr (of_rows [(0, 0, 0), (0, 0, 0)])"
    by (simp add: denorm_minmax_rows)
  show "\<not> \<bar>sel X ([(0, 0, 0), (0, 0, 0)] ! 1) - sel X ([(0, 0, 0), (1, 1, 1)] ! 1)\<bar>
       \<le> (sel X (1, 1, 1) - sel X (0, 0, 0)) / real_of_int (8589934593 - 1)"
    by simp
qed

text \<open>Whatever \<open>int32\<close> value the conversion yields there, the bound fails.\<close>

lemma quantize_overflow_any_cast:
  assumes "int32_range (ovf 8589934592)"
  shows "\<exists>k. quantize ovf (of_rows [(0, 0, 0), (1, 1, 1)]) 8589934593 ''minmax''
               = Inr (of_rows [(0, 0, 0), (k, k, k)]) \<and> 0 \<le> k \<and> k \<le> 2147483647"
proof -
  have q: "quantize_component ovf 8589934593 1 = clip (ovf 8589934592) 0 8589934592"
    by (simp add: quantize_component_def astype_int32_def np_floor_def int32_range_def)
  have q0: "quantize_component ovf 8589934593 0 = 0"
    by (simp add: quantize_component_def astype_int32_def np_floor_def int32_range_def clip_def)
  from assms have "0 \<le> clip (ovf 8589934592) 0 8589934592"
    "clip (ovf 8589934592) 0 8589934592 \<le> 2147483647"
    by (simp_all add: clip_def int32_range_def)
  then show ?thesis by (intro exI [of _ "clip (ovf 8589934592) 0 8589934592"])
      (simp add: quantize_rows to01_def q q0)
qed

lemma overflow_breaks_bound_any_cast:
  assumes "int32_range (ovf 8589934592)"
  shows "\<exists>qa d ws. quantize ovf (of_rows [(0, 0, 0), (1, 1, 1)]) 8589934593 ''minmax'' = Inr qa
     \<and> dequantize qa 8589934593 ''minmax'' = Inr d
     \<and> denorm_minmax d \<lparr>pmethod = ''minmax'', v_min = Some (0, 0, 0), v_max = Some (1, 1, 1),
                           center = None, scale = None\<rparr> = Inr (of_rows ws)
     \<and> \<not> \<bar>sel X (ws ! 1) - 1\<bar> \<le> 1 / real_of_int (8589934593 - 1)"
proof -
  from assms quantize_overflow_any_cast [of ovf] obtain k where
    q: "quantize ovf (of_rows [(0, 0, 0), (1, 1, 1)]) 8589934593 ''minmax''
               = Inr (of_rows [(0, 0, 0), (k, k, k)])" and k: "0 \<le> k" "k \<le> 2147483647"
    by blast
  have d: "dequantize (of_rows [(0, 0, 0), (k, k, k)]) 8589934593 ''minmax''
     = Inr (of_rows [(0, 0, 0), (real_of_int k / 8589934592, real_of_int k / 8589934592, real_of_int k / 8589934592)])"
    by (simp add: dequantize_rows)
  have w: "denorm_minmax (of_rows [(0, 0, 0), (real_of_int k / 8589934592, real_of_int k / 8589934592, real_of_int k / 8589934592)])
      \<lparr>pmethod = ''minmax'', v_min = Some (0, 0, 0), v_max = Some (1, 1, 1),
                           center = None, scale = None\<rparr>
     = Inr (of_rows [(0, 0, 0), (real_of_int k / 8589934592, real_of_int k / 8589934592, real_of_int k / 8589934592)])"
    by (simp add: denorm_minmax_rows)
  from k have "real_of_int k \<le> 2147483647" by linarith
  then have "\<not> \<bar>sel X ([(0, 0, 0), (real_of_int k / 8589934592, real_of_int k / 8589934592, real_of_int k / 8589934592)] ! 1) - 1\<bar>
       \<le> 1 / real_of_int (8589934593 - 1)"
    by simp
  with q d w show ?thesis by blast
qed

text \<open>
  The scale of the bound is the stored one. For a single vertex the largest distance
  from the centre is 0, the stored scale is 1, and with 1024 bins the vertex is
  reconstructed \<open>1/1023\<close> away on every axis: within \<open>2 * 1 / 1023\<close>, not within
  \<open>2 * 0 / 1023\<close>.
\<close>

lemma sphere_coinciding_points_error:
  "norm_sphere (of_rows [(0, 0, 0)])
     = Inr (of_rows [(0, 0, 0)],
            \<lparr>pmethod = ''sphere'', v_min = None, v_max = None,
             center = Some (0, 0, 0), scale = Some 1\<rparr>)
 \<and> max_distance [(0, 0, 0)] = 0
 \<and> quantize ovf (of_rows [(0, 0, 0)]) 1024 ''sphere'' = Inr (of_rows [(511, 511, 511)])
 \<and> dequantize (of_rows [(511, 511, 511)]) 1024 ''sphere''
     = Inr (of_rows [(- 1 / 1023, - 1 / 1023, - 1 / 1023)])
 \<and> denorm_sphere (of_rows [(- 1 / 1023, - 1 / 1023, - 1 / 1023)])
       \<lparr>pmethod = ''sphere'', v_min = None, v_max = None,
        center = Some (0, 0, 0), scale = Some 1\<rparr>
     = Inr (of_rows [(- 1 / 1023, - 1 / 1023, - 1 / 1023)])"
proof (intro conjI)
  have c: "mean_axis0 [(0, 0, 0)] = (0, 0, 0)"
    by (simp add: mean_axis0_def mean_def column_def)
  have s: "shifted_rows [(0, 0, 0)] = [(0, 0, 0)]"
    by (simp add: shifted_rows_def c)
  show m: "max_distance [(0, 0, 0)] = 0"
    by (simp add: max_distance_def s)
  then have sc: "sphere_scale [(0, 0, 0)] = 1" by (simp add: sphere_scale_def)
  show "norm_sphere (of_rows [(0, 0, 0)])
     = Inr (of_rows [(0, 0, 0)],
            \<lparr>pmethod = ''sphere'', v_min = None, v_max = None,
             center = Some (0, 0, 0), scale = Some 1\<rparr>)"
    by (simp add: norm_sphere_rows c s sc)
  show "quantize ovf (of_rows [(0, 0, 0)]) 1024 ''sphere'' = Inr (of_rows [(511, 511, 511)])"
    by (simp add: quantize_rows to01_def quantize_component_def astype_int32_def np_floor_def
        int32_range_def clip_def)
  show "dequantize (of_rows [(511, 511, 511)]) 1024 ''sphere''
     = Inr (of_rows [(- 1 / 1023, - 1 / 1023, - 1 / 1023)])"
    by (simp add: dequantize_rows)
  show "denorm_sphere (of_rows [(- 1 / 1023, - 1 / 1023, - 1 / 1023)])
       \<lparr>pmethod = ''sphere'', v_min = None, v_max = None,
        center = Some (0, 0, 0), scale = Some 1\<rparr>
     = Inr (of_rows [(- 1 / 1023, - 1 / 1023, - 1 / 1023)])"
    by (simp add: denorm_sphere_rows)
qed

section \<open>The reference scenario\<close>

text \<open>
  C7. On \<open>V = [(0,0,0), (1,1,1), (2,0.5,1.5), (-1,2,0.5)]\<close> with \<open>minmax\<close> and 1024 bins:
  the minimum is \<open>(-1,0,0)\<close>, the maximum \<open>(2,2,1.5)\<close>, the first normalized point
  \<open>(1/3,0,0)\<close>; it is quantized to \<open>(341,0,0)\<close>, dequantized to \<open>(341/1023,0,0)\<close> and
  reconstructed as \<open>(0,0,0)\<close>. The other three points are given as well.
\<close>

theorem concrete_scenario:
  "norm_minmax (of_rows [(0, 0, 0), (1, 1, 1), (2, 1 / 2, 3 / 2), (- 1, 2, 1 / 2)])
     = Inr (of_rows [(1 / 3, 0, 0), (2 / 3, 1 / 2, 2 / 3), (1, 1 / 4, 1), (0, 1, 1 / 3)],
            \<lparr>pmethod = ''minmax'', v_min = Some (- 1, 0, 0), v_max = Some (2, 2, 3 / 2),
             center = None, scale = None\<rparr>)
 \<and> quantize ovf (of_rows [(1 / 3, 0, 0), (2 / 3, 1 / 2, 2 / 3), (1, 1 / 4, 1), (0, 1, 1 / 3)])
       1024 ''minmax''
     = Inr (of_rows [(341, 0, 0), (682, 511, 682), (1023, 255, 1023), (0, 1023, 341)])
 \<and> dequantize (of_rows [(341, 0, 0), (682, 511, 682), (1023, 255, 1023), (0, 1023, 341)])
       1024 ''minmax''
     = Inr (of_rows [(341 / 1023, 0, 0), (682 / 1023, 511 / 1023, 682 / 1023),
                     (1, 255 / 1023, 1), (0, 1, 341 / 1023)])
 \<and> denorm_minmax (of_rows [(341 / 1023, 0, 0), (682 / 1023, 511 / 1023, 682 / 1023),
                            (1, 255 / 1023, 1), (0, 1, 341 / 1023)])
       \<lparr>pmethod = ''minmax'', v_min = Some (- 1, 0, 0), v_max = Some (2, 2, 3 / 2),
        center = None, scale = None\<rparr>
     = Inr (of_rows [(0, 0, 0), (1, 1022 / 1023, 1), (2, 170 / 341, 3 / 2), (- 1, 2, 1 / 2)])"
  using norm_concrete quantize_concrete [of ovf] dequantize_concrete denorm_concrete
  by (intro conjI)

section \<open>Error metrics\<close>

text \<open>
  C8. For two arrays of the same shape \<open>(N, 3)\<close>, \<open>N > 0\<close>, \<open>compute_errors\<close> returns a
  report whose total MSE and MAE are the means of the squared and of the absolute
  differences over all \<open>3 N\<close> entries, whose per-vertex error is the Euclidean norm of
  each row of differences, and whose maximum, minimum and standard deviation are the
  maximum, the minimum and the population standard deviation of the per-vertex errors.
  Comparing a vertex set with itself gives zero for the total and per-axis MSE and MAE
  and for the maximum, minimum and standard deviation.
\<close>

theorem compute_errors_metrics:
  assumes "length os = length rs" "os \<noteq> []"
  shows "(\<exists>m. compute_errors (of_rows os) (of_rows rs) = Inr m
          \<and> mse_total m = spec_mse_total os rs
          \<and> mae_total m = spec_mae_total os rs
          \<and> per_vertex_error m = spec_per_vertex_error os rs
          \<and> max_error m = Max (set (spec_per_vertex_error os rs))
          \<and> min_error m = Min (set (spec_per_vertex_error os rs))
          \<and> std_error m = spec_population_std (spec_per_vertex_error os rs))
       \<and> (\<exists>m. compute_errors (of_rows os) (of_rows os) = Inr m
          \<and> mse_total m = 0 \<and> mae_total m = 0
          \<and> mse_per_axis m = (0, 0, 0) \<and> mae_per_axis m = (0, 0, 0)
          \<and> max_error m = 0 \<and> min_error m = 0 \<and> std_error m = 0)"
proof
  show "\<exists>m. compute_errors (of_rows os) (of_rows rs) = Inr m
          \<and> mse_total m = spec_mse_total os rs
          \<and> mae_total m = spec_mae_total os rs
          \<and> per_vertex_error m = spec_per_vertex_error os rs
          \<and> max_error m = Max (set (spec_per_vertex_error os rs))
          \<and> min_error m = Min (set (spec_per_vertex_error os rs))
          \<and> std_error m = spec_population_std (spec_per_vertex_error os rs)"
    by (rule exI, rule conjI, rule compute_errors_rows [OF assms])
       (simp add: mean_flat_rows [OF assms(1)] per_vertex_error_spec [OF assms(1)]
          spec_mse_total_def spec_mae_total_def np_std_spec del: sum.insert)
  from assms(2) have n: "0 < length os" by simp
  then have s: "set (replicate (length os) (0 :: real)) = {0}" by simp
  show "\<exists>m. compute_errors (of_rows os) (of_rows os) = Inr m
          \<and> mse_total m = 0 \<and> mae_total m = 0
          \<and> mse_per_axis m = (0, 0, 0) \<and> mae_per_axis m = (0, 0, 0)
          \<and> max_error m = 0 \<and> min_error m = 0 \<and> std_error m = 0"
    by (rule exI, rule conjI, rule compute_errors_rows [OF refl assms(2)])
       (simp add: diff_rows_same mean_flat_zero mean_axis0_zero np_std_zero s
          del: set_replicate)
qed

theorem compute_errors_metrics_witness:
  "\<exists>m. compute_errors (of_rows [(0, 0, 0), (1, 2, 2)]) (of_rows [(0, 0, 0), (0, 0, 0)]) = Inr m
      \<and> mse_total m = 3 / 2 \<and> mae_total m = 5 / 6 \<and> per_vertex_error m = [0, 3]
      \<and> max_error m = 3 \<and> min_error m = 0 \<and> std_error m = 3 / 2"
proof -
  let ?O = "[(0, 0, 0), (1, 2, 2)] :: vec3 list"
  let ?R = "[(0, 0, 0), (0, 0, 0)] :: vec3 list"
  have h: "length ?O = length ?R" "?O \<noteq> []" by simp_all
  have p: "spec_per_vertex_error ?O ?R = [0, 3]"
  proof -
    have "sqrt ((3 :: real)\<^sup>2) = 3" by (simp only: real_sqrt_abs abs_numeral)
    then have "sqrt 9 = 3" by simp
    then show ?thesis
      by (simp add: spec_per_vertex_error_def spec_diff_def upt_rec)
  qed
  have a: "spec_mse_total ?O ?R = 3 / 2" "spec_mae_total ?O ?R = 5 / 6"
    by (simp_all add: spec_mse_total_def spec_mae_total_def spec_diff_def lessThan_Suc
        numeral_2_eq_2)
  have s: "spec_population_std [0, 3] = 3 / 2"
  proof -
    have "sqrt (((3 :: real) / 2)\<^sup>2) = \<bar>3 / 2\<bar>" by (rule real_sqrt_abs)
    then have "sqrt (9 / 4) = 3 / 2" by (simp add: power_divide)
    then show ?thesis
      by (simp add: spec_population_std_def lessThan_Suc numeral_2_eq_2 power_divide)
  qed
  from compute_errors_metrics [OF h] obtain m where
    m: "compute_errors (of_rows ?O) (of_rows ?R) = Inr m"
       "mse_total m = spec_mse_total ?O ?R"
       "mae_total m = spec_mae_total ?O ?R"
       "per_vertex_error m = spec_per_vertex_error ?O ?R"
       "max_error m = Max (set (spec_per_vertex_error ?O ?R))"
       "min_error m = Min (set (spec_per_vertex_error ?O ?R))"
       "std_error m = spec_population_std (spec_per_vertex_error ?O ?R)"
    by blast
  have "mse_total m = 3 / 2 \<and> mae_total m = 5 / 6 \<and> per_vertex_error m = [0, 3]
      \<and> max_error m = 3 \<and> min_error m = 0 \<and> std_error m = 3 / 2"
    unfolding m p a s by simp
  with m(1) show ?thesis by blast
qed

end
